theory Spec2Isabelle
  imports Complex_Main "HOL-Library.Word"
begin

section \<open>Galileo E1 DLL + PLL VEML tracking block\<close>

text \<open>
  A shallow embedding of \<^verbatim>\<open>galileo_e1_dll_pll_veml_tracking_cc.cc\<close>.

  Conventions of the embedding.
  \<^item> The object is a record \<open>tracking_cc\<close> with one field per data member the source
    file reads or writes; every member function takes the record and returns the new one.
  \<^item> \<^verbatim>\<open>float\<close> and \<^verbatim>\<open>double\<close> values are modelled by the real number they
    denote and every floating-point operation by the exact real operation. \<^verbatim>\<open>fmod\<close>,
    \<^verbatim>\<open>round\<close> and the comparisons are exact in IEEE arithmetic, so the sign and
    range facts below are those of the machine operation; sums and products are taken
    before rounding. Where the source would produce an infinity or a NaN (a floating-point
    division by zero, \<^verbatim>\<open>fmod\<close> by zero), the model returns the error \<open>NotFinite\<close>.
  \<^item> \<^verbatim>\<open>unsigned long\<close> is \<open>64 word\<close>, \<^verbatim>\<open>unsigned int\<close> is \<open>32 word\<close> (LP64).
    \<^verbatim>\<open>int\<close> members are mathematical integers: signed overflow is undefined in C++
    and no member reaches the limits in the properties proved here.
  \<^item> Reads and writes outside an array are undefined in C++; the model returns an error
    value for each of them.
  \<^item> Text printed to \<^verbatim>\<open>std::cout\<close> and the log is not part of the state.
  \<^item> Functions and constants of the repository that are declared in headers that are not
    part of this file (code generator, correlator, discriminators, C/N0 estimators, the
    Galileo and GPS constants, the file system) are fields of the record \<open>env\<close>: every
    theorem holds for all of them.
\<close>

subsection \<open>C numeric primitives\<close>

definition c_trunc :: "real \<Rightarrow> int" where
  \<comment> \<open>the cast \<^verbatim>\<open>(int)x\<close>: rounding towards zero\<close>
  "c_trunc x = (if 0 \<le> x then \<lfloor>x\<rfloor> else \<lceil>x\<rceil>)"

definition c_round :: "real \<Rightarrow> int" where
  \<comment> \<open>\<^verbatim>\<open>round\<close> of math.h: to nearest, halfway cases away from zero\<close>
  "c_round x = (if 0 \<le> x then \<lfloor>x + 1 / 2\<rfloor> else \<lceil>x - 1 / 2\<rceil>)"

definition c_fmod :: "real \<Rightarrow> real \<Rightarrow> real" where
  \<comment> \<open>\<^verbatim>\<open>fmod\<close> of math.h for a non-zero divisor: \<open>x - n * y\<close> with \<open>n\<close> the
      quotient truncated towards zero, so the result has the sign of \<open>x\<close>\<close>
  "c_fmod x y = x - of_int (c_trunc (x / y)) * y"

subsection \<open>Data model\<close>

datatype error =
    NullPointer
  | NotFinite
  | DivisionByZero
  | OutOfBounds int
  | BufferOverrun

record Gnss_Synchro =
  System :: char
  Signal :: string
  PRN :: nat
  Acq_delay_samples :: real
  Acq_doppler_hz :: real
  Acq_samplestamp_samples :: "64 word"
  Prompt_I :: real
  Prompt_Q :: real
  Tracking_timestamp_secs :: real
  Code_phase_secs :: real
  Carrier_phase_rads :: real
  CN0_dB_hz :: real

datatype dump_field = Float32 real | UInt64 "64 word" | Float64 real

fun field_bytes :: "dump_field \<Rightarrow> nat" where
  "field_bytes (Float32 _) = 4"
| "field_bytes (UInt64 _) = 8"
| "field_bytes (Float64 _) = 8"

record dump_file =
  file_name :: string
  file_data :: "dump_field list"

datatype ofstream = Closed | Failed | Opened dump_file

text \<open>
  The state of the \<^verbatim>\<open>std::ofstream\<close> member \<^verbatim>\<open>d_dump_file\<close>. \<open>Closed\<close> is a stream that
  is not open and has no error bit set, the state after construction. \<open>Opened f\<close> is a
  stream open on the file \<open>f\<close> with no error bit set. \<open>Failed\<close> is a stream with
  \<^verbatim>\<open>failbit\<close> or \<^verbatim>\<open>badbit\<close> set: a failing \<^verbatim>\<open>open\<close> sets \<^verbatim>\<open>failbit\<close>, a
  \<^verbatim>\<open>write\<close> to a stream that is not open sets \<^verbatim>\<open>badbit\<close>, and no member function
  clears an error bit or closes the stream. A failure of an open stream while writing is
  not modelled, so a stream with an error bit is one that is not open. The exception mask
  is not part of the state: both uses of the stream are inside a \<^verbatim>\<open>try\<close> block whose
  handler only prints, so a throwing call and one that only sets the error bit leave the
  same state.
\<close>

fun is_open :: "ofstream \<Rightarrow> bool" where
  "is_open (Opened f) = True"
| "is_open Closed = False"
| "is_open Failed = False"

fun stream_file :: "ofstream \<Rightarrow> dump_file option" where
  \<comment> \<open>the file behind an open stream\<close>
  "stream_file (Opened f) = Some f"
| "stream_file Closed = None"
| "stream_file Failed = None"

record loop_filter =
  lf_pdi :: real
  lf_tau1 :: real
  lf_tau2 :: real
  lf_acc :: real

record env =
  GPS_TWO_PI :: real
  Galileo_E1_CODE_CHIP_RATE_HZ :: real
  Galileo_E1_B_CODE_LENGTH_CHIPS :: nat
  galileo_e1_code_gen_complex_sampled :: "string \<Rightarrow> bool \<Rightarrow> nat \<Rightarrow> real \<Rightarrow> nat \<Rightarrow> complex list"
  Carrier_wipeoff_and_VEPL_volk ::
    "int \<Rightarrow> complex list \<Rightarrow> complex list \<Rightarrow> complex list \<Rightarrow> complex list \<Rightarrow> complex list
       \<Rightarrow> complex list \<Rightarrow> complex list \<Rightarrow> complex \<times> complex \<times> complex \<times> complex \<times> complex"
  pll_cloop_two_quadrant_atan :: "complex \<Rightarrow> real"
  dll_nc_vemlp_normalized :: "complex \<Rightarrow> complex \<Rightarrow> complex \<Rightarrow> complex \<Rightarrow> real"
  galileo_e1_CN0_SNV :: "complex list \<Rightarrow> int \<Rightarrow> int \<Rightarrow> real"
  carrier_lock_detector :: "complex list \<Rightarrow> int \<Rightarrow> real"
  file_open :: "string \<Rightarrow> bool"

record tracking_cc =
  d_debug_counter :: int
  d_queue :: "(32 word \<times> int) list option"
  d_dump :: bool
  d_if_freq :: int
  d_fs_in :: int
  d_vector_length :: "32 word"
  d_dump_filename :: string
  d_code_loop_filter :: loop_filter
  d_carrier_loop_filter :: loop_filter
  d_early_late_spc_chips :: real
  d_very_early_late_spc_chips :: real
  d_ca_code :: "complex list"
  d_very_early_code :: "complex list"
  d_early_code :: "complex list"
  d_prompt_code :: "complex list"
  d_late_code :: "complex list"
  d_very_late_code :: "complex list"
  d_carr_sign :: "complex list"
  d_Very_Early :: complex
  d_Early :: complex
  d_Prompt :: complex
  d_Late :: complex
  d_Very_Late :: complex
  d_code_freq_hz :: real
  d_rem_code_phase_samples :: real
  d_rem_carr_phase_rad :: real
  d_code_phase_step_chips :: real
  d_sample_counter :: "64 word"
  d_acq_sample_stamp :: "64 word"
  d_enable_tracking :: bool
  d_pull_in :: bool
  d_last_seg :: int
  d_current_prn_length_samples :: int
  d_cn0_estimation_counter :: int
  d_Prompt_buffer :: "complex list"
  d_carrier_lock_test :: real
  d_CN0_SNV_dB_Hz :: real
  d_carrier_lock_fail_counter :: int
  d_carrier_lock_threshold :: real
  d_acq_code_phase_samples :: real
  d_acq_carrier_doppler_hz :: real
  d_next_rem_code_phase_samples :: real
  d_acc_carrier_phase_rad :: real
  d_code_phase_samples :: real
  d_carrier_doppler_hz :: real
  d_next_prn_length_samples :: int
  d_channel :: "32 word"
  d_dump_file :: ofstream
  d_acquisition_gnss_synchro :: "Gnss_Synchro option"
  d_channel_internal_queue :: "nat option"

text \<open>
  \<open>d_queue = None\<close> is the null message-queue pointer; \<open>Some ms\<close> is a queue with the
  messages \<open>ms\<close> this block has handed to it, a message being the pair of arguments of
  \<^verbatim>\<open>GetQueueMessage\<close>.
  \<open>d_acquisition_gnss_synchro = None\<close> is a pointer that was never set; \<open>Some g\<close> holds
  the record it points to.
\<close>

definition CN0_ESTIMATION_SAMPLES :: int where
  "CN0_ESTIMATION_SAMPLES = 10"

definition MINIMUM_VALID_CN0 :: real where
  "MINIMUM_VALID_CN0 = 25"

definition MAXIMUM_LOCK_FAIL_COUNTER :: int where
  "MAXIMUM_LOCK_FAIL_COUNTER = 200"

subsection \<open>Loop filters\<close>

text \<open>
  Modelled from the spec: the classes \<^verbatim>\<open>Tracking_2nd_DLL_filter\<close> and
  \<^verbatim>\<open>Tracking_2nd_PLL_filter\<close> are not part of this source file. Section 4.1 of the
  specification gives them: with noise bandwidth \<open>Bn\<close> and damping \<open>0.707\<close>,
  \<open>\<omega>n = Bn / 0.53\<close>, \<open>\<tau>1 = 1 / \<omega>n\<^sup>2\<close>, \<open>\<tau>2 = 2 \<zeta> / \<omega>n\<close>; on an input \<open>e\<close> the
  accumulator becomes \<open>x + e T / \<tau>1\<close> and the output is the accumulator plus
  \<open>e \<tau>2 / \<tau>1\<close>; on tracking start the PLL accumulator is set so that the output is the
  acquisition Doppler and the DLL accumulator so that the output is zero.
\<close>

definition Tracking_2nd_filter :: "real \<Rightarrow> loop_filter" where
  \<comment> \<open>Modelled from the spec: constructor with the integration period\<close>
  "Tracking_2nd_filter pdi = \<lparr>lf_pdi = pdi, lf_tau1 = 0, lf_tau2 = 0, lf_acc = 0\<rparr>"

definition set_BW :: "real \<Rightarrow> loop_filter \<Rightarrow> loop_filter" where
  \<comment> \<open>Modelled from the spec: \<^verbatim>\<open>set_DLL_BW\<close> and \<^verbatim>\<open>set_PLL_BW\<close>\<close>
  "set_BW bn f =
     (let wn = bn / (53 / 100)
      in f\<lparr>lf_tau1 := 1 / (wn * wn), lf_tau2 := 2 * (707 / 1000) / wn\<rparr>)"

definition get_nco :: "real \<Rightarrow> loop_filter \<Rightarrow> real \<times> loop_filter" where
  \<comment> \<open>Modelled from the spec: \<^verbatim>\<open>get_code_nco\<close> and \<^verbatim>\<open>get_carrier_nco\<close>\<close>
  "get_nco e f =
     (let x = lf_acc f + e * lf_pdi f / lf_tau1 f
      in (x + e * lf_tau2 f / lf_tau1 f, f\<lparr>lf_acc := x\<rparr>))"

definition get_carrier_nco :: "real \<Rightarrow> loop_filter \<Rightarrow> real \<times> loop_filter" where
  \<comment> \<open>Modelled from the spec: the member of \<^verbatim>\<open>Tracking_2nd_PLL_filter\<close>; input in
      cycles, output in Hz, together with the filter after the call\<close>
  "get_carrier_nco = get_nco"

definition get_code_nco :: "real \<Rightarrow> loop_filter \<Rightarrow> real \<times> loop_filter" where
  \<comment> \<open>Modelled from the spec: the member of \<^verbatim>\<open>Tracking_2nd_DLL_filter\<close>; input in
      chips, output in Hz, together with the filter after the call\<close>
  "get_code_nco = get_nco"

definition PLL_initialize :: "real \<Rightarrow> loop_filter \<Rightarrow> loop_filter" where
  \<comment> \<open>Modelled from the spec: the accumulator is set so that the output equals the argument,
      the acquisition Doppler\<close>
  "PLL_initialize acq_carrier_doppler_hz f = f\<lparr>lf_acc := acq_carrier_doppler_hz\<rparr>"

definition DLL_initialize :: "real \<Rightarrow> loop_filter \<Rightarrow> loop_filter" where
  \<comment> \<open>Modelled from the spec: the accumulator is set so that the output is zero, whatever
      the argument\<close>
  "DLL_initialize acq_code_phase_samples f = f\<lparr>lf_acc := 0\<rparr>"

subsection \<open>Construction and configuration\<close>

definition forecast :: "tracking_cc \<Rightarrow> int" where
  \<comment> \<open>the value stored in \<^verbatim>\<open>ninput_items_required[0]\<close>\<close>
  "forecast s = sint (d_vector_length s) * 2"

definition galileo_e1_dll_pll_veml_tracking_cc ::
  "env \<Rightarrow> int \<Rightarrow> int \<Rightarrow> 32 word \<Rightarrow> (32 word \<times> int) list option \<Rightarrow> bool \<Rightarrow> string
     \<Rightarrow> real \<Rightarrow> real \<Rightarrow> real \<Rightarrow> real \<Rightarrow> (nat \<Rightarrow> complex) \<Rightarrow> tracking_cc \<Rightarrow> tracking_cc" where
  \<comment> \<open>The constructor. \<open>raw\<close> is the storage of the object before construction: the
      members the constructor does not assign keep its contents. \<open>mem\<close> gives the
      contents of the memory returned by \<^verbatim>\<open>posix_memalign\<close>; \<^verbatim>\<open>new gr_complex[n]\<close>
      yields zeros. The dump stream is constructed closed, and the two pointers that only
      \<^verbatim>\<open>set_gnss_synchro\<close> and \<^verbatim>\<open>set_channel_queue\<close> assign count as unset.\<close>
  "galileo_e1_dll_pll_veml_tracking_cc E if_freq fs_in vector_length queue dump dump_filename
       pll_bw_hz dll_bw_hz early_late_space_chips very_early_late_space_chips mem raw =
     (let n = 2 * unat vector_length;
          fresh = map mem [0..<n]
      in raw\<lparr>
        d_debug_counter := 0,
        d_queue := queue,
        d_dump := dump,
        d_if_freq := if_freq,
        d_fs_in := fs_in,
        d_vector_length := vector_length,
        d_dump_filename := dump_filename,
        d_code_loop_filter := set_BW dll_bw_hz (Tracking_2nd_filter (4 / 1000)),
        d_carrier_loop_filter := set_BW pll_bw_hz (Tracking_2nd_filter (4 / 1000)),
        d_early_late_spc_chips := early_late_space_chips,
        d_very_early_late_spc_chips := very_early_late_space_chips,
        d_ca_code := replicate (2 * Galileo_E1_B_CODE_LENGTH_CHIPS E + 4) 0,
        d_very_early_code := fresh,
        d_early_code := fresh,
        d_prompt_code := fresh,
        d_late_code := fresh,
        d_very_late_code := fresh,
        d_carr_sign := fresh,
        d_Very_Early := mem 0,
        d_Early := mem 0,
        d_Prompt := mem 0,
        d_Late := mem 0,
        d_Very_Late := mem 0,
        d_code_freq_hz := Galileo_E1_CODE_CHIP_RATE_HZ E,
        d_rem_code_phase_samples := 0,
        d_rem_carr_phase_rad := 0,
        d_code_phase_step_chips := Galileo_E1_CODE_CHIP_RATE_HZ E / real_of_int fs_in,
        d_sample_counter := 0,
        d_acq_sample_stamp := 0,
        d_enable_tracking := False,
        d_pull_in := False,
        d_last_seg := 0,
        d_current_prn_length_samples := sint vector_length,
        d_cn0_estimation_counter := 0,
        d_Prompt_buffer := replicate (nat CN0_ESTIMATION_SAMPLES) 0,
        d_carrier_lock_test := 1,
        d_CN0_SNV_dB_Hz := 0,
        d_carrier_lock_fail_counter := 0,
        d_carrier_lock_threshold := 20,
        d_dump_file := Closed,
        d_acquisition_gnss_synchro := None,
        d_channel_internal_queue := None
      \<rparr>)"

fun string_of_nat :: "nat \<Rightarrow> string" where
  "string_of_nat n =
     (if n < 10 then [''0123456789'' ! n]
      else string_of_nat (n div 10) @ [''0123456789'' ! (n mod 10)])"

definition set_channel :: "env \<Rightarrow> 32 word \<Rightarrow> tracking_cc \<Rightarrow> tracking_cc" where
  \<comment> \<open>\<^verbatim>\<open>boost::lexical_cast<std::string>\<close> of an unsigned integer is its decimal
      representation. \<^verbatim>\<open>d_dump_file.exceptions(failbit | badbit)\<close> calls
      \<^verbatim>\<open>clear(rdstate())\<close>, which throws when an error bit is set already: then
      \<^verbatim>\<open>open\<close> is not reached. A failing \<^verbatim>\<open>open\<close> sets \<^verbatim>\<open>failbit\<close> and throws. In
      both cases the handler prints and the two \<^verbatim>\<open>append\<close>s before stay done. A
      successful \<^verbatim>\<open>open\<close> with \<^verbatim>\<open>std::ios::out\<close> gives an empty file.\<close>
  "set_channel E channel s =
     (let s1 = s\<lparr>d_channel := channel\<rparr>
      in if d_dump s1 then
           (if \<not> is_open (d_dump_file s1) then
              (let s2 = s1\<lparr>d_dump_filename := d_dump_filename s1 @ string_of_nat (unat (d_channel s1))\<rparr>;
                   s3 = s2\<lparr>d_dump_filename := d_dump_filename s2 @ ''.dat''\<rparr>
               in if d_dump_file s3 = Failed then s3
                  else if file_open E (d_dump_filename s3)
                  then s3\<lparr>d_dump_file := Opened \<lparr>file_name = d_dump_filename s3, file_data = []\<rparr>\<rparr>
                  else s3\<lparr>d_dump_file := Failed\<rparr>)
            else s1)
         else s1)"

definition set_channel_queue :: "nat \<Rightarrow> tracking_cc \<Rightarrow> tracking_cc" where
  "set_channel_queue channel_internal_queue s =
     s\<lparr>d_channel_internal_queue := Some channel_internal_queue\<rparr>"

definition set_gnss_synchro :: "Gnss_Synchro \<Rightarrow> tracking_cc \<Rightarrow> tracking_cc" where
  "set_gnss_synchro p_gnss_synchro s = s\<lparr>d_acquisition_gnss_synchro := Some p_gnss_synchro\<rparr>"

subsection \<open>Array access\<close>

definition bind_err :: "error + 'a \<Rightarrow> ('a \<Rightarrow> error + 'b) \<Rightarrow> error + 'b" where
  "bind_err m f = (case m of Inl e \<Rightarrow> Inl e | Inr x \<Rightarrow> f x)"

definition write_at :: "'a list \<Rightarrow> nat \<Rightarrow> 'a list \<Rightarrow> error + 'a list" where
  \<comment> \<open>a callee writes the block \<open>ys\<close> into the array from index \<open>k\<close> on\<close>
  "write_at xs k ys =
     (if length xs < k + length ys then Inl BufferOverrun
      else Inr (take k xs @ ys @ drop (k + length ys) xs))"

definition memcpy_from :: "'a list \<Rightarrow> int \<Rightarrow> int \<Rightarrow> 'a list \<Rightarrow> error + 'a list" where
  \<comment> \<open>\<^verbatim>\<open>memcpy(dst, &src[off], n * sizeof(gr_complex))\<close>\<close>
  "memcpy_from src off n dst =
     (if n < 0 \<or> off < 0 \<or> int (length src) < off + n \<or> int (length dst) < n
      then Inl BufferOverrun
      else Inr (take (nat n) (drop (nat off) src) @ drop (nat n) dst))"

subsection \<open>Start of tracking\<close>

definition start_tracking :: "env \<Rightarrow> tracking_cc \<Rightarrow> error + tracking_cc" where
  "start_tracking E s =
     (case d_acquisition_gnss_synchro s of
        None \<Rightarrow> Inl NullPointer
      | Some acq \<Rightarrow>
         (let s1 = s\<lparr>d_acq_code_phase_samples := Acq_delay_samples acq,
                     d_acq_carrier_doppler_hz := Acq_doppler_hz acq,
                     d_acq_sample_stamp := Acq_samplestamp_samples acq\<rparr>;
              s2 = s1\<lparr>d_carrier_loop_filter :=
                         PLL_initialize (d_acq_carrier_doppler_hz s1) (d_carrier_loop_filter s1),
                      d_code_loop_filter :=
                         DLL_initialize (d_acq_code_phase_samples s1) (d_code_loop_filter s1)\<rparr>;
              code = galileo_e1_code_gen_complex_sampled E (Signal acq) False (PRN acq)
                       (2 * Galileo_E1_CODE_CHIP_RATE_HZ E) 0;
              m = 2 * Galileo_E1_B_CODE_LENGTH_CHIPS E
          in case write_at (d_ca_code s2) 2 code of
               Inl e \<Rightarrow> Inl e
             | Inr ca1 \<Rightarrow>
                if length ca1 < m + 4 then Inl (OutOfBounds (int m + 3))
                else
                  (let ca2 = ca1[0 := ca1 ! m];
                       ca3 = ca2[1 := ca2 ! (m + 1)];
                       ca4 = ca3[m + 2 := ca3 ! 2];
                       ca5 = ca4[m + 3 := ca4 ! 3]
                   in Inr (s2\<lparr>d_ca_code := ca5,
                              d_carrier_lock_fail_counter := 0,
                              d_rem_code_phase_samples := 0,
                              d_rem_carr_phase_rad := 0,
                              d_next_rem_code_phase_samples := 0,
                              d_acc_carrier_phase_rad := 0,
                              d_code_phase_samples := d_acq_code_phase_samples s2,
                              d_carrier_doppler_hz := d_acq_carrier_doppler_hz s2,
                              d_next_prn_length_samples := sint (d_vector_length s2),
                              d_pull_in := True,
                              d_enable_tracking := True\<rparr>))))"

subsection \<open>Local code and carrier replicas\<close>

definition associated_chip_index :: "real \<Rightarrow> real \<Rightarrow> int \<Rightarrow> int" where
  \<comment> \<open>\<^verbatim>\<open>2 + round(fmod(tcode_half_chips - 2*d_very_early_late_spc_chips,
      code_length_half_chips))\<close>\<close>
  "associated_chip_index tcode_half_chips very_early_late_spc_chips code_length_half_chips =
     2 + c_round (c_fmod (tcode_half_chips - 2 * very_early_late_spc_chips)
                         (real_of_int code_length_half_chips))"

fun fill_very_early ::
  "complex list \<Rightarrow> real \<Rightarrow> int \<Rightarrow> real \<Rightarrow> nat \<Rightarrow> nat \<Rightarrow> real \<Rightarrow> complex list
     \<Rightarrow> error + complex list" where
  \<comment> \<open>the loop of \<^verbatim>\<open>update_local_code\<close>; the first argument of type \<open>nat\<close> counts
      the iterations left, the second is the loop variable \<open>i\<close>\<close>
  "fill_very_early ca spc len step 0 i tcode ve = Inr ve"
| "fill_very_early ca spc len step (Suc k) i tcode ve =
     (let idx = associated_chip_index tcode spc len
      in if idx < 0 \<or> int (length ca) \<le> idx then Inl (OutOfBounds idx)
         else if length ve \<le> i then Inl BufferOverrun
         else fill_very_early ca spc len step k (Suc i) (tcode + step) (ve[i := ca ! nat idx]))"

definition update_local_code :: "env \<Rightarrow> tracking_cc \<Rightarrow> error + tracking_cc" where
  "update_local_code E s =
     (let code_length_half_chips = int (2 * Galileo_E1_B_CODE_LENGTH_CHIPS E);
          fs = real_of_int (d_fs_in s)
      in if d_fs_in s = 0 \<or> d_code_freq_hz s = 0 \<or> code_length_half_chips = 0 then Inl NotFinite
         else
          (let code_phase_step_chips = d_code_freq_hz s / fs;
               code_phase_step_half_chips = 2 * d_code_freq_hz s / fs;
               rem_code_phase_half_chips = d_rem_code_phase_samples s * (2 * d_code_freq_hz s / fs);
               tcode_half_chips = - rem_code_phase_half_chips;
               early_late_spc_samples = c_round (d_early_late_spc_chips s / code_phase_step_chips);
               very_early_late_spc_samples =
                 c_round (d_very_early_late_spc_chips s / code_phase_step_chips);
               epl_loop_length_samples =
                 d_current_prn_length_samples s + very_early_late_spc_samples * 2;
               n = d_current_prn_length_samples s
           in bind_err (fill_very_early (d_ca_code s) (d_very_early_late_spc_chips s)
                          code_length_half_chips code_phase_step_half_chips
                          (nat epl_loop_length_samples) 0 tcode_half_chips (d_very_early_code s))
               (\<lambda>ve. bind_err (memcpy_from ve (very_early_late_spc_samples - early_late_spc_samples)
                                 n (d_early_code s))
               (\<lambda>ec. bind_err (memcpy_from ve very_early_late_spc_samples n (d_prompt_code s))
               (\<lambda>pc. bind_err (memcpy_from ve (2 * very_early_late_spc_samples - early_late_spc_samples)
                                 n (d_late_code s))
               (\<lambda>lc. bind_err (memcpy_from ve (2 * very_early_late_spc_samples) n (d_very_late_code s))
               (\<lambda>vlc. Inr (s\<lparr>d_very_early_code := ve, d_early_code := ec, d_prompt_code := pc,
                              d_late_code := lc, d_very_late_code := vlc\<rparr>))))))))"

fun carrier_loop :: "nat \<Rightarrow> nat \<Rightarrow> real \<Rightarrow> real \<Rightarrow> complex list \<Rightarrow> error + real \<times> complex list" where
  \<comment> \<open>the loop of \<^verbatim>\<open>update_local_carrier\<close>: iterations left, loop variable \<open>i\<close>,
      phase step, running phase, \<^verbatim>\<open>d_carr_sign\<close>\<close>
  "carrier_loop 0 i phase_step_rad phase_rad cs = Inr (phase_rad, cs)"
| "carrier_loop (Suc k) i phase_step_rad phase_rad cs =
     (if length cs \<le> i then Inl BufferOverrun
      else carrier_loop k (Suc i) phase_step_rad (phase_rad + phase_step_rad)
             (cs[i := Complex (cos phase_rad) (sin phase_rad)]))"

definition update_local_carrier :: "env \<Rightarrow> tracking_cc \<Rightarrow> error + tracking_cc" where
  "update_local_carrier E s =
     (if d_fs_in s = 0 \<or> GPS_TWO_PI E = 0 then Inl NotFinite
      else
        (let phase_step_rad = GPS_TWO_PI E * d_carrier_doppler_hz s / real_of_int (d_fs_in s)
         in bind_err (carrier_loop (nat (d_current_prn_length_samples s)) 0 phase_step_rad
                        (d_rem_carr_phase_rad s) (d_carr_sign s))
             (\<lambda>(phase_rad, cs).
                let s1 = s\<lparr>d_carr_sign := cs, d_rem_carr_phase_rad := c_fmod phase_rad (GPS_TWO_PI E)\<rparr>
                in Inr (s1\<lparr>d_acc_carrier_phase_rad :=
                              d_acc_carrier_phase_rad s1 + d_rem_carr_phase_rad s1\<rparr>))))"

subsection \<open>The per-epoch entry point\<close>

record frame =
  carr_error :: real
  carr_nco :: real
  code_error :: real
  code_nco :: real
  current_synchro_data :: Gnss_Synchro

text \<open>
  A \<open>frame\<close> holds the local variables of \<^verbatim>\<open>general_work\<close>. The frame passed to a call
  gives their contents on entry: the four \<^verbatim>\<open>float\<close>s are declared without an
  initialiser and \<^verbatim>\<open>current_synchro_data\<close> is default-constructed (the class
  \<^verbatim>\<open>Gnss_Synchro\<close> is declared in a header that is not part of this file).
\<close>

record work_result =
  wr_state :: tracking_cc
  wr_consumed :: int
  wr_out :: "Gnss_Synchro option"
  wr_return :: int

text \<open>
  \<open>wr_consumed\<close> is the argument of \<^verbatim>\<open>consume_each\<close>, \<open>wr_return\<close> the returned number
  of output items, \<open>wr_out\<close> the record assigned to \<^verbatim>\<open>*out[0]\<close>, or \<open>None\<close> when the
  call does not assign it.
\<close>

definition pull_in_alignment :: "tracking_cc \<Rightarrow> error + work_result" where
  \<comment> \<open>the branch \<^verbatim>\<open>if (d_pull_in == true)\<close>. The difference of the two
      \<^verbatim>\<open>unsigned long\<close>s is stored in an \<^verbatim>\<open>int\<close>; \<^verbatim>\<open>samples_offset\<close> is
      converted to \<^verbatim>\<open>unsigned long\<close> for the sum.\<close>
  "pull_in_alignment s =
     (if d_next_prn_length_samples s = 0 then Inl NotFinite
      else
        (let acq_to_trk_delay_samples =
               sint (ucast (d_sample_counter s - d_acq_sample_stamp s) :: 32 word);
             acq_trk_shif_correction_samples =
               real_of_int (d_next_prn_length_samples s)
                 - c_fmod (real_of_int acq_to_trk_delay_samples)
                          (real_of_int (d_next_prn_length_samples s));
             samples_offset =
               c_round (d_acq_code_phase_samples s + acq_trk_shif_correction_samples);
             s1 = s\<lparr>d_sample_counter := d_sample_counter s + word_of_int samples_offset\<rparr>;
             s2 = s1\<lparr>d_pull_in := False\<rparr>;
             s3 = s2\<lparr>d_debug_counter := d_debug_counter s2 + 1\<rparr>
         in Inr \<lparr>wr_state = s3, wr_consumed = samples_offset, wr_out = None, wr_return = 1\<rparr>))"

definition correlate :: "env \<Rightarrow> complex list \<Rightarrow> tracking_cc \<Rightarrow> tracking_cc" where
  \<comment> \<open>the call of \<^verbatim>\<open>d_correlator.Carrier_wipeoff_and_VEPL_volk\<close>, which stores the five
      correlator outputs\<close>
  "correlate E inp s =
     (case Carrier_wipeoff_and_VEPL_volk E (d_current_prn_length_samples s) inp (d_carr_sign s)
             (d_very_early_code s) (d_early_code s) (d_prompt_code s) (d_late_code s)
             (d_very_late_code s) of
        (ve, e, p, l, vl) \<Rightarrow>
          s\<lparr>d_Very_Early := ve, d_Early := e, d_Prompt := p, d_Late := l, d_Very_Late := vl\<rparr>)"

definition update_loops :: "env \<Rightarrow> frame \<Rightarrow> tracking_cc \<Rightarrow> error + frame \<times> tracking_cc" where
  \<comment> \<open>PLL and DLL discriminators, loop filters, NCO commands and the length of the next
      block\<close>
  "update_loops E fr s =
     (if GPS_TWO_PI E = 0 \<or> d_fs_in s = 0 then Inl NotFinite
      else
        (let fr1 = fr\<lparr>carr_error := pll_cloop_two_quadrant_atan E (d_Prompt s) / GPS_TWO_PI E\<rparr>;
             (nco, pll) = get_carrier_nco (carr_error fr1) (d_carrier_loop_filter s);
             fr2 = fr1\<lparr>carr_nco := nco\<rparr>;
             s1 = s\<lparr>d_carrier_loop_filter := pll\<rparr>;
             s2 = s1\<lparr>d_carrier_doppler_hz := d_acq_carrier_doppler_hz s1 + carr_nco fr2\<rparr>;
             fr3 = fr2\<lparr>code_error := dll_nc_vemlp_normalized E (d_Very_Early s2) (d_Early s2)
                                        (d_Late s2) (d_Very_Late s2)\<rparr>;
             (cnco, dll) = get_code_nco (code_error fr3) (d_code_loop_filter s2);
             fr4 = fr3\<lparr>code_nco := cnco\<rparr>;
             s3 = s2\<lparr>d_code_loop_filter := dll\<rparr>;
             s4 = s3\<lparr>d_code_freq_hz := Galileo_E1_CODE_CHIP_RATE_HZ E - code_nco fr4\<rparr>
         in if d_code_freq_hz s4 = 0 then Inl NotFinite
            else
              (let s5 = s4\<lparr>d_code_phase_step_chips := d_code_freq_hz s4 / real_of_int (d_fs_in s4)\<rparr>;
                   T_chip_seconds = 1 / d_code_freq_hz s5;
                   T_prn_seconds = T_chip_seconds * real (Galileo_E1_B_CODE_LENGTH_CHIPS E);
                   T_prn_samples = T_prn_seconds * real_of_int (d_fs_in s5);
                   s6 = s5\<lparr>d_rem_code_phase_samples := d_next_rem_code_phase_samples s5\<rparr>;
                   K_blk_samples = T_prn_samples + d_rem_code_phase_samples s6;
                   s7 = s6\<lparr>d_next_prn_length_samples := c_round K_blk_samples\<rparr>;
                   s8 = s7\<lparr>d_next_rem_code_phase_samples :=
                              K_blk_samples - real_of_int (d_next_prn_length_samples s7)\<rparr>
               in Inr (fr4, s8))))"

definition fail_counter_update :: "tracking_cc \<Rightarrow> tracking_cc" where
  \<comment> \<open>the first \<^verbatim>\<open>if\<close> under TRACKING UNLOCK NOTIFICATION\<close>
  "fail_counter_update s =
     (if \<bar>d_carrier_lock_test s\<bar> > d_carrier_lock_threshold s
           \<or> d_CN0_SNV_dB_Hz s < MINIMUM_VALID_CN0
      then s\<lparr>d_carrier_lock_fail_counter := d_carrier_lock_fail_counter s + 1\<rparr>
      else if d_carrier_lock_fail_counter s > 0
           then s\<lparr>d_carrier_lock_fail_counter := d_carrier_lock_fail_counter s - 1\<rparr>
           else s)"

definition loss_of_lock :: "tracking_cc \<Rightarrow> tracking_cc" where
  \<comment> \<open>the second \<^verbatim>\<open>if\<close>: the message is handed over only to a non-null queue\<close>
  "loss_of_lock s =
     (if d_carrier_lock_fail_counter s > MAXIMUM_LOCK_FAIL_COUNTER then
        (let s1 = (case d_queue s of
                     None \<Rightarrow> s
                   | Some ms \<Rightarrow> s\<lparr>d_queue := Some (ms @ [(d_channel s, 2)])\<rparr>);
             s2 = s1\<lparr>d_carrier_lock_fail_counter := 0\<rparr>
         in s2\<lparr>d_enable_tracking := False\<rparr>)
      else s)"

definition lock_window :: "real \<Rightarrow> real \<Rightarrow> tracking_cc \<Rightarrow> tracking_cc" where
  \<comment> \<open>the \<^verbatim>\<open>else\<close> branch of the C/N0 section, given the values the two estimators
      return\<close>
  "lock_window cn0 lock_test s =
     (let s1 = s\<lparr>d_cn0_estimation_counter := 0\<rparr>;
          s2 = s1\<lparr>d_CN0_SNV_dB_Hz := cn0\<rparr>;
          s3 = s2\<lparr>d_carrier_lock_test := lock_test\<rparr>
      in loss_of_lock (fail_counter_update s3))"

definition cn0_and_lock :: "env \<Rightarrow> tracking_cc \<Rightarrow> error + tracking_cc" where
  \<comment> \<open>CN0 ESTIMATION AND LOCK DETECTORS\<close>
  "cn0_and_lock E s =
     (if d_cn0_estimation_counter s < CN0_ESTIMATION_SAMPLES then
        (if d_cn0_estimation_counter s < 0
              \<or> int (length (d_Prompt_buffer s)) \<le> d_cn0_estimation_counter s
         then Inl (OutOfBounds (d_cn0_estimation_counter s))
         else
           (let s1 = s\<lparr>d_Prompt_buffer :=
                         (d_Prompt_buffer s)[nat (d_cn0_estimation_counter s) := d_Prompt s]\<rparr>
            in Inr (s1\<lparr>d_cn0_estimation_counter := d_cn0_estimation_counter s1 + 1\<rparr>)))
      else
        Inr (lock_window
               (galileo_e1_CN0_SNV E (d_Prompt_buffer s) CN0_ESTIMATION_SAMPLES (d_fs_in s))
               (carrier_lock_detector E (d_Prompt_buffer s) CN0_ESTIMATION_SAMPLES) s))"

definition fill_synchro :: "frame \<Rightarrow> tracking_cc \<Rightarrow> frame" where
  \<comment> \<open>Output the tracking data to navigation and PVT\<close>
  "fill_synchro fr s =
     fr\<lparr>current_synchro_data := (current_synchro_data fr)\<lparr>
          Prompt_I := Im (d_Prompt s),
          Prompt_Q := Re (d_Prompt s),
          Tracking_timestamp_secs :=
            (real (unat (d_sample_counter s)) + real_of_int (d_next_prn_length_samples s)
               + d_next_rem_code_phase_samples s) / real_of_int (d_fs_in s),
          Code_phase_secs := 0,
          Carrier_phase_rads := d_acc_carrier_phase_rad s,
          CN0_dB_hz := d_CN0_SNV_dB_Hz s\<rparr>\<rparr>"

definition second_counter :: "tracking_cc \<Rightarrow> error + tracking_cc" where
  \<comment> \<open>DEBUG OUTPUT: both branches on \<^verbatim>\<open>d_channel\<close> update \<^verbatim>\<open>d_last_seg\<close> in the
      same way and differ in the text printed. \<^verbatim>\<open>d_sample_counter / d_fs_in\<close> is a
      division of \<^verbatim>\<open>unsigned long\<close>s.\<close>
  "second_counter s =
     (if (word_of_int (d_fs_in s) :: 64 word) = 0 then Inl DivisionByZero
      else
        (let seg = uint (d_sample_counter s div word_of_int (d_fs_in s))
         in if seg \<noteq> d_last_seg s then Inr (s\<lparr>d_last_seg := seg\<rparr>) else Inr s))"

definition tracking_epoch ::
  "env \<Rightarrow> complex list \<Rightarrow> frame \<Rightarrow> tracking_cc \<Rightarrow> error + frame \<times> tracking_cc" where
  \<comment> \<open>the branch \<^verbatim>\<open>d_enable_tracking == true\<close> after the pull-in test\<close>
  "tracking_epoch E inp fr s =
     (case d_acquisition_gnss_synchro s of
        None \<Rightarrow> Inl NullPointer
      | Some acq \<Rightarrow>
         (let fr1 = fr\<lparr>current_synchro_data := acq\<rparr>;
              s1 = s\<lparr>d_current_prn_length_samples := d_next_prn_length_samples s\<rparr>
          in bind_err (update_local_code E s1)
              (\<lambda>s2. bind_err (update_local_carrier E s2)
              (\<lambda>s3. bind_err (update_loops E fr1 (correlate E inp s3))
              (\<lambda>(fr2, s4). bind_err (cn0_and_lock E s4)
              (\<lambda>s5. bind_err (second_counter s5)
              (\<lambda>s6. Inr (fill_synchro fr2 s5, s6))))))))"

definition idle_epoch :: "tracking_cc \<Rightarrow> tracking_cc" where
  \<comment> \<open>the branch \<^verbatim>\<open>d_enable_tracking == false\<close>\<close>
  "idle_epoch s = s\<lparr>d_Early := 0, d_Prompt := 0, d_Late := 0\<rparr>"

definition dump_record :: "frame \<Rightarrow> tracking_cc \<Rightarrow> dump_field list" where
  \<comment> \<open>the values handed to \<^verbatim>\<open>d_dump_file.write\<close>, in the order of the calls, each with
      the type whose \<^verbatim>\<open>sizeof\<close> is written\<close>
  "dump_record fr s =
     [Float32 (cmod (d_Very_Early s)),
      Float32 (cmod (d_Early s)),
      Float32 (cmod (d_Prompt s)),
      Float32 (cmod (d_Late s)),
      Float32 (cmod (d_Very_Late s)),
      Float32 (Im (d_Prompt s)),
      Float32 (Re (d_Prompt s)),
      UInt64 (d_sample_counter s),
      Float32 (d_acc_carrier_phase_rad s),
      Float32 (d_carrier_doppler_hz s),
      Float32 (d_code_freq_hz s),
      Float32 (carr_error fr),
      Float32 (carr_nco fr),
      Float32 (code_error fr),
      Float32 (code_nco fr),
      Float32 (d_CN0_SNV_dB_Hz s),
      Float32 (d_carrier_lock_test s),
      Float32 (d_rem_code_phase_samples s),
      Float64 (real (unat (d_sample_counter s + word_of_int (d_current_prn_length_samples s))))]"

definition write_dump :: "frame \<Rightarrow> tracking_cc \<Rightarrow> tracking_cc" where
  \<comment> \<open>\<^verbatim>\<open>if(d_dump)\<close>: the writes to a stream that is not open store nothing and leave
      it with an error bit; a failure of an open stream while writing is not modelled\<close>
  "write_dump fr s =
     (if d_dump s then
        (case d_dump_file s of
           Opened f \<Rightarrow> s\<lparr>d_dump_file := Opened (f\<lparr>file_data := file_data f @ dump_record fr s\<rparr>)\<rparr>
         | Closed \<Rightarrow> s\<lparr>d_dump_file := Failed\<rparr>
         | Failed \<Rightarrow> s)
      else s)"

definition finish_epoch :: "frame \<Rightarrow> tracking_cc \<Rightarrow> work_result" where
  \<comment> \<open>the code after the two branches: dump, \<^verbatim>\<open>consume_each\<close>, counters, return,
      with \<^verbatim>\<open>*out[0] = current_synchro_data\<close> of the branch before\<close>
  "finish_epoch fr s =
     (let s1 = write_dump fr s;
          s2 = s1\<lparr>d_sample_counter :=
                     d_sample_counter s1 + word_of_int (d_current_prn_length_samples s1)\<rparr>;
          s3 = s2\<lparr>d_debug_counter := d_debug_counter s2 + 1\<rparr>
      in \<lparr>wr_state = s3, wr_consumed = d_current_prn_length_samples s1,
          wr_out = Some (current_synchro_data fr), wr_return = 1\<rparr>)"

definition general_work :: "env \<Rightarrow> complex list \<Rightarrow> frame \<Rightarrow> tracking_cc \<Rightarrow> error + work_result" where
  "general_work E inp fr s =
     (if d_enable_tracking s then
        (if d_pull_in s then pull_in_alignment s
         else bind_err (tracking_epoch E inp fr s) (\<lambda>(fr1, s1). Inr (finish_epoch fr1 s1)))
      else Inr (finish_epoch fr (idle_epoch s)))"

subsection \<open>Runs of the block\<close>

inductive reachable :: "env \<Rightarrow> tracking_cc \<Rightarrow> bool" for E :: env where
  reach_new:
    "reachable E (galileo_e1_dll_pll_veml_tracking_cc E if_freq fs_in vector_length queue dump
        dump_filename pll_bw_hz dll_bw_hz early_late_space_chips very_early_late_space_chips
        mem raw)"
| reach_set_channel: "reachable E s \<Longrightarrow> reachable E (set_channel E channel s)"
| reach_set_channel_queue: "reachable E s \<Longrightarrow> reachable E (set_channel_queue q s)"
| reach_set_gnss_synchro: "reachable E s \<Longrightarrow> reachable E (set_gnss_synchro g s)"
| reach_start_tracking: "reachable E s \<Longrightarrow> start_tracking E s = Inr s' \<Longrightarrow> reachable E s'"
| reach_general_work:
    "reachable E s \<Longrightarrow> general_work E inp fr s = Inr r \<Longrightarrow> reachable E (wr_state r)"

text \<open>
  \<open>reachable E s\<close>: the object state \<open>s\<close> arises from the constructor by calls of the
  public member functions that return.
\<close>

inductive configured :: "env \<Rightarrow> string \<Rightarrow> tracking_cc \<Rightarrow> bool"
  for E :: env and dump_filename :: string where
  conf_new:
    "configured E dump_filename
       (galileo_e1_dll_pll_veml_tracking_cc E if_freq fs_in vector_length queue dump
          dump_filename pll_bw_hz dll_bw_hz early_late_space_chips very_early_late_space_chips
          mem raw)"
| conf_set_channel:
    "configured E dump_filename s \<Longrightarrow> configured E dump_filename (set_channel E channel s)"
| conf_set_channel_queue:
    "configured E dump_filename s \<Longrightarrow> configured E dump_filename (set_channel_queue q s)"
| conf_set_gnss_synchro:
    "configured E dump_filename s \<Longrightarrow> configured E dump_filename (set_gnss_synchro g s)"
| conf_start_tracking:
    "configured E dump_filename s \<Longrightarrow> start_tracking E s = Inr s'
       \<Longrightarrow> configured E dump_filename s'"
| conf_general_work:
    "configured E dump_filename s \<Longrightarrow> general_work E inp fr s = Inr r
       \<Longrightarrow> configured E dump_filename (wr_state r)"

text \<open>
  \<open>configured E dump_filename s\<close>: the same, for an object constructed with the dump file
  name \<open>dump_filename\<close>.
\<close>

fun run_epochs :: "env \<Rightarrow> (complex list \<times> frame) list \<Rightarrow> tracking_cc \<Rightarrow> error + tracking_cc" where
  \<comment> \<open>successive calls of \<^verbatim>\<open>general_work\<close>, each with its input buffer and its frame\<close>
  "run_epochs E [] s = Inr s"
| "run_epochs E (c # cs) s =
     bind_err (general_work E (fst c) (snd c) s) (\<lambda>r. run_epochs E cs (wr_state r))"

fun run_windows :: "(real \<times> real) list \<Rightarrow> tracking_cc \<Rightarrow> tracking_cc" where
  \<comment> \<open>successive C/N0 evaluation windows, each given by the C/N0 estimate and the lock
      test the estimators return; windows are evaluated only while tracking is enabled\<close>
  "run_windows [] s = s"
| "run_windows (w # ws) s =
     (if d_enable_tracking s then run_windows ws (lock_window (fst w) (snd w) s) else s)"

definition window_fails :: "tracking_cc \<Rightarrow> real \<times> real \<Rightarrow> bool" where
  \<comment> \<open>the condition under which the source increments the fail counter, for a window
      given by C/N0 estimate and lock test\<close>
  "window_fails s w \<longleftrightarrow> \<bar>snd w\<bar> > d_carrier_lock_threshold s \<or> fst w < MINIMUM_VALID_CN0"

definition cyclic_extension :: "nat \<Rightarrow> 'a list \<Rightarrow> bool" where
  \<comment> \<open>invariant 3 of the specification, for an array of \<open>2L + 4\<close> cells\<close>
  "cyclic_extension L ca \<longleftrightarrow>
     length ca = 2 * L + 4 \<and> ca ! 0 = ca ! (2 * L) \<and> ca ! 1 = ca ! (2 * L + 1)
       \<and> ca ! (2 * L + 2) = ca ! 2 \<and> ca ! (2 * L + 3) = ca ! 3"

definition epoch_body :: "env \<Rightarrow> complex list \<Rightarrow> frame \<Rightarrow> tracking_cc \<Rightarrow> error + frame \<times> tracking_cc" where
  \<comment> \<open>frame and state of a call that is not a pull-in alignment when it reaches the dump
      section\<close>
  "epoch_body E inp fr s =
     (if d_enable_tracking s then tracking_epoch E inp fr s else Inr (fr, idle_epoch s))"

subsection \<open>The statements of the specification that differ from the source\<close>

definition spec_carrier_lock_threshold :: real where
  \<comment> \<open>specification, section 3: \<^verbatim>\<open>carrier_lock_threshold = 0.85\<close>\<close>
  "spec_carrier_lock_threshold = 85 / 100"

definition spec_window_fails :: "real \<times> real \<Rightarrow> bool" where
  \<comment> \<open>specification, section 4.5, with the threshold of section 3\<close>
  "spec_window_fails w \<longleftrightarrow> \<bar>snd w\<bar> > spec_carrier_lock_threshold \<or> fst w < 25"

definition spec_dump_filename :: "string \<Rightarrow> 32 word \<Rightarrow> string" where
  \<comment> \<open>specification, section 6: \<^verbatim>\<open><dump_filename>_<channel>.dat\<close>\<close>
  "spec_dump_filename dump_filename channel =
     dump_filename @ ''_'' @ string_of_nat (unat channel) @ ''.dat''"

subsection \<open>A concrete receiver\<close>

definition example_env :: env where
  \<comment> \<open>the constants as in Galileo E1 (4092 chips at 1.023 Mchip/s) and the double nearest
      to \<open>2\<pi>\<close>; a code generator that writes two samples per chip; estimators that
      return zero; a file system in which every file can be opened\<close>
  "example_env =
     \<lparr>GPS_TWO_PI = 6283185307179586 / 1000000000000000,
      Galileo_E1_CODE_CHIP_RATE_HZ = 1023000,
      Galileo_E1_B_CODE_LENGTH_CHIPS = 4092,
      galileo_e1_code_gen_complex_sampled = (\<lambda>sig cboc prn fs shift. replicate 8184 1),
      Carrier_wipeoff_and_VEPL_volk = (\<lambda>n inp cs ve e p l vl. (0, 0, 0, 0, 0)),
      pll_cloop_two_quadrant_atan = (\<lambda>p. 0),
      dll_nc_vemlp_normalized = (\<lambda>ve e l vl. 0),
      galileo_e1_CN0_SNV = (\<lambda>buf n fs. 0),
      carrier_lock_detector = (\<lambda>buf n. 0),
      file_open = (\<lambda>name. True)\<rparr>"

definition example_synchro :: "real \<Rightarrow> Gnss_Synchro" where
  \<comment> \<open>an acquisition result with the given Doppler and a code phase of 123 samples\<close>
  "example_synchro doppler =
     \<lparr>System = CHR ''E'', Signal = ''1B'', PRN = 11, Acq_delay_samples = 123,
      Acq_doppler_hz = doppler, Acq_samplestamp_samples = 0, Prompt_I = 0, Prompt_Q = 0,
      Tracking_timestamp_secs = 0, Code_phase_secs = 0, Carrier_phase_rads = 0,
      CN0_dB_hz = 0\<rparr>"

definition example_frame :: frame where
  "example_frame =
     \<lparr>carr_error = 0, carr_nco = 0, code_error = 0, code_nco = 0,
      current_synchro_data = example_synchro 0\<rparr>"

definition raw_object :: tracking_cc where
  "raw_object =
     \<lparr>d_debug_counter = 0, d_queue = None, d_dump = False, d_if_freq = 0, d_fs_in = 0,
      d_vector_length = 0, d_dump_filename = [],
      d_code_loop_filter = Tracking_2nd_filter 0, d_carrier_loop_filter = Tracking_2nd_filter 0,
      d_early_late_spc_chips = 0, d_very_early_late_spc_chips = 0,
      d_ca_code = [], d_very_early_code = [], d_early_code = [], d_prompt_code = [],
      d_late_code = [], d_very_late_code = [], d_carr_sign = [],
      d_Very_Early = 0, d_Early = 0, d_Prompt = 0, d_Late = 0, d_Very_Late = 0,
      d_code_freq_hz = 0, d_rem_code_phase_samples = 0, d_rem_carr_phase_rad = 0,
      d_code_phase_step_chips = 0, d_sample_counter = 0, d_acq_sample_stamp = 0,
      d_enable_tracking = False, d_pull_in = False, d_last_seg = 0,
      d_current_prn_length_samples = 0, d_cn0_estimation_counter = 0, d_Prompt_buffer = [],
      d_carrier_lock_test = 0, d_CN0_SNV_dB_Hz = 0, d_carrier_lock_fail_counter = 0,
      d_carrier_lock_threshold = 0, d_acq_code_phase_samples = 0,
      d_acq_carrier_doppler_hz = 0, d_next_rem_code_phase_samples = 0,
      d_acc_carrier_phase_rad = 0, d_code_phase_samples = 0, d_carrier_doppler_hz = 0,
      d_next_prn_length_samples = 0, d_channel = 0, d_dump_file = Closed,
      d_acquisition_gnss_synchro = None, d_channel_internal_queue = None\<rparr>"

definition new_tracker :: "(32 word \<times> int) list option \<Rightarrow> bool \<Rightarrow> real \<Rightarrow> tracking_cc" where
  \<comment> \<open>the constructor with \<^verbatim>\<open>fs_in = 4000000\<close>, \<^verbatim>\<open>vector_length = 16000\<close>, loop
      bandwidths 20 Hz and 2 Hz, an early-late spacing of 0.15 chips, and the given queue,
      dump flag and very-early-late spacing\<close>
  "new_tracker queue dump very_early_late_space_chips =
     galileo_e1_dll_pll_veml_tracking_cc example_env 0 4000000 16000 queue dump ''trk''
       20 2 (15 / 100) very_early_late_space_chips (\<lambda>a. 0) raw_object"

definition started_tracker :: "(32 word \<times> int) list option \<Rightarrow> bool \<Rightarrow> real \<Rightarrow> real \<Rightarrow> tracking_cc" where
  \<comment> \<open>\<^verbatim>\<open>set_channel(3)\<close>, \<^verbatim>\<open>set_gnss_synchro\<close> and \<^verbatim>\<open>start_tracking\<close> on the new
      object\<close>
  "started_tracker queue dump very_early_late_space_chips doppler =
     projr (start_tracking example_env
              (set_gnss_synchro (example_synchro doppler)
                 (set_channel example_env 3
                    (new_tracker queue dump very_early_late_space_chips))))"

definition aligned_tracker :: "(32 word \<times> int) list option \<Rightarrow> bool \<Rightarrow> real \<Rightarrow> real \<Rightarrow> tracking_cc" where
  \<comment> \<open>the state after the pull-in call that follows\<close>
  "aligned_tracker queue dump very_early_late_space_chips doppler =
     wr_state (projr (general_work example_env (replicate 32000 0) example_frame
                        (started_tracker queue dump very_early_late_space_chips doppler)))"

definition locked_env :: env where
  \<comment> \<open>as \<open>example_env\<close>, with a file system in which \<^verbatim>\<open>trk3.dat\<close> cannot be opened\<close>
  "locked_env = example_env\<lparr>file_open := (\<lambda>name. name \<noteq> ''trk3.dat'')\<rparr>"

definition locked_tracker :: tracking_cc where
  \<comment> \<open>the constructor as in \<open>new_tracker\<close>, in that environment, with dump enabled\<close>
  "locked_tracker =
     galileo_e1_dll_pll_veml_tracking_cc locked_env 0 4000000 16000 None True ''trk''
       20 2 (15 / 100) (3 / 5) (\<lambda>a. 0) raw_object"

definition window_tracker :: "(32 word \<times> int) list option \<Rightarrow> bool \<Rightarrow> real \<Rightarrow> tracking_cc" where
  \<comment> \<open>the state after ten further calls, which fill the Prompt buffer: the next call
      evaluates the first C/N0 window\<close>
  "window_tracker queue dump doppler =
     projr (run_epochs example_env (replicate 10 (replicate 32000 0, example_frame))
              (aligned_tracker queue dump (3 / 5) doppler))"

subsection \<open>Members an operation leaves alone\<close>

definition same_control :: "tracking_cc \<Rightarrow> tracking_cc \<Rightarrow> bool" where
  \<comment> \<open>the second state has the same configuration, lock monitor, local code, dump stream
      and sample counter as the first\<close>
  "same_control s s' \<longleftrightarrow>
     d_carrier_lock_fail_counter s' = d_carrier_lock_fail_counter s
     \<and> d_carrier_lock_threshold s' = d_carrier_lock_threshold s
     \<and> d_cn0_estimation_counter s' = d_cn0_estimation_counter s
     \<and> d_Prompt_buffer s' = d_Prompt_buffer s
     \<and> d_CN0_SNV_dB_Hz s' = d_CN0_SNV_dB_Hz s
     \<and> d_carrier_lock_test s' = d_carrier_lock_test s
     \<and> d_queue s' = d_queue s
     \<and> d_channel s' = d_channel s
     \<and> d_enable_tracking s' = d_enable_tracking s
     \<and> d_pull_in s' = d_pull_in s
     \<and> d_ca_code s' = d_ca_code s
     \<and> d_dump s' = d_dump s
     \<and> d_dump_file s' = d_dump_file s
     \<and> d_dump_filename s' = d_dump_filename s
     \<and> d_fs_in s' = d_fs_in s
     \<and> d_vector_length s' = d_vector_length s
     \<and> d_acquisition_gnss_synchro s' = d_acquisition_gnss_synchro s
     \<and> d_sample_counter s' = d_sample_counter s
     \<and> d_acq_sample_stamp s' = d_acq_sample_stamp s"

definition object_inv :: "env \<Rightarrow> tracking_cc \<Rightarrow> bool" where
  \<comment> \<open>what holds of the lock monitor and of the size of the local code in every state
      between calls\<close>
  "object_inv E s \<longleftrightarrow>
     d_carrier_lock_threshold s = 20
     \<and> 0 \<le> d_carrier_lock_fail_counter s
     \<and> d_carrier_lock_fail_counter s \<le> MAXIMUM_LOCK_FAIL_COUNTER
     \<and> 0 \<le> d_cn0_estimation_counter s
     \<and> d_cn0_estimation_counter s \<le> CN0_ESTIMATION_SAMPLES
     \<and> length (d_Prompt_buffer s) = nat CN0_ESTIMATION_SAMPLES
     \<and> length (d_ca_code s) = 2 * Galileo_E1_B_CODE_LENGTH_CHIPS E + 4"

definition monitor :: "tracking_cc \<Rightarrow> int \<times> bool \<times> (32 word \<times> int) list option \<times> real \<times> 32 word" where
  \<comment> \<open>the members the loss-of-lock decision reads and writes\<close>
  "monitor s =
     (d_carrier_lock_fail_counter s, d_enable_tracking s, d_queue s, d_carrier_lock_threshold s,
      d_channel s)"

definition steady_tracker :: "int \<Rightarrow> tracking_cc \<Rightarrow> bool" where
  \<comment> \<open>the concrete receiver between two tracking epochs, with the given number of Prompt
      values in the C/N0 buffer: its estimators return zero, so the loops stay at rest\<close>
  "steady_tracker k s \<longleftrightarrow>
     d_enable_tracking s \<and> \<not> d_pull_in s
     \<and> d_acquisition_gnss_synchro s \<noteq> None
     \<and> d_fs_in s = 4000000
     \<and> d_code_freq_hz s = 1023000
     \<and> d_next_prn_length_samples s = 16000
     \<and> d_next_rem_code_phase_samples s = 0
     \<and> d_rem_code_phase_samples s = 0
     \<and> d_very_early_late_spc_chips s = 3 / 5
     \<and> d_early_late_spc_chips s = 3 / 20
     \<and> length (d_ca_code s) = 8188
     \<and> length (d_very_early_code s) = 32000
     \<and> length (d_early_code s) = 32000
     \<and> length (d_prompt_code s) = 32000
     \<and> length (d_late_code s) = 32000
     \<and> length (d_very_late_code s) = 32000
     \<and> length (d_carr_sign s) = 32000
     \<and> lf_acc (d_code_loop_filter s) = 0
     \<and> d_cn0_estimation_counter s = k
     \<and> length (d_Prompt_buffer s) = 10"

section \<open>Auxiliary lemmas\<close>

subsection \<open>The numeric primitives\<close>

lemma c_trunc_bounds_nonneg:
  "0 \<le> x \<Longrightarrow> real_of_int (c_trunc x) \<le> x \<and> x < real_of_int (c_trunc x) + 1"
  by (auto simp: c_trunc_def; linarith)

lemma c_trunc_bounds_neg:
  "x < 0 \<Longrightarrow> x \<le> real_of_int (c_trunc x) \<and> real_of_int (c_trunc x) < x + 1"
  by (auto simp: c_trunc_def; linarith)

lemma c_fmod_nonneg:
  assumes "0 < y" "0 \<le> x"
  shows "0 \<le> c_fmod x y \<and> c_fmod x y < y"
proof -
  have q: "0 \<le> x / y" using assms by simp
  from c_trunc_bounds_nonneg [OF q]
  have a: "real_of_int (c_trunc (x / y)) \<le> x / y" and b: "x / y < real_of_int (c_trunc (x / y)) + 1"
    by simp_all
  from a have "real_of_int (c_trunc (x / y)) * y \<le> x"
    using assms(1) by (simp add: pos_le_divide_eq)
  moreover from b have "x < (real_of_int (c_trunc (x / y)) + 1) * y"
    using assms(1) by (simp add: pos_divide_less_eq)
  ultimately show ?thesis unfolding c_fmod_def by (simp add: algebra_simps)
qed

lemma c_fmod_neg:
  assumes "0 < y" "x < 0"
  shows "- y < c_fmod x y \<and> c_fmod x y \<le> 0"
proof -
  have q: "x / y < 0" using assms by (simp add: divide_neg_pos)
  from c_trunc_bounds_neg [OF q]
  have a: "x / y \<le> real_of_int (c_trunc (x / y))" and b: "real_of_int (c_trunc (x / y)) < x / y + 1"
    by simp_all
  from a have "x \<le> real_of_int (c_trunc (x / y)) * y"
    using assms(1) by (simp add: pos_divide_le_eq)
  moreover from b have "real_of_int (c_trunc (x / y)) - 1 < x / y" by linarith
  then have "(real_of_int (c_trunc (x / y)) - 1) * y < x"
    using assms(1) by (simp add: pos_less_divide_eq)
  ultimately show ?thesis unfolding c_fmod_def by (simp add: algebra_simps)
qed

lemma c_fmod_small:
  assumes "0 < y" "\<bar>x\<bar> < y"
  shows "c_fmod x y = x"
proof -
  from assms have "- y < x" "x < y" by linarith+
  then have "- 1 < x / y" "x / y < 1"
    using assms(1) by (simp_all add: pos_less_divide_eq pos_divide_less_eq)
  then have "c_trunc (x / y) = 0"
    unfolding c_trunc_def by (auto simp: floor_eq_iff ceiling_eq_iff)
  then show ?thesis by (simp add: c_fmod_def)
qed

lemma c_round_mono: "x \<le> y \<Longrightarrow> c_round x \<le> c_round y"
  unfolding c_round_def by (auto simp: floor_mono ceiling_mono; linarith)

lemma c_round_of_int: "c_round (real_of_int n) = n"
  unfolding c_round_def by (auto; linarith)

subsection \<open>The constructor\<close>

lemma new_object_fields:
  fixes E if_freq fs_in vector_length queue dump dump_filename pll_bw_hz dll_bw_hz
    early_late_space_chips very_early_late_space_chips mem raw
  defines "C \<equiv> galileo_e1_dll_pll_veml_tracking_cc E if_freq fs_in vector_length queue dump
        dump_filename pll_bw_hz dll_bw_hz early_late_space_chips very_early_late_space_chips
        mem raw"
  shows "d_enable_tracking C = False"
    and "d_pull_in C = False"
    and "d_carrier_lock_threshold C = 20"
    and "d_carrier_lock_fail_counter C = 0"
    and "d_cn0_estimation_counter C = 0"
    and "length (d_Prompt_buffer C) = 10"
    and "length (d_ca_code C) = 2 * Galileo_E1_B_CODE_LENGTH_CHIPS E + 4"
    and "d_current_prn_length_samples C = sint vector_length"
    and "d_sample_counter C = 0"
    and "d_dump C = dump"
    and "d_dump_file C = Closed"
    and "d_dump_filename C = dump_filename"
    and "d_queue C = queue"
    and "d_fs_in C = fs_in"
    and "d_vector_length C = vector_length"
    and "d_early_late_spc_chips C = early_late_space_chips"
    and "d_very_early_late_spc_chips C = very_early_late_space_chips"
    and "d_code_freq_hz C = Galileo_E1_CODE_CHIP_RATE_HZ E"
    and "d_rem_code_phase_samples C = 0"
    and "d_acquisition_gnss_synchro C = None"
    and "length (d_carr_sign C) = 2 * unat vector_length"
    and "length (d_very_early_code C) = 2 * unat vector_length"
    and "length (d_early_code C) = 2 * unat vector_length"
    and "length (d_prompt_code C) = 2 * unat vector_length"
    and "length (d_late_code C) = 2 * unat vector_length"
    and "length (d_very_late_code C) = 2 * unat vector_length"
  unfolding C_def
  by (simp_all add: galileo_e1_dll_pll_veml_tracking_cc_def Let_def CN0_ESTIMATION_SAMPLES_def)

subsection \<open>The idle state\<close>

lemma general_work_idle:
  "\<not> d_enable_tracking s \<Longrightarrow> general_work E inp fr s = Inr (finish_epoch fr (idle_epoch s))"
  by (simp add: general_work_def)

lemma write_dump_fields:
  "d_sample_counter (write_dump fr s) = d_sample_counter s"
  "d_current_prn_length_samples (write_dump fr s) = d_current_prn_length_samples s"
  "d_Early (write_dump fr s) = d_Early s"
  "d_Prompt (write_dump fr s) = d_Prompt s"
  "d_Late (write_dump fr s) = d_Late s"
  "d_enable_tracking (write_dump fr s) = d_enable_tracking s"
  "d_ca_code (write_dump fr s) = d_ca_code s"
  by (simp_all add: write_dump_def split: option.split ofstream.split)

subsection \<open>What the stages of an epoch leave unchanged\<close>

lemma same_control_refl: "same_control s s"
  by (simp add: same_control_def)

lemma same_control_trans: "same_control s t \<Longrightarrow> same_control t u \<Longrightarrow> same_control s u"
  by (simp add: same_control_def)

lemma bind_err_Inr:
  "bind_err m f = Inr y \<Longrightarrow> \<exists>x. m = Inr x \<and> f x = Inr y"
  by (cases m) (simp_all add: bind_err_def)

lemma update_local_code_control:
  assumes "update_local_code E s = Inr s'"
  shows "same_control s s'"
proof -
  from assms obtain ve ec pc lc vlc where
    "s' = s\<lparr>d_very_early_code := ve, d_early_code := ec, d_prompt_code := pc,
            d_late_code := lc, d_very_late_code := vlc\<rparr>"
    unfolding update_local_code_def Let_def
    by (auto split: if_splits dest!: bind_err_Inr)
  then show ?thesis by (simp add: same_control_def)
qed

lemma update_local_code_length:
  assumes "update_local_code E s = Inr s'"
  shows "d_current_prn_length_samples s' = d_current_prn_length_samples s"
proof -
  from assms obtain ve ec pc lc vlc where
    "s' = s\<lparr>d_very_early_code := ve, d_early_code := ec, d_prompt_code := pc,
            d_late_code := lc, d_very_late_code := vlc\<rparr>"
    unfolding update_local_code_def Let_def
    by (auto split: if_splits dest!: bind_err_Inr)
  then show ?thesis by simp
qed

lemma update_local_carrier_control:
  assumes "update_local_carrier E s = Inr s'"
  shows "same_control s s' \<and> d_current_prn_length_samples s' = d_current_prn_length_samples s"
  using assms unfolding update_local_carrier_def Let_def
  by (auto split: if_splits prod.splits simp: same_control_def dest!: bind_err_Inr)

lemma correlate_control:
  "same_control s (correlate E inp s) \<and> d_current_prn_length_samples (correlate E inp s) = d_current_prn_length_samples s"
  by (simp add: correlate_def same_control_def split: prod.split)

lemma update_loops_control:
  assumes "update_loops E fr s = Inr (fr', s')"
  shows "same_control s s' \<and> d_current_prn_length_samples s' = d_current_prn_length_samples s"
  using assms unfolding update_loops_def Let_def
  by (auto split: if_splits prod.splits simp: same_control_def)

lemma second_counter_shape:
  assumes "second_counter s = Inr s'"
  shows "\<exists>seg. s' = s\<lparr>d_last_seg := seg\<rparr>"
  using assms unfolding second_counter_def Let_def
  by (auto split: if_splits intro: exI [of _ "d_last_seg s"])

lemma tracking_epoch_decomp:
  assumes "tracking_epoch E inp fr s = Inr (fr', s')"
  shows "\<exists>s4 s5 fr2. same_control s s4 \<and> cn0_and_lock E s4 = Inr s5 \<and> second_counter s5 = Inr s'
            \<and> fr' = fill_synchro fr2 s5
            \<and> d_current_prn_length_samples s4 = d_next_prn_length_samples s"
proof -
  from assms obtain acq where acq: "d_acquisition_gnss_synchro s = Some acq"
    unfolding tracking_epoch_def by (auto split: option.splits)
  define s1 where "s1 = s\<lparr>d_current_prn_length_samples := d_next_prn_length_samples s\<rparr>"
  define fr1 where "fr1 = fr\<lparr>current_synchro_data := acq\<rparr>"
  from assms acq obtain s2 s3 fr2 s4 s5 where
    a: "update_local_code E s1 = Inr s2" and
    b: "update_local_carrier E s2 = Inr s3" and
    c: "update_loops E fr1 (correlate E inp s3) = Inr (fr2, s4)" and
    d: "cn0_and_lock E s4 = Inr s5" and
    e: "second_counter s5 = Inr s'" and
    f: "fr' = fill_synchro fr2 s5"
    unfolding tracking_epoch_def Let_def s1_def fr1_def
    by (auto dest!: bind_err_Inr split: prod.splits)
  have "same_control s s1" by (simp add: s1_def same_control_def)
  moreover have "d_current_prn_length_samples s1 = d_next_prn_length_samples s" by (simp add: s1_def)
  moreover note update_local_code_control [OF a] update_local_code_length [OF a]
    update_local_carrier_control [OF b] correlate_control [of s3 E inp] update_loops_control [OF c]
  ultimately have "same_control s s4 \<and> d_current_prn_length_samples s4 = d_next_prn_length_samples s"
    by (auto simp: same_control_def)
  with d e f show ?thesis by blast
qed

subsection \<open>The lock monitor\<close>

lemma lock_window_fields:
  fixes s cn0 lock_test
  defines "c1 \<equiv> (if \<bar>lock_test\<bar> > d_carrier_lock_threshold s \<or> cn0 < 25
                   then d_carrier_lock_fail_counter s + 1
                   else if d_carrier_lock_fail_counter s > 0
                        then d_carrier_lock_fail_counter s - 1
                        else d_carrier_lock_fail_counter s)"
  shows "d_carrier_lock_fail_counter (lock_window cn0 lock_test s) = (if c1 > 200 then 0 else c1)"
    and "d_enable_tracking (lock_window cn0 lock_test s)
           = (if c1 > 200 then False else d_enable_tracking s)"
    and "d_queue (lock_window cn0 lock_test s)
           = (if c1 > 200 then map_option (\<lambda>ms. ms @ [(d_channel s, 2)]) (d_queue s)
              else d_queue s)"
    and "d_carrier_lock_threshold (lock_window cn0 lock_test s) = d_carrier_lock_threshold s"
    and "d_channel (lock_window cn0 lock_test s) = d_channel s"
    and "d_CN0_SNV_dB_Hz (lock_window cn0 lock_test s) = cn0"
    and "d_carrier_lock_test (lock_window cn0 lock_test s) = lock_test"
    and "d_cn0_estimation_counter (lock_window cn0 lock_test s) = 0"
    and "d_Prompt_buffer (lock_window cn0 lock_test s) = d_Prompt_buffer s"
    and "d_ca_code (lock_window cn0 lock_test s) = d_ca_code s"
    and "d_dump (lock_window cn0 lock_test s) = d_dump s"
    and "d_dump_file (lock_window cn0 lock_test s) = d_dump_file s"
    and "d_pull_in (lock_window cn0 lock_test s) = d_pull_in s"
    and "d_current_prn_length_samples (lock_window cn0 lock_test s) = d_current_prn_length_samples s"
    and "d_sample_counter (lock_window cn0 lock_test s) = d_sample_counter s"
  unfolding c1_def
  by (auto simp: lock_window_def loss_of_lock_def fail_counter_update_def Let_def
        MINIMUM_VALID_CN0_def MAXIMUM_LOCK_FAIL_COUNTER_def split: option.splits)

lemma cn0_and_lock_window:
  "\<not> d_cn0_estimation_counter s < CN0_ESTIMATION_SAMPLES \<Longrightarrow>
     cn0_and_lock E s =
       Inr (lock_window (galileo_e1_CN0_SNV E (d_Prompt_buffer s) CN0_ESTIMATION_SAMPLES (d_fs_in s))
              (carrier_lock_detector E (d_Prompt_buffer s) CN0_ESTIMATION_SAMPLES) s)"
  by (simp add: cn0_and_lock_def)

lemma cn0_and_lock_fill:
  assumes "d_cn0_estimation_counter s < CN0_ESTIMATION_SAMPLES" and "cn0_and_lock E s = Inr s'"
  shows "s' = s\<lparr>d_Prompt_buffer := (d_Prompt_buffer s)[nat (d_cn0_estimation_counter s) := d_Prompt s],
              d_cn0_estimation_counter := d_cn0_estimation_counter s + 1\<rparr>"
  using assms by (auto simp: cn0_and_lock_def Let_def split: if_splits)

lemma run_windows_disabled: "\<not> d_enable_tracking s \<Longrightarrow> run_windows ws s = s"
  by (cases ws) simp_all

lemma run_windows_append: "run_windows (ws @ vs) s = run_windows vs (run_windows ws s)"
  by (induction ws arbitrary: s) (simp_all add: run_windows_disabled)

lemma run_windows_bounded:
  assumes "d_enable_tracking s" and "0 \<le> d_carrier_lock_fail_counter s"
    and "d_carrier_lock_fail_counter s + int (length ws) \<le> 200"
  shows "d_enable_tracking (run_windows ws s)
         \<and> d_queue (run_windows ws s) = d_queue s
         \<and> d_channel (run_windows ws s) = d_channel s
         \<and> d_carrier_lock_threshold (run_windows ws s) = d_carrier_lock_threshold s
         \<and> 0 \<le> d_carrier_lock_fail_counter (run_windows ws s)
         \<and> d_carrier_lock_fail_counter (run_windows ws s)
              \<le> d_carrier_lock_fail_counter s + int (length ws)"
  using assms
proof (induction ws arbitrary: s)
  case Nil
  then show ?case by simp
next
  case (Cons w ws)
  let ?t = "lock_window (fst w) (snd w) s"
  have t: "d_enable_tracking ?t" "d_queue ?t = d_queue s" "d_channel ?t = d_channel s"
    "d_carrier_lock_threshold ?t = d_carrier_lock_threshold s"
    "0 \<le> d_carrier_lock_fail_counter ?t"
    "d_carrier_lock_fail_counter ?t \<le> d_carrier_lock_fail_counter s + 1"
    using Cons.prems by (auto simp: lock_window_fields)
  then have "d_carrier_lock_fail_counter ?t + int (length ws) \<le> 200"
    using Cons.prems by simp
  from Cons.IH [OF t(1) t(5) this] t Cons.prems(1) show ?case by auto
qed

lemma run_windows_failing:
  assumes "d_enable_tracking s" and "0 \<le> d_carrier_lock_fail_counter s"
    and "d_carrier_lock_fail_counter s + int (length ws) \<le> 200"
    and "list_all (window_fails s) ws"
  shows "d_carrier_lock_fail_counter (run_windows ws s)
           = d_carrier_lock_fail_counter s + int (length ws)"
  using assms
proof (induction ws arbitrary: s)
  case Nil
  then show ?case by simp
next
  case (Cons w ws)
  let ?t = "lock_window (fst w) (snd w) s"
  have w: "window_fails s w" and ws: "list_all (window_fails s) ws"
    using Cons.prems(4) by simp_all
  have t: "d_enable_tracking ?t" "d_carrier_lock_threshold ?t = d_carrier_lock_threshold s"
    "d_carrier_lock_fail_counter ?t = d_carrier_lock_fail_counter s + 1"
    using Cons.prems(1,2,3) w by (auto simp: lock_window_fields window_fails_def MINIMUM_VALID_CN0_def)
  have "window_fails ?t = window_fails s"
    by (rule ext) (simp add: window_fails_def t(2))
  with ws have ws': "list_all (window_fails ?t) ws" by simp
  have "0 \<le> d_carrier_lock_fail_counter ?t" "d_carrier_lock_fail_counter ?t + int (length ws) \<le> 200"
    using t(3) Cons.prems by simp_all
  from Cons.IH [OF t(1) this ws'] t(3) Cons.prems(1) show ?case by simp
qed

subsection \<open>Start of tracking\<close>

lemma write_at_length: "write_at xs k ys = Inr zs \<Longrightarrow> length zs = length xs"
  by (auto simp: write_at_def split: if_splits)

lemma start_tracking_returns:
  assumes "d_acquisition_gnss_synchro s = Some acq"
    and "length (d_ca_code s) = 2 * Galileo_E1_B_CODE_LENGTH_CHIPS E + 4"
    and "length (galileo_e1_code_gen_complex_sampled E (Signal acq) False (PRN acq)
                   (2 * Galileo_E1_CODE_CHIP_RATE_HZ E) 0)
           \<le> 2 * Galileo_E1_B_CODE_LENGTH_CHIPS E + 2"
  shows "\<exists>s'. start_tracking E s = Inr s'"
  using assms by (simp add: start_tracking_def Let_def write_at_def)

lemma start_tracking_fields:
  assumes "start_tracking E s = Inr s'"
  shows "d_acquisition_gnss_synchro s \<noteq> None"
    and "d_acq_code_phase_samples s' = Acq_delay_samples (the (d_acquisition_gnss_synchro s))"
    and "d_acq_carrier_doppler_hz s' = Acq_doppler_hz (the (d_acquisition_gnss_synchro s))"
    and "d_carrier_doppler_hz s' = Acq_doppler_hz (the (d_acquisition_gnss_synchro s))"
    and "d_acq_sample_stamp s' = Acq_samplestamp_samples (the (d_acquisition_gnss_synchro s))"
    and "d_carrier_loop_filter s'
           = PLL_initialize (Acq_doppler_hz (the (d_acquisition_gnss_synchro s)))
               (d_carrier_loop_filter s)"
    and "d_code_loop_filter s'
           = DLL_initialize (Acq_delay_samples (the (d_acquisition_gnss_synchro s)))
               (d_code_loop_filter s)"
    and "d_pull_in s'" and "d_enable_tracking s'"
    and "d_carrier_lock_fail_counter s' = 0"
    and "d_next_prn_length_samples s' = sint (d_vector_length s)"
    and "d_rem_code_phase_samples s' = 0" and "d_rem_carr_phase_rad s' = 0"
    and "d_next_rem_code_phase_samples s' = 0" and "d_acc_carrier_phase_rad s' = 0"
    and "d_sample_counter s' = d_sample_counter s"
    and "d_queue s' = d_queue s" and "d_channel s' = d_channel s"
    and "d_dump s' = d_dump s" and "d_dump_file s' = d_dump_file s"
    and "d_carrier_lock_threshold s' = d_carrier_lock_threshold s"
    and "d_cn0_estimation_counter s' = d_cn0_estimation_counter s"
    and "d_Prompt_buffer s' = d_Prompt_buffer s"
    and "d_fs_in s' = d_fs_in s" and "d_vector_length s' = d_vector_length s"
    and "d_current_prn_length_samples s' = d_current_prn_length_samples s"
    and "d_very_early_late_spc_chips s' = d_very_early_late_spc_chips s"
    and "d_early_late_spc_chips s' = d_early_late_spc_chips s"
    and "d_code_freq_hz s' = d_code_freq_hz s"
    and "d_carr_sign s' = d_carr_sign s"
    and "d_very_early_code s' = d_very_early_code s"
    and "d_acquisition_gnss_synchro s' = d_acquisition_gnss_synchro s"
    and "length (d_ca_code s') = length (d_ca_code s)"
  using assms unfolding start_tracking_def Let_def
  by (auto split: option.splits sum.splits if_splits dest: write_at_length)

lemma start_tracking_cyclic_extension:
  assumes "start_tracking E s = Inr s'"
    and "length (d_ca_code s) = 2 * Galileo_E1_B_CODE_LENGTH_CHIPS E + 4"
  shows "cyclic_extension (Galileo_E1_B_CODE_LENGTH_CHIPS E) (d_ca_code s')"
proof -
  define m where "m = 2 * Galileo_E1_B_CODE_LENGTH_CHIPS E"
  from assms obtain ca1 where
    len: "length ca1 = m + 4" and
    ca: "d_ca_code s' = ca1[0 := ca1 ! m, 1 := (ca1[0 := ca1 ! m]) ! (m + 1),
           m + 2 := (ca1[0 := ca1 ! m, 1 := (ca1[0 := ca1 ! m]) ! (m + 1)]) ! 2,
           m + 3 := (ca1[0 := ca1 ! m, 1 := (ca1[0 := ca1 ! m]) ! (m + 1),
              m + 2 := (ca1[0 := ca1 ! m, 1 := (ca1[0 := ca1 ! m]) ! (m + 1)]) ! 2]) ! 3]"
    unfolding start_tracking_def Let_def m_def
    by (auto split: option.splits sum.splits if_splits dest: write_at_length)
  have cases: "m = 0 \<or> 2 \<le> m"
    by (cases "Galileo_E1_B_CODE_LENGTH_CHIPS E") (auto simp: m_def)
  show ?thesis
    unfolding cyclic_extension_def m_def [symmetric] ca
    using len cases by (auto simp: nth_list_update)
qed

subsection \<open>Invariants of the reachable states\<close>

lemma finish_epoch_control:
  "d_carrier_lock_fail_counter (wr_state (finish_epoch fr s)) = d_carrier_lock_fail_counter s"
  "d_carrier_lock_threshold (wr_state (finish_epoch fr s)) = d_carrier_lock_threshold s"
  "d_cn0_estimation_counter (wr_state (finish_epoch fr s)) = d_cn0_estimation_counter s"
  "d_Prompt_buffer (wr_state (finish_epoch fr s)) = d_Prompt_buffer s"
  "d_ca_code (wr_state (finish_epoch fr s)) = d_ca_code s"
  "d_queue (wr_state (finish_epoch fr s)) = d_queue s"
  "d_channel (wr_state (finish_epoch fr s)) = d_channel s"
  "d_enable_tracking (wr_state (finish_epoch fr s)) = d_enable_tracking s"
  "d_CN0_SNV_dB_Hz (wr_state (finish_epoch fr s)) = d_CN0_SNV_dB_Hz s"
  "d_carrier_lock_test (wr_state (finish_epoch fr s)) = d_carrier_lock_test s"
  by (simp_all add: finish_epoch_def Let_def write_dump_def split: option.split ofstream.split)

lemma pull_in_alignment_control:
  assumes "pull_in_alignment s = Inr r"
  shows "same_control s ((wr_state r)\<lparr>d_pull_in := d_pull_in s, d_sample_counter := d_sample_counter s\<rparr>)"
  using assms unfolding pull_in_alignment_def Let_def
  by (auto split: if_splits simp: same_control_def)

lemma cn0_and_lock_cases:
  assumes "cn0_and_lock E s = Inr s'"
  shows "(d_cn0_estimation_counter s < CN0_ESTIMATION_SAMPLES
            \<and> 0 \<le> d_cn0_estimation_counter s
            \<and> s' = s\<lparr>d_Prompt_buffer := (d_Prompt_buffer s)[nat (d_cn0_estimation_counter s) := d_Prompt s],
                     d_cn0_estimation_counter := d_cn0_estimation_counter s + 1\<rparr>)
         \<or> (\<not> d_cn0_estimation_counter s < CN0_ESTIMATION_SAMPLES
            \<and> (\<exists>cn0 lock_test. s' = lock_window cn0 lock_test s))"
  using assms by (auto simp: cn0_and_lock_def Let_def split: if_splits)

lemma general_work_pull_in:
  "d_enable_tracking s \<Longrightarrow> d_pull_in s \<Longrightarrow> general_work E inp fr s = pull_in_alignment s"
  by (simp add: general_work_def)

lemma general_work_tracking:
  assumes "general_work E inp fr s = Inr r" and "d_enable_tracking s" and "\<not> d_pull_in s"
  shows "\<exists>fr1 s1. tracking_epoch E inp fr s = Inr (fr1, s1) \<and> r = finish_epoch fr1 s1"
  using assms by (auto simp: general_work_def dest!: bind_err_Inr)

lemma object_inv_lock_window:
  assumes "object_inv E s"
  shows "object_inv E (lock_window cn0 lock_test s)"
  using assms
  by (auto simp: object_inv_def lock_window_fields MAXIMUM_LOCK_FAIL_COUNTER_def
        CN0_ESTIMATION_SAMPLES_def)

lemma object_inv_cn0_and_lock:
  assumes "object_inv E s" and "cn0_and_lock E s = Inr s'"
  shows "object_inv E s'"
  using cn0_and_lock_cases [OF assms(2)] assms(1) object_inv_lock_window [OF assms(1)]
  by (auto simp: object_inv_def CN0_ESTIMATION_SAMPLES_def)

lemma object_inv_same_control:
  "same_control s s' \<Longrightarrow> object_inv E s \<Longrightarrow> object_inv E s'"
  by (simp add: object_inv_def same_control_def)

lemma object_inv_finish_epoch:
  "object_inv E s \<Longrightarrow> object_inv E (wr_state (finish_epoch fr s))"
  by (simp add: object_inv_def finish_epoch_control)

lemma object_inv_general_work:
  assumes "object_inv E s" and "general_work E inp fr s = Inr r"
  shows "object_inv E (wr_state r)"
proof (cases "d_enable_tracking s")
  case False
  then have "r = finish_epoch fr (idle_epoch s)"
    using assms(2) by (simp add: general_work_idle)
  moreover have "object_inv E (idle_epoch s)"
    using assms(1) by (simp add: object_inv_def idle_epoch_def)
  ultimately show ?thesis by (simp add: object_inv_finish_epoch)
next
  case True
  show ?thesis
  proof (cases "d_pull_in s")
    case True
    with \<open>d_enable_tracking s\<close> assms(2) have "pull_in_alignment s = Inr r"
      by (simp add: general_work_pull_in)
    from pull_in_alignment_control [OF this] assms(1) show ?thesis
      by (simp add: object_inv_def same_control_def)
  next
    case False
    from general_work_tracking [OF assms(2) \<open>d_enable_tracking s\<close> False]
    obtain fr1 s1 where te: "tracking_epoch E inp fr s = Inr (fr1, s1)" and r: "r = finish_epoch fr1 s1"
      by blast
    from tracking_epoch_decomp [OF te] obtain s4 s5 where
      a: "same_control s s4" and b: "cn0_and_lock E s4 = Inr s5" and c: "second_counter s5 = Inr s1"
      by blast
    have "object_inv E s5"
      using object_inv_cn0_and_lock [OF object_inv_same_control [OF a assms(1)] b] .
    moreover from second_counter_shape [OF c] obtain seg where "s1 = s5\<lparr>d_last_seg := seg\<rparr>" ..
    ultimately have "object_inv E s1" by (simp add: object_inv_def)
    then show ?thesis by (simp add: r object_inv_finish_epoch)
  qed
qed

lemma set_channel_fields:
  "d_carrier_lock_threshold (set_channel E ch s) = d_carrier_lock_threshold s"
  "d_carrier_lock_fail_counter (set_channel E ch s) = d_carrier_lock_fail_counter s"
  "d_cn0_estimation_counter (set_channel E ch s) = d_cn0_estimation_counter s"
  "d_Prompt_buffer (set_channel E ch s) = d_Prompt_buffer s"
  "d_ca_code (set_channel E ch s) = d_ca_code s"
  "d_channel (set_channel E ch s) = ch"
  "d_queue (set_channel E ch s) = d_queue s"
  "d_dump (set_channel E ch s) = d_dump s"
  "d_enable_tracking (set_channel E ch s) = d_enable_tracking s"
  "d_pull_in (set_channel E ch s) = d_pull_in s"
  "d_vector_length (set_channel E ch s) = d_vector_length s"
  "d_fs_in (set_channel E ch s) = d_fs_in s"
  "d_sample_counter (set_channel E ch s) = d_sample_counter s"
  "d_current_prn_length_samples (set_channel E ch s) = d_current_prn_length_samples s"
  "d_very_early_late_spc_chips (set_channel E ch s) = d_very_early_late_spc_chips s"
  "d_early_late_spc_chips (set_channel E ch s) = d_early_late_spc_chips s"
  "d_code_freq_hz (set_channel E ch s) = d_code_freq_hz s"
  "d_carr_sign (set_channel E ch s) = d_carr_sign s"
  "d_very_early_code (set_channel E ch s) = d_very_early_code s"
  by (simp_all add: set_channel_def Let_def)

lemma reachable_object_inv: "reachable E s \<Longrightarrow> object_inv E s"
proof (induction rule: reachable.induct)
  case reach_new
  show ?case
    by (simp add: object_inv_def new_object_fields MAXIMUM_LOCK_FAIL_COUNTER_def
          CN0_ESTIMATION_SAMPLES_def)
next
  case (reach_set_channel s channel)
  then show ?case by (simp add: object_inv_def set_channel_fields)
next
  case (reach_set_channel_queue s q)
  then show ?case by (simp add: object_inv_def set_channel_queue_def)
next
  case (reach_set_gnss_synchro s g)
  then show ?case by (simp add: object_inv_def set_gnss_synchro_def)
next
  case (reach_start_tracking s s')
  from reach_start_tracking(3)
  show ?case
    by (simp add: object_inv_def MAXIMUM_LOCK_FAIL_COUNTER_def
          start_tracking_fields [OF reach_start_tracking(2)])
next
  case (reach_general_work s inp fr r)
  then show ?case using object_inv_general_work by blast
qed

lemma general_work_window_epoch:
  assumes "general_work E inp fr s = Inr r" and "d_enable_tracking s" and "\<not> d_pull_in s"
    and "\<not> d_cn0_estimation_counter s < CN0_ESTIMATION_SAMPLES"
  defines "w \<equiv> lock_window
                  (galileo_e1_CN0_SNV E (d_Prompt_buffer s) CN0_ESTIMATION_SAMPLES (d_fs_in s))
                  (carrier_lock_detector E (d_Prompt_buffer s) CN0_ESTIMATION_SAMPLES) s"
  shows "d_carrier_lock_fail_counter (wr_state r) = d_carrier_lock_fail_counter w
         \<and> d_enable_tracking (wr_state r) = d_enable_tracking w
         \<and> d_queue (wr_state r) = d_queue w
         \<and> d_CN0_SNV_dB_Hz (wr_state r) = d_CN0_SNV_dB_Hz w
         \<and> d_carrier_lock_test (wr_state r) = d_carrier_lock_test w"
proof -
  from general_work_tracking [OF assms(1,2,3)]
  obtain fr1 s1 where te: "tracking_epoch E inp fr s = Inr (fr1, s1)" and r: "r = finish_epoch fr1 s1"
    by blast
  from tracking_epoch_decomp [OF te] obtain s4 s5 where
    a: "same_control s s4" and b: "cn0_and_lock E s4 = Inr s5" and c: "second_counter s5 = Inr s1"
    by blast
  from second_counter_shape [OF c] obtain seg where s1: "s1 = s5\<lparr>d_last_seg := seg\<rparr>" ..
  have "\<not> d_cn0_estimation_counter s4 < CN0_ESTIMATION_SAMPLES"
    using a assms(4) by (simp add: same_control_def)
  from cn0_and_lock_window [OF this, of E] b
  have s5: "s5 = lock_window
                  (galileo_e1_CN0_SNV E (d_Prompt_buffer s4) CN0_ESTIMATION_SAMPLES (d_fs_in s4))
                  (carrier_lock_detector E (d_Prompt_buffer s4) CN0_ESTIMATION_SAMPLES) s4"
    by simp
  show ?thesis
    using a unfolding r s1 s5 w_def
    by (simp add: finish_epoch_control lock_window_fields same_control_def)
qed

lemma general_work_fill_epoch:
  assumes "general_work E inp fr s = Inr r" and "d_enable_tracking s" and "\<not> d_pull_in s"
    and "d_cn0_estimation_counter s < CN0_ESTIMATION_SAMPLES"
  shows "d_carrier_lock_fail_counter (wr_state r) = d_carrier_lock_fail_counter s
         \<and> d_enable_tracking (wr_state r) \<and> d_queue (wr_state r) = d_queue s"
proof -
  from general_work_tracking [OF assms(1,2,3)]
  obtain fr1 s1 where te: "tracking_epoch E inp fr s = Inr (fr1, s1)" and r: "r = finish_epoch fr1 s1"
    by blast
  from tracking_epoch_decomp [OF te] obtain s4 s5 where
    a: "same_control s s4" and b: "cn0_and_lock E s4 = Inr s5" and c: "second_counter s5 = Inr s1"
    by blast
  from second_counter_shape [OF c] obtain seg where s1: "s1 = s5\<lparr>d_last_seg := seg\<rparr>" ..
  have "d_cn0_estimation_counter s4 < CN0_ESTIMATION_SAMPLES"
    using a assms(4) by (simp add: same_control_def)
  from cn0_and_lock_fill [OF this b] a assms(2) show ?thesis
    unfolding r s1 by (simp add: finish_epoch_control same_control_def)
qed

subsection \<open>The concrete receiver\<close>

lemma started_tracker_eq:
  "start_tracking example_env
     (set_gnss_synchro (example_synchro d) (set_channel example_env 3 (new_tracker q dump vel)))
   = Inr (started_tracker q dump vel d)"
proof -
  let ?s = "set_gnss_synchro (example_synchro d) (set_channel example_env 3 (new_tracker q dump vel))"
  have "\<exists>s'. start_tracking example_env ?s = Inr s'"
  proof (rule start_tracking_returns)
    show "d_acquisition_gnss_synchro ?s = Some (example_synchro d)"
      by (simp add: set_gnss_synchro_def)
    show "length (d_ca_code ?s) = 2 * Galileo_E1_B_CODE_LENGTH_CHIPS example_env + 4"
      by (simp add: set_gnss_synchro_def set_channel_fields new_tracker_def new_object_fields)
    show "length (galileo_e1_code_gen_complex_sampled example_env (Signal (example_synchro d)) False
             (PRN (example_synchro d)) (2 * Galileo_E1_CODE_CHIP_RATE_HZ example_env) 0)
          \<le> 2 * Galileo_E1_B_CODE_LENGTH_CHIPS example_env + 2"
      by (simp add: example_env_def)
  qed
  then show ?thesis by (auto simp: started_tracker_def)
qed

lemma started_tracker_fields:
  fixes q dump vel d
  defines "t \<equiv> started_tracker q dump vel d"
  shows "d_enable_tracking t" and "d_pull_in t"
    and "d_carrier_lock_fail_counter t = 0"
    and "d_carrier_lock_threshold t = 20"
    and "d_queue t = q" and "d_channel t = 3"
    and "d_next_prn_length_samples t = 16000"
    and "d_current_prn_length_samples t = 16000"
    and "d_acq_code_phase_samples t = 123"
    and "d_sample_counter t = 0" and "d_acq_sample_stamp t = 0"
    and "d_dump t = dump"
    and "d_dump_file t = (if dump then Opened \<lparr>file_name = ''trk3.dat'', file_data = []\<rparr> else Closed)"
    and "d_carrier_doppler_hz t = d" and "d_acq_carrier_doppler_hz t = d"
    and "d_fs_in t = 4000000"
    and "d_rem_carr_phase_rad t = 0" and "d_rem_code_phase_samples t = 0"
    and "d_very_early_late_spc_chips t = vel"
    and "d_early_late_spc_chips t = 15 / 100"
    and "d_code_freq_hz t = 1023000"
    and "length (d_carr_sign t) = 32000"
    and "length (d_very_early_code t) = 32000"
    and "length (d_ca_code t) = 8188"
    and "d_acquisition_gnss_synchro t = Some (example_synchro d)"
  unfolding t_def
  by (simp_all add: start_tracking_fields [OF started_tracker_eq [of d q dump vel]]
        set_gnss_synchro_def set_channel_fields new_tracker_def new_object_fields
        example_synchro_def set_channel_def Let_def example_env_def)

lemma reachable_started_tracker: "reachable example_env (started_tracker q dump vel d)"
  by (rule reach_start_tracking [OF _ started_tracker_eq])
     (intro reach_set_gnss_synchro reach_set_channel, unfold new_tracker_def, rule reach_new)

subsection \<open>The cyclic extension of the local code\<close>

lemma general_work_ca_code:
  assumes "general_work E inp fr s = Inr r"
  shows "d_ca_code (wr_state r) = d_ca_code s"
proof (cases "d_enable_tracking s")
  case False
  with assms have "r = finish_epoch fr (idle_epoch s)"
    by (simp add: general_work_idle)
  then show ?thesis
    by (simp add: finish_epoch_control idle_epoch_def)
next
  case True
  show ?thesis
  proof (cases "d_pull_in s")
    case True
    with \<open>d_enable_tracking s\<close> assms have "pull_in_alignment s = Inr r"
      by (simp add: general_work_pull_in)
    from pull_in_alignment_control [OF this] show ?thesis
      by (simp add: same_control_def)
  next
    case False
    from general_work_tracking [OF assms \<open>d_enable_tracking s\<close> False]
    obtain fr1 s1 where te: "tracking_epoch E inp fr s = Inr (fr1, s1)" and r: "r = finish_epoch fr1 s1"
      by blast
    from tracking_epoch_decomp [OF te] obtain s4 s5 where
      a: "same_control s s4" and b: "cn0_and_lock E s4 = Inr s5" and c: "second_counter s5 = Inr s1"
      by blast
    from second_counter_shape [OF c] obtain seg where s1: "s1 = s5\<lparr>d_last_seg := seg\<rparr>" ..
    from cn0_and_lock_cases [OF b] have "d_ca_code s5 = d_ca_code s4"
      by (auto simp: lock_window_fields)
    with a show ?thesis by (simp add: r s1 finish_epoch_control same_control_def)
  qed
qed

lemma run_epochs_ca_code:
  "run_epochs E calls s = Inr s' \<Longrightarrow> d_ca_code s' = d_ca_code s"
proof (induction calls arbitrary: s)
  case Nil
  then show ?case by simp
next
  case (Cons c calls)
  from Cons.prems obtain r where
    r: "general_work E (fst c) (snd c) s = Inr r" and rest: "run_epochs E calls (wr_state r) = Inr s'"
    by (auto dest!: bind_err_Inr)
  from Cons.IH [OF rest] general_work_ca_code [OF r] show ?case by simp
qed

subsection \<open>Pull-in\<close>

lemma c_fmod_of_int:
  assumes "0 \<le> a" and "0 < b"
  shows "c_fmod (real_of_int a) (real_of_int b) = real_of_int (a mod b)"
proof -
  have "0 \<le> real_of_int a / real_of_int b" using assms by simp
  then have "c_trunc (real_of_int a / real_of_int b) = a div b"
    by (simp add: c_trunc_def floor_divide_of_int_eq)
  moreover have "a mod b = a - (a div b) * b"
    by (simp add: minus_div_mult_eq_mod)
  ultimately show ?thesis by (simp add: c_fmod_def)
qed

lemma pull_in_call:
  assumes "d_enable_tracking s" and "d_pull_in s" and "0 < d_next_prn_length_samples s"
    and "0 \<le> sint (ucast (d_sample_counter s - d_acq_sample_stamp s) :: 32 word)"
  defines "samples_offset \<equiv>
             c_round (d_acq_code_phase_samples s
                + real_of_int (d_next_prn_length_samples s
                     - sint (ucast (d_sample_counter s - d_acq_sample_stamp s) :: 32 word)
                         mod d_next_prn_length_samples s))"
  shows "general_work E inp fr s =
           Inr \<lparr>wr_state = s\<lparr>d_sample_counter := d_sample_counter s + word_of_int samples_offset,
                              d_pull_in := False,
                              d_debug_counter := d_debug_counter s + 1\<rparr>,
                wr_consumed = samples_offset, wr_out = None, wr_return = 1\<rparr>"
proof -
  have f: "c_fmod (real_of_int (sint (ucast (d_sample_counter s - d_acq_sample_stamp s) :: 32 word)))
             (real_of_int (d_next_prn_length_samples s))
           = real_of_int (sint (ucast (d_sample_counter s - d_acq_sample_stamp s) :: 32 word)
                            mod d_next_prn_length_samples s)"
    using assms(3,4) by (intro c_fmod_of_int)
  show ?thesis
    using assms(1-3)
    unfolding samples_offset_def general_work_def pull_in_alignment_def Let_def f
    by simp
qed

lemma aligned_tracker_eq:
  "general_work example_env (replicate 32000 0) example_frame (started_tracker q dump vel d)
     = Inr \<lparr>wr_state = aligned_tracker q dump vel d, wr_consumed = 16123, wr_out = None,
            wr_return = 1\<rparr>"
proof -
  let ?t = "started_tracker q dump vel d"
  have off: "c_round (123 + real_of_int (16000 - 0 mod 16000)) = 16123"
    using c_round_of_int [of 16123] by simp
  have "general_work example_env (replicate 32000 0) example_frame ?t
          = Inr \<lparr>wr_state = ?t\<lparr>d_sample_counter := 16123, d_pull_in := False,
                               d_debug_counter := d_debug_counter ?t + 1\<rparr>,
                 wr_consumed = 16123, wr_out = None, wr_return = 1\<rparr>"
    using pull_in_call [of ?t example_env "replicate 32000 0" example_frame] off
    by (simp add: started_tracker_fields)
  then show ?thesis by (simp add: aligned_tracker_def)
qed

lemma aligned_tracker_unfold:
  "aligned_tracker q dump vel d
     = (started_tracker q dump vel d)
         \<lparr>d_sample_counter := 16123, d_pull_in := False,
          d_debug_counter := d_debug_counter (started_tracker q dump vel d) + 1\<rparr>"
proof -
  let ?t = "started_tracker q dump vel d"
  have off: "c_round (123 + real_of_int (16000 - 0 mod 16000)) = 16123"
    using c_round_of_int [of 16123] by simp
  have "general_work example_env (replicate 32000 0) example_frame ?t
          = Inr \<lparr>wr_state = ?t\<lparr>d_sample_counter := 16123, d_pull_in := False,
                               d_debug_counter := d_debug_counter ?t + 1\<rparr>,
                 wr_consumed = 16123, wr_out = None, wr_return = 1\<rparr>"
    using pull_in_call [of ?t example_env "replicate 32000 0" example_frame] off
    by (simp add: started_tracker_fields)
  then show ?thesis by (simp add: aligned_tracker_def)
qed

subsection \<open>The carrier phase residual\<close>

lemma carrier_loop_phase:
  "carrier_loop k i step phase cs = Inr (phase', cs')
     \<Longrightarrow> phase' = phase + real k * step \<and> length cs' = length cs"
proof (induction k arbitrary: i phase cs)
  case 0
  then show ?case by simp
next
  case (Suc k)
  from Suc.prems have
    "carrier_loop k (Suc i) step (phase + step) (cs[i := Complex (cos phase) (sin phase)])
       = Inr (phase', cs')"
    by (simp split: if_splits)
  from Suc.IH [OF this] show ?case by (simp add: algebra_simps)
qed

lemma carrier_loop_returns:
  "i + k \<le> length cs \<Longrightarrow> \<exists>cs'. carrier_loop k i step phase cs = Inr (phase + real k * step, cs')"
proof (induction k arbitrary: i phase cs)
  case 0
  then show ?case by simp
next
  case (Suc k)
  from Suc.prems have "Suc i + k \<le> length (cs[i := Complex (cos phase) (sin phase)])" by simp
  from Suc.IH [OF this, of "phase + step"] Suc.prems show ?case
    by (simp add: algebra_simps)
qed

lemma update_local_carrier_returns:
  assumes "d_fs_in s \<noteq> 0" and "GPS_TWO_PI E \<noteq> 0"
    and "nat (d_current_prn_length_samples s) \<le> length (d_carr_sign s)"
  shows "\<exists>s'. update_local_carrier E s = Inr s'"
proof -
  from carrier_loop_returns [of 0 "nat (d_current_prn_length_samples s)" "d_carr_sign s"
      "GPS_TWO_PI E * d_carrier_doppler_hz s / real_of_int (d_fs_in s)" "d_rem_carr_phase_rad s"]
    assms(3)
  obtain cs' where "carrier_loop (nat (d_current_prn_length_samples s)) 0
      (GPS_TWO_PI E * d_carrier_doppler_hz s / real_of_int (d_fs_in s))
      (d_rem_carr_phase_rad s) (d_carr_sign s)
    = Inr (d_rem_carr_phase_rad s + real (nat (d_current_prn_length_samples s))
             * (GPS_TWO_PI E * d_carrier_doppler_hz s / real_of_int (d_fs_in s)), cs')"
    by auto
  with assms(1,2) show ?thesis
    by (simp add: update_local_carrier_def Let_def bind_err_def)
qed

lemma update_local_carrier_rem:
  assumes "update_local_carrier E s = Inr s'"
  shows "d_rem_carr_phase_rad s'
           = c_fmod (d_rem_carr_phase_rad s + real (nat (d_current_prn_length_samples s))
                       * (GPS_TWO_PI E * d_carrier_doppler_hz s / real_of_int (d_fs_in s)))
                    (GPS_TWO_PI E)"
  using assms unfolding update_local_carrier_def Let_def
  by (auto split: if_splits prod.splits dest!: bind_err_Inr carrier_loop_phase)

subsection \<open>The index into the local code\<close>

lemma c_fmod_ge_neg_arg:
  assumes "0 < y" and "x < 0"
  shows "x \<le> c_fmod x y"
proof -
  have "x / y < 0" using assms by (simp add: divide_neg_pos)
  then have "c_trunc (x / y) \<le> 0"
    by (simp add: c_trunc_def ceiling_le_iff)
  then have "real_of_int (c_trunc (x / y)) * y \<le> 0"
    using assms(1) by (simp add: mult_le_0_iff)
  then show ?thesis by (simp add: c_fmod_def)
qed

lemma c_fmod_abs_less: "0 < y \<Longrightarrow> \<bar>c_fmod x y\<bar> < y"
  using c_fmod_nonneg [of y x] c_fmod_neg [of y x] by (cases "0 \<le> x") auto

lemma c_round_ge_minus_2: "- 5 / 2 < x \<Longrightarrow> - 2 \<le> c_round x"
  unfolding c_round_def by (auto; linarith)

lemma chip_index_bounds:
  assumes "0 < len"
  shows "2 - len \<le> associated_chip_index tcode spc len"
    and "associated_chip_index tcode spc len \<le> len + 2"
proof -
  let ?r = "c_fmod (tcode - 2 * spc) (real_of_int len)"
  have "\<bar>?r\<bar> < real_of_int len"
    using assms by (intro c_fmod_abs_less) simp
  then have lo: "real_of_int (- len) \<le> ?r" and hi: "?r \<le> real_of_int len" by simp_all
  from c_round_mono [OF lo] c_round_mono [OF hi]
  have "- len \<le> c_round ?r" "c_round ?r \<le> len"
    by (simp_all only: c_round_of_int)
  then show "2 - len \<le> associated_chip_index tcode spc len"
    and "associated_chip_index tcode spc len \<le> len + 2"
    by (simp_all add: associated_chip_index_def)
qed

lemma chip_index_nonneg:
  assumes "0 < len" and "- 5 / 2 < tcode - 2 * spc"
  shows "0 \<le> associated_chip_index tcode spc len"
proof -
  let ?x = "tcode - 2 * spc"
  have "- 5 / 2 < c_fmod ?x (real_of_int len)"
  proof (cases "0 \<le> ?x")
    case True
    from c_fmod_nonneg [of "real_of_int len" ?x] assms(1) True show ?thesis by simp
  next
    case False
    then have "?x < 0" by simp
    from c_fmod_ge_neg_arg [of "real_of_int len" ?x] assms this show ?thesis by simp
  qed
  from c_round_ge_minus_2 [OF this] show ?thesis
    by (simp add: associated_chip_index_def)
qed

lemma fill_very_early_in_bounds:
  assumes "0 < len" and "0 \<le> step" and "- 5 / 2 < tcode - 2 * spc"
    and "len + 3 \<le> int (length ca)"
  shows "fill_very_early ca spc len step k i tcode ve \<noteq> Inl (OutOfBounds j)"
  using assms(3)
proof (induction k arbitrary: i tcode ve)
  case 0
  then show ?case by simp
next
  case (Suc k)
  have "0 \<le> associated_chip_index tcode spc len"
    by (rule chip_index_nonneg [OF assms(1) Suc.prems])
  moreover have "associated_chip_index tcode spc len < int (length ca)"
    using chip_index_bounds(2) [OF assms(1), of tcode spc] assms(4) by simp
  moreover have "- 5 / 2 < (tcode + step) - 2 * spc"
    using Suc.prems assms(2) by simp
  ultimately show ?case
    using Suc.IH [of "tcode + step"] by (simp add: Let_def)
qed

lemma fill_very_early_first_out_of_bounds:
  assumes "0 < k"
    and "associated_chip_index tcode spc len < 0
         \<or> int (length ca) \<le> associated_chip_index tcode spc len"
  shows "fill_very_early ca spc len step k i tcode ve
           = Inl (OutOfBounds (associated_chip_index tcode spc len))"
  using assms by (cases k) (simp_all add: Let_def)

subsection \<open>The dump record\<close>

lemma epoch_body_dump:
  assumes "epoch_body E inp fr s = Inr (fr1, s1)"
  shows "d_dump s1 = d_dump s \<and> d_dump_file s1 = d_dump_file s"
proof (cases "d_enable_tracking s")
  case False
  with assms show ?thesis by (auto simp: epoch_body_def idle_epoch_def)
next
  case True
  with assms have te: "tracking_epoch E inp fr s = Inr (fr1, s1)"
    by (simp add: epoch_body_def)
  from tracking_epoch_decomp [OF te] obtain s4 s5 where
    a: "same_control s s4" and b: "cn0_and_lock E s4 = Inr s5" and c: "second_counter s5 = Inr s1"
    by blast
  from second_counter_shape [OF c] obtain seg where s1: "s1 = s5\<lparr>d_last_seg := seg\<rparr>" ..
  from cn0_and_lock_cases [OF b] have "d_dump s5 = d_dump s4 \<and> d_dump_file s5 = d_dump_file s4"
    by (auto simp: lock_window_fields)
  with a show ?thesis by (simp add: s1 same_control_def)
qed

lemma general_work_epoch_body:
  assumes "\<not> (d_enable_tracking s \<and> d_pull_in s)" and "epoch_body E inp fr s = Inr (fr1, s1)"
  shows "general_work E inp fr s = Inr (finish_epoch fr1 s1)"
  using assms by (auto simp: general_work_def epoch_body_def bind_err_def)

subsection \<open>A tracking epoch of the concrete receiver\<close>

lemma update_local_code_shape:
  assumes "update_local_code E s = Inr s'"
  shows "\<exists>ve ec pc lc vlc.
           s' = s\<lparr>d_very_early_code := ve, d_early_code := ec, d_prompt_code := pc,
                   d_late_code := lc, d_very_late_code := vlc\<rparr>"
proof -
  from assms obtain ve ec pc lc vlc where
    "s' = s\<lparr>d_very_early_code := ve, d_early_code := ec, d_prompt_code := pc,
            d_late_code := lc, d_very_late_code := vlc\<rparr>"
    unfolding update_local_code_def Let_def
    by (auto split: if_splits dest!: bind_err_Inr)
  then show ?thesis by blast
qed

lemma update_local_carrier_shape:
  assumes "update_local_carrier E s = Inr s'"
  shows "\<exists>cs. length cs = length (d_carr_sign s)
           \<and> s' = s\<lparr>d_carr_sign := cs,
                     d_rem_carr_phase_rad :=
                       c_fmod (d_rem_carr_phase_rad s + real (nat (d_current_prn_length_samples s))
                                 * (GPS_TWO_PI E * d_carrier_doppler_hz s / real_of_int (d_fs_in s)))
                              (GPS_TWO_PI E),
                     d_acc_carrier_phase_rad :=
                       d_acc_carrier_phase_rad s
                       + c_fmod (d_rem_carr_phase_rad s + real (nat (d_current_prn_length_samples s))
                                 * (GPS_TWO_PI E * d_carrier_doppler_hz s / real_of_int (d_fs_in s)))
                              (GPS_TWO_PI E)\<rparr>"
  using assms unfolding update_local_carrier_def Let_def
  by (auto split: if_splits prod.splits dest!: bind_err_Inr carrier_loop_phase)

lemma memcpy_from_returns:
  assumes "0 \<le> n" and "0 \<le> off" and "off + n \<le> int (length src)" and "n \<le> int (length dst)"
  shows "\<exists>zs. memcpy_from src off n dst = Inr zs"
  using assms by (simp add: memcpy_from_def)

lemma fill_very_early_returns:
  assumes "0 < len" and "0 \<le> step" and "- 5 / 2 < tcode - 2 * spc"
    and "len + 3 \<le> int (length ca)" and "i + k \<le> length ve"
  shows "\<exists>ve'. fill_very_early ca spc len step k i tcode ve = Inr ve' \<and> length ve' = length ve"
  using assms(3,5)
proof (induction k arbitrary: i tcode ve)
  case 0
  then show ?case by simp
next
  case (Suc k)
  have a: "0 \<le> associated_chip_index tcode spc len"
    by (rule chip_index_nonneg [OF assms(1) Suc.prems(1)])
  have b: "associated_chip_index tcode spc len < int (length ca)"
    using chip_index_bounds(2) [OF assms(1), of tcode spc] assms(4) by simp
  have c: "- 5 / 2 < (tcode + step) - 2 * spc"
    using Suc.prems(1) assms(2) by simp
  have d: "Suc i + k \<le> length (ve[i := ca ! nat (associated_chip_index tcode spc len)])"
    using Suc.prems(2) by simp
  from Suc.IH [OF c d] a b Suc.prems(2) show ?case
    by (simp add: Let_def)
qed

lemma update_local_code_returns:
  fixes E s
  defines "step \<equiv> d_code_freq_hz s / real_of_int (d_fs_in s)"
  defines "el \<equiv> c_round (d_early_late_spc_chips s / step)"
  defines "vel \<equiv> c_round (d_very_early_late_spc_chips s / step)"
  defines "n \<equiv> d_current_prn_length_samples s"
  assumes fs_pos: "0 < d_fs_in s" and freq_pos: "0 < d_code_freq_hz s"
    and L_pos: "0 < Galileo_E1_B_CODE_LENGTH_CHIPS E"
    and ca_len: "2 * Galileo_E1_B_CODE_LENGTH_CHIPS E + 3 \<le> length (d_ca_code s)"
    and lead: "d_rem_code_phase_samples s * (2 * step) + 2 * d_very_early_late_spc_chips s < 5 / 2"
    and sizes: "0 \<le> n" "0 \<le> el" "el \<le> vel"
      "n + 2 * vel \<le> int (length (d_very_early_code s))"
      "n \<le> int (length (d_early_code s))" "n \<le> int (length (d_prompt_code s))"
      "n \<le> int (length (d_late_code s))" "n \<le> int (length (d_very_late_code s))"
  shows "\<exists>s'. update_local_code E s = Inr s'"
proof -
  let ?len = "int (2 * Galileo_E1_B_CODE_LENGTH_CHIPS E)"
  have fs: "0 < real_of_int (d_fs_in s)" using fs_pos by simp
  have step: "0 \<le> 2 * d_code_freq_hz s / real_of_int (d_fs_in s)"
    using freq_pos fs by simp
  have eq2: "2 * d_code_freq_hz s / real_of_int (d_fs_in s) = 2 * step"
    by (simp add: step_def)
  have start: "- 5 / 2 < - (d_rem_code_phase_samples s * (2 * d_code_freq_hz s / real_of_int (d_fs_in s)))
                  - 2 * d_very_early_late_spc_chips s"
    using lead unfolding eq2 by simp
  have "\<exists>ve. fill_very_early (d_ca_code s) (d_very_early_late_spc_chips s) ?len
               (2 * d_code_freq_hz s / real_of_int (d_fs_in s)) (nat (n + vel * 2)) 0
               (- (d_rem_code_phase_samples s * (2 * d_code_freq_hz s / real_of_int (d_fs_in s))))
               (d_very_early_code s) = Inr ve
             \<and> length ve = length (d_very_early_code s)"
    using L_pos ca_len sizes by (intro fill_very_early_returns step start) simp_all
  then obtain ve where ve: "fill_very_early (d_ca_code s) (d_very_early_late_spc_chips s) ?len
               (2 * d_code_freq_hz s / real_of_int (d_fs_in s)) (nat (n + vel * 2)) 0
               (- (d_rem_code_phase_samples s * (2 * d_code_freq_hz s / real_of_int (d_fs_in s))))
               (d_very_early_code s) = Inr ve"
    and len: "length ve = length (d_very_early_code s)"
    by blast
  from memcpy_from_returns [of n "vel - el" ve "d_early_code s"]
  obtain ec where ec: "memcpy_from ve (vel - el) n (d_early_code s) = Inr ec"
    using sizes len by auto
  from memcpy_from_returns [of n vel ve "d_prompt_code s"]
  obtain pc where pc: "memcpy_from ve vel n (d_prompt_code s) = Inr pc"
    using sizes len by auto
  from memcpy_from_returns [of n "2 * vel - el" ve "d_late_code s"]
  obtain lc where lc: "memcpy_from ve (2 * vel - el) n (d_late_code s) = Inr lc"
    using sizes len by auto
  from memcpy_from_returns [of n "2 * vel" ve "d_very_late_code s"]
  obtain vlc where vlc: "memcpy_from ve (2 * vel) n (d_very_late_code s) = Inr vlc"
    using sizes len by auto
  show ?thesis
    unfolding update_local_code_def Let_def
    using fs_pos freq_pos L_pos ve ec pc lc vlc
    unfolding step_def [symmetric] el_def [symmetric] vel_def [symmetric] n_def [symmetric]
    by (simp add: bind_err_def step_def)
qed

lemma new_object_more_fields:
  fixes E if_freq fs_in vector_length queue dump dump_filename pll_bw_hz dll_bw_hz
    early_late_space_chips very_early_late_space_chips mem raw
  defines "C \<equiv> galileo_e1_dll_pll_veml_tracking_cc E if_freq fs_in vector_length queue dump
        dump_filename pll_bw_hz dll_bw_hz early_late_space_chips very_early_late_space_chips
        mem raw"
  shows "d_last_seg C = 0"
    and "d_debug_counter C = 0"
    and "d_code_loop_filter C = set_BW dll_bw_hz (Tracking_2nd_filter (4 / 1000))"
    and "d_carrier_loop_filter C = set_BW pll_bw_hz (Tracking_2nd_filter (4 / 1000))"
  unfolding C_def
  by (simp_all add: galileo_e1_dll_pll_veml_tracking_cc_def Let_def)

lemma set_channel_more_fields:
  "d_last_seg (set_channel E ch s) = d_last_seg s"
  "d_debug_counter (set_channel E ch s) = d_debug_counter s"
  "d_code_loop_filter (set_channel E ch s) = d_code_loop_filter s"
  "d_carrier_loop_filter (set_channel E ch s) = d_carrier_loop_filter s"
  "d_early_code (set_channel E ch s) = d_early_code s"
  "d_prompt_code (set_channel E ch s) = d_prompt_code s"
  "d_late_code (set_channel E ch s) = d_late_code s"
  "d_very_late_code (set_channel E ch s) = d_very_late_code s"
  by (simp_all add: set_channel_def Let_def)

lemma start_tracking_more_fields:
  assumes "start_tracking E s = Inr s'"
  shows "d_last_seg s' = d_last_seg s"
    and "d_debug_counter s' = d_debug_counter s"
    and "d_early_code s' = d_early_code s"
    and "d_prompt_code s' = d_prompt_code s"
    and "d_late_code s' = d_late_code s"
    and "d_very_late_code s' = d_very_late_code s"
  using assms unfolding start_tracking_def Let_def
  by (auto split: option.splits sum.splits if_splits)

lemma started_tracker_more_fields:
  fixes q dump vel d
  defines "t \<equiv> started_tracker q dump vel d"
  shows "d_last_seg t = 0"
    and "d_debug_counter t = 0"
    and "d_cn0_estimation_counter t = 0"
    and "length (d_Prompt_buffer t) = 10"
    and "d_next_rem_code_phase_samples t = 0"
    and "d_acc_carrier_phase_rad t = 0"
    and "lf_acc (d_code_loop_filter t) = 0"
    and "lf_acc (d_carrier_loop_filter t) = d"
    and "length (d_early_code t) = 32000"
    and "length (d_prompt_code t) = 32000"
    and "length (d_late_code t) = 32000"
    and "length (d_very_late_code t) = 32000"
  unfolding t_def
  by (simp_all add: start_tracking_fields [OF started_tracker_eq [of d q dump vel]]
        start_tracking_more_fields [OF started_tracker_eq [of d q dump vel]]
        set_gnss_synchro_def set_channel_fields set_channel_more_fields new_tracker_def
        new_object_fields new_object_more_fields example_synchro_def
        PLL_initialize_def DLL_initialize_def)

lemma update_loops_keeps:
  assumes "update_loops E fr s = Inr (fr', s')"
  shows "d_rem_carr_phase_rad s' = d_rem_carr_phase_rad s"
    and "d_acc_carrier_phase_rad s' = d_acc_carrier_phase_rad s"
    and "d_last_seg s' = d_last_seg s"
    and "d_Prompt s' = d_Prompt s"
    and "d_debug_counter s' = d_debug_counter s"
  using assms unfolding update_loops_def Let_def
  by (auto split: if_splits prod.splits)

lemma update_loops_returns:
  assumes "GPS_TWO_PI E \<noteq> 0" and "d_fs_in s \<noteq> 0"
    and "Galileo_E1_CODE_CHIP_RATE_HZ E
           - fst (get_code_nco (dll_nc_vemlp_normalized E (d_Very_Early s) (d_Early s) (d_Late s)
                                  (d_Very_Late s))
                    (d_code_loop_filter s)) \<noteq> 0"
  shows "\<exists>fr' s'. update_loops E fr s = Inr (fr', s')"
  using assms unfolding update_loops_def Let_def
  by (auto split: prod.splits)

lemma first_tracking_epoch:
  fixes q dump d inp
  defines "t \<equiv> aligned_tracker q dump (3 / 5) d"
  shows "\<exists>fr1 s1 r.
           tracking_epoch example_env inp example_frame t = Inr (fr1, s1)
           \<and> r = finish_epoch fr1 s1
           \<and> general_work example_env inp example_frame t = Inr r
           \<and> wr_return r = 1 \<and> wr_consumed r = 16000
           \<and> d_sample_counter (wr_state r) = 32123
           \<and> d_enable_tracking (wr_state r) \<and> \<not> d_pull_in (wr_state r)
           \<and> d_cn0_estimation_counter (wr_state r) = 1
           \<and> d_rem_carr_phase_rad (wr_state r)
                = c_fmod (16000 * (GPS_TWO_PI example_env * d / 4000000))
                         (GPS_TWO_PI example_env)"
proof -
  note tf = aligned_tracker_unfold started_tracker_fields started_tracker_more_fields
  have E: "GPS_TWO_PI example_env = 6283185307179586 / 1000000000000000"
    "Galileo_E1_CODE_CHIP_RATE_HZ example_env = 1023000"
    "Galileo_E1_B_CODE_LENGTH_CHIPS example_env = 4092"
    "dll_nc_vemlp_normalized example_env = (\<lambda>ve e l vl. 0)"
    by (simp_all add: example_env_def)
  have el: "c_round ((3 / 20) / (1023000 / 4000000)) = 1"
    and vel: "c_round ((3 / 5) / (1023000 / 4000000)) = 2"
    by (simp_all add: c_round_def)
  define s1 where "s1 = t\<lparr>d_current_prn_length_samples := d_next_prn_length_samples t\<rparr>"
  have "\<exists>s2. update_local_code example_env s1 = Inr s2"
    using el vel
    by (intro update_local_code_returns) (simp_all add: s1_def t_def tf E)
  then obtain s2 where s2: "update_local_code example_env s1 = Inr s2" ..
  from update_local_code_shape [OF s2] obtain ve ec pc lc vlc where
    s2eq: "s2 = s1\<lparr>d_very_early_code := ve, d_early_code := ec, d_prompt_code := pc,
                     d_late_code := lc, d_very_late_code := vlc\<rparr>"
    by blast
  have "\<exists>s3. update_local_carrier example_env s2 = Inr s3"
    by (intro update_local_carrier_returns) (simp_all add: s2eq s1_def t_def tf E)
  then obtain s3 where s3: "update_local_carrier example_env s2 = Inr s3" ..
  from update_local_carrier_shape [OF s3] obtain cs where
    s3eq: "s3 = s2\<lparr>d_carr_sign := cs,
             d_rem_carr_phase_rad :=
               c_fmod (d_rem_carr_phase_rad s2 + real (nat (d_current_prn_length_samples s2))
                         * (GPS_TWO_PI example_env * d_carrier_doppler_hz s2 / real_of_int (d_fs_in s2)))
                      (GPS_TWO_PI example_env),
             d_acc_carrier_phase_rad :=
               d_acc_carrier_phase_rad s2
               + c_fmod (d_rem_carr_phase_rad s2 + real (nat (d_current_prn_length_samples s2))
                         * (GPS_TWO_PI example_env * d_carrier_doppler_hz s2 / real_of_int (d_fs_in s2)))
                      (GPS_TWO_PI example_env)\<rparr>"
    by blast
  have rem3: "d_rem_carr_phase_rad s3
                = c_fmod (16000 * (GPS_TWO_PI example_env * d / 4000000)) (GPS_TWO_PI example_env)"
    by (simp add: s3eq s2eq s1_def t_def tf)
  define s4 where "s4 = correlate example_env inp s3"
  define fr1 where "fr1 = example_frame\<lparr>current_synchro_data := example_synchro d\<rparr>"
  have c4: "same_control s3 s4" "d_current_prn_length_samples s4 = d_current_prn_length_samples s3"
    using correlate_control [of s3 example_env inp] by (simp_all add: s4_def)
  have s4f: "d_rem_carr_phase_rad s4 = d_rem_carr_phase_rad s3" "d_last_seg s4 = d_last_seg s3"
    "d_code_loop_filter s4 = d_code_loop_filter s3" "d_debug_counter s4 = d_debug_counter s3"
    by (simp_all add: s4_def correlate_def split: prod.split)
  have "\<exists>fr2 s5. update_loops example_env fr1 s4 = Inr (fr2, s5)"
    using c4(1)
    by (intro update_loops_returns)
       (simp_all add: same_control_def s4f s3eq s2eq s1_def t_def tf E get_code_nco_def get_nco_def)
  then obtain fr2 s5 where s5: "update_loops example_env fr1 s4 = Inr (fr2, s5)" by blast
  note c5 = update_loops_control [OF s5] update_loops_keeps [OF s5]
  have ctl: "same_control t s5"
    using c5(1) c4(1) by (simp add: same_control_def s3eq s2eq s1_def)
  have cnt: "d_cn0_estimation_counter s5 = 0" "length (d_Prompt_buffer s5) = 10"
    "d_sample_counter s5 = 16123" "d_fs_in s5 = 4000000" "d_enable_tracking s5" "\<not> d_pull_in s5"
    using ctl by (simp_all add: same_control_def t_def tf)
  define s6 where "s6 = s5\<lparr>d_Prompt_buffer := (d_Prompt_buffer s5)[nat (d_cn0_estimation_counter s5) := d_Prompt s5],
                            d_cn0_estimation_counter := d_cn0_estimation_counter s5 + 1\<rparr>"
  have s6: "cn0_and_lock example_env s5 = Inr s6"
    by (simp add: cn0_and_lock_def Let_def cnt CN0_ESTIMATION_SAMPLES_def s6_def)
  have seg: "d_last_seg s6 = 0"
    using c5 by (simp add: s6_def s4f s3eq s2eq s1_def t_def tf)
  have s7: "second_counter s6 = Inr s6"
    using seg by (simp add: second_counter_def Let_def s6_def cnt)
  have acq: "d_acquisition_gnss_synchro t = Some (example_synchro d)"
    and mode: "d_enable_tracking t" "\<not> d_pull_in t"
    by (simp_all add: t_def tf)
  have te: "tracking_epoch example_env inp example_frame t = Inr (fill_synchro fr2 s6, s6)"
    unfolding tracking_epoch_def acq
    using s2 s3 s5 s6 s7
    by (simp add: Let_def bind_err_def s1_def fr1_def s4_def)
  have gw: "general_work example_env inp example_frame t
              = Inr (finish_epoch (fill_synchro fr2 s6) s6)"
    using te mode by (simp add: general_work_def bind_err_def)
  have len6: "d_current_prn_length_samples s6 = 16000"
    using c5 c4 by (simp add: s6_def s3eq s2eq s1_def t_def tf)
  have rem6: "d_rem_carr_phase_rad s6 = d_rem_carr_phase_rad s3"
    using c5 by (simp add: s6_def s4f)
  have "wr_return (finish_epoch (fill_synchro fr2 s6) s6) = 1
        \<and> wr_consumed (finish_epoch (fill_synchro fr2 s6) s6) = 16000
        \<and> d_sample_counter (wr_state (finish_epoch (fill_synchro fr2 s6) s6)) = 32123
        \<and> d_enable_tracking (wr_state (finish_epoch (fill_synchro fr2 s6) s6))
        \<and> \<not> d_pull_in (wr_state (finish_epoch (fill_synchro fr2 s6) s6))
        \<and> d_cn0_estimation_counter (wr_state (finish_epoch (fill_synchro fr2 s6) s6)) = 1
        \<and> d_rem_carr_phase_rad (wr_state (finish_epoch (fill_synchro fr2 s6) s6))
             = c_fmod (16000 * (GPS_TWO_PI example_env * d / 4000000))
                      (GPS_TWO_PI example_env)"
    using cnt len6 rem6 rem3
    by (simp add: finish_epoch_def Let_def write_dump_def s6_def split: option.split ofstream.split)
  with te gw show ?thesis by blast
qed

subsection \<open>Runs of calls and runs of windows\<close>

lemma monitor_lock_window:
  "monitor s = monitor t \<Longrightarrow> monitor (lock_window a b s) = monitor (lock_window a b t)"
  by (simp add: monitor_def lock_window_fields)

lemma monitor_run_windows:
  "monitor s = monitor t \<Longrightarrow> monitor (run_windows ws s) = monitor (run_windows ws t)"
proof (induction ws arbitrary: s t)
  case Nil
  then show ?case by simp
next
  case (Cons w ws)
  from Cons.prems have en: "d_enable_tracking s = d_enable_tracking t"
    by (simp add: monitor_def)
  show ?case
  proof (cases "d_enable_tracking s")
    case True
    with en Cons.IH [OF monitor_lock_window [OF Cons.prems]] show ?thesis by simp
  next
    case False
    with en Cons.prems show ?thesis by simp
  qed
qed

lemma general_work_monitor:
  assumes "general_work E inp fr s = Inr r" and "\<not> d_pull_in s"
  shows "\<not> d_pull_in (wr_state r)
         \<and> (monitor (wr_state r) = monitor s
            \<or> (d_enable_tracking s \<and> (\<exists>w. monitor (wr_state r) = monitor (lock_window (fst w) (snd w) s))))"
proof (cases "d_enable_tracking s")
  case False
  with assms have "r = finish_epoch fr (idle_epoch s)"
    by (simp add: general_work_idle)
  then show ?thesis
    using assms(2)
    by (simp add: monitor_def finish_epoch_control idle_epoch_def finish_epoch_def Let_def
          write_dump_def split: option.split ofstream.split)
next
  case True
  from general_work_tracking [OF assms(1) True assms(2)]
  obtain fr1 s1 where te: "tracking_epoch E inp fr s = Inr (fr1, s1)" and r: "r = finish_epoch fr1 s1"
    by blast
  from tracking_epoch_decomp [OF te] obtain s4 s5 where
    a: "same_control s s4" and b: "cn0_and_lock E s4 = Inr s5" and c: "second_counter s5 = Inr s1"
    by blast
  from second_counter_shape [OF c] obtain seg where s1: "s1 = s5\<lparr>d_last_seg := seg\<rparr>" ..
  have m4: "monitor s4 = monitor s" and p4: "\<not> d_pull_in s4"
    using a assms(2) by (simp_all add: monitor_def same_control_def)
  have mr: "monitor (wr_state r) = monitor s5" and pr: "d_pull_in (wr_state r) = d_pull_in s5"
    by (simp_all add: r s1 monitor_def finish_epoch_control finish_epoch_def Let_def
          write_dump_def split: option.split ofstream.split)
  from cn0_and_lock_cases [OF b] show ?thesis
  proof
    assume "d_cn0_estimation_counter s4 < CN0_ESTIMATION_SAMPLES \<and> 0 \<le> d_cn0_estimation_counter s4
      \<and> s5 = s4\<lparr>d_Prompt_buffer := (d_Prompt_buffer s4)[nat (d_cn0_estimation_counter s4) := d_Prompt s4],
                d_cn0_estimation_counter := d_cn0_estimation_counter s4 + 1\<rparr>"
    then have "monitor s5 = monitor s4" "d_pull_in s5 = d_pull_in s4"
      by (simp_all add: monitor_def)
    with m4 p4 mr pr show ?thesis by simp
  next
    assume "\<not> d_cn0_estimation_counter s4 < CN0_ESTIMATION_SAMPLES
      \<and> (\<exists>cn lock_test. s5 = lock_window cn lock_test s4)"
    then obtain cn lock_test where s5: "s5 = lock_window cn lock_test s4" by blast
    have "monitor s5 = monitor (lock_window (fst (cn, lock_test)) (snd (cn, lock_test)) s)"
      unfolding s5 using monitor_lock_window [OF m4] by simp
    moreover have "d_pull_in s5 = d_pull_in s4"
      by (simp add: s5 lock_window_fields)
    ultimately show ?thesis using True p4 mr pr by metis
  qed
qed

lemma run_epochs_windows:
  assumes "run_epochs E calls s = Inr s'" and "\<not> d_pull_in s"
  shows "\<exists>ws. length ws \<le> length calls \<and> monitor s' = monitor (run_windows ws s)"
  using assms
proof (induction calls arbitrary: s)
  case Nil
  then have "monitor s' = monitor (run_windows [] s)" by simp
  then show ?case by (intro exI [of _ "[]"]) simp
next
  case (Cons c calls)
  from Cons.prems(1) obtain r where
    r: "general_work E (fst c) (snd c) s = Inr r" and rest: "run_epochs E calls (wr_state r) = Inr s'"
    by (auto dest!: bind_err_Inr)
  from general_work_monitor [OF r Cons.prems(2)]
  have p: "\<not> d_pull_in (wr_state r)"
    and m: "monitor (wr_state r) = monitor s
            \<or> (d_enable_tracking s \<and> (\<exists>w. monitor (wr_state r) = monitor (lock_window (fst w) (snd w) s)))"
    by simp_all
  from Cons.IH [OF rest p] obtain ws where
    len: "length ws \<le> length calls" and ws: "monitor s' = monitor (run_windows ws (wr_state r))"
    by blast
  from m show ?case
  proof
    assume "monitor (wr_state r) = monitor s"
    from monitor_run_windows [OF this, of ws] ws len show ?thesis
      by (intro exI [of _ ws]) simp
  next
    assume "d_enable_tracking s \<and> (\<exists>w. monitor (wr_state r) = monitor (lock_window (fst w) (snd w) s))"
    then obtain w where en: "d_enable_tracking s"
      and w: "monitor (wr_state r) = monitor (lock_window (fst w) (snd w) s)"
      by blast
    from monitor_run_windows [OF w, of ws] ws en len show ?thesis
      by (intro exI [of _ "w # ws"]) simp
  qed
qed

lemma reachable_aligned_tracker: "reachable example_env (aligned_tracker q dump vel d)"
  using reach_general_work [OF reachable_started_tracker aligned_tracker_eq, of q dump vel d]
  by simp

lemma memcpy_from_not_out_of_bounds: "memcpy_from src off n dst \<noteq> Inl (OutOfBounds j)"
  by (simp add: memcpy_from_def)

lemma update_local_code_in_bounds:
  assumes "0 < d_fs_in s" and "0 < d_code_freq_hz s" and "0 < Galileo_E1_B_CODE_LENGTH_CHIPS E"
    and "2 * Galileo_E1_B_CODE_LENGTH_CHIPS E + 3 \<le> length (d_ca_code s)"
    and "d_rem_code_phase_samples s * (2 * d_code_freq_hz s / real_of_int (d_fs_in s))
           + 2 * d_very_early_late_spc_chips s < 5 / 2"
  shows "update_local_code E s \<noteq> Inl (OutOfBounds j)"
proof
  assume oob: "update_local_code E s = Inl (OutOfBounds j)"
  let ?len = "int (2 * Galileo_E1_B_CODE_LENGTH_CHIPS E)"
  have step: "0 \<le> 2 * d_code_freq_hz s / real_of_int (d_fs_in s)"
    using assms(1,2) by simp
  have start: "- 5 / 2 < - (d_rem_code_phase_samples s * (2 * d_code_freq_hz s / real_of_int (d_fs_in s)))
                  - 2 * d_very_early_late_spc_chips s"
    using assms(5) by simp
  have len: "0 < ?len" "?len + 3 \<le> int (length (d_ca_code s))"
    using assms(3,4) by simp_all
  have fill: "fill_very_early (d_ca_code s) (d_very_early_late_spc_chips s) ?len
                (2 * d_code_freq_hz s / real_of_int (d_fs_in s))
                (nat (d_current_prn_length_samples s
                        + c_round (d_very_early_late_spc_chips s
                                     / (d_code_freq_hz s / real_of_int (d_fs_in s))) * 2))
                0 (- (d_rem_code_phase_samples s * (2 * d_code_freq_hz s / real_of_int (d_fs_in s))))
                (d_very_early_code s)
              \<noteq> Inl (OutOfBounds j)"
    by (rule fill_very_early_in_bounds [OF len(1) step start len(2)])
  from oob assms(1,2,3) fill show False
    unfolding update_local_code_def Let_def bind_err_def
    by (auto split: sum.splits simp: memcpy_from_not_out_of_bounds)
qed

subsection \<open>The concrete receiver at rest\<close>

lemma fill_very_early_length:
  "fill_very_early ca spc len step k i tcode ve = Inr ve' \<Longrightarrow> length ve' = length ve"
proof (induction k arbitrary: i tcode ve)
  case 0
  then show ?case by simp
next
  case (Suc k)
  from Suc.prems have
    "fill_very_early ca spc len step k (Suc i) (tcode + step)
       (ve[i := ca ! nat (associated_chip_index tcode spc len)]) = Inr ve'"
    by (simp add: Let_def split: if_splits)
  from Suc.IH [OF this] show ?case by simp
qed

lemma memcpy_from_length: "memcpy_from src off n dst = Inr zs \<Longrightarrow> length zs = length dst"
  by (auto simp: memcpy_from_def split: if_splits)

lemma update_local_code_lengths:
  assumes "update_local_code E s = Inr s'"
  shows "length (d_very_early_code s') = length (d_very_early_code s)"
    and "length (d_early_code s') = length (d_early_code s)"
    and "length (d_prompt_code s') = length (d_prompt_code s)"
    and "length (d_late_code s') = length (d_late_code s)"
    and "length (d_very_late_code s') = length (d_very_late_code s)"
  using assms unfolding update_local_code_def Let_def
  by (auto split: if_splits dest!: bind_err_Inr dest: fill_very_early_length memcpy_from_length)

lemma steady_tracker_aligned: "steady_tracker 0 (aligned_tracker q dump (3 / 5) d)"
  by (simp add: steady_tracker_def aligned_tracker_unfold started_tracker_fields
        started_tracker_more_fields)

lemma steady_epoch_body:
  assumes st: "steady_tracker k s" and k: "0 \<le> k" "k \<le> 10"
  shows "\<exists>fr2 s5. tracking_epoch example_env inp fr s
                    = bind_err (cn0_and_lock example_env s5)
                        (\<lambda>s6. bind_err (second_counter s6) (\<lambda>s7. Inr (fill_synchro fr2 s6, s7)))
           \<and> same_control s s5
           \<and> d_current_prn_length_samples s5 = 16000
           \<and> d_code_freq_hz s5 = 1023000
           \<and> d_next_prn_length_samples s5 = 16000
           \<and> d_next_rem_code_phase_samples s5 = 0
           \<and> d_rem_code_phase_samples s5 = 0
           \<and> d_very_early_late_spc_chips s5 = 3 / 5
           \<and> d_early_late_spc_chips s5 = 3 / 20
           \<and> length (d_very_early_code s5) = 32000
           \<and> length (d_early_code s5) = 32000
           \<and> length (d_prompt_code s5) = 32000
           \<and> length (d_late_code s5) = 32000
           \<and> length (d_very_late_code s5) = 32000
           \<and> length (d_carr_sign s5) = 32000
           \<and> lf_acc (d_code_loop_filter s5) = 0"
proof -
  note sf = st [unfolded steady_tracker_def]
  have E: "GPS_TWO_PI example_env = 6283185307179586 / 1000000000000000"
    "Galileo_E1_CODE_CHIP_RATE_HZ example_env = 1023000"
    "Galileo_E1_B_CODE_LENGTH_CHIPS example_env = 4092"
    "dll_nc_vemlp_normalized example_env = (\<lambda>ve e l vl. 0)"
    by (simp_all add: example_env_def)
  have el: "c_round ((3 / 20) / (1023000 / 4000000)) = 1"
    and vel: "c_round ((3 / 5) / (1023000 / 4000000)) = 2"
    and blk: "c_round 16000 = 16000"
    using c_round_of_int [of 16000] by (simp_all add: c_round_def)
  from sf obtain acq where acq: "d_acquisition_gnss_synchro s = Some acq" by auto
  from sf have sv: "d_very_early_late_spc_chips s = 3 / 5" "d_early_late_spc_chips s = 3 / 20"
    by blast+
  from sf have sn: "d_fs_in s = 4000000" "d_code_freq_hz s = 1023000"
    "d_next_prn_length_samples s = 16000" "d_next_rem_code_phase_samples s = 0"
    "d_rem_code_phase_samples s = 0" "lf_acc (d_code_loop_filter s) = 0"
    by blast+
  from sf have sl: "length (d_ca_code s) = 8188" "length (d_very_early_code s) = 32000"
    "length (d_early_code s) = 32000" "length (d_prompt_code s) = 32000"
    "length (d_late_code s) = 32000" "length (d_very_late_code s) = 32000"
    "length (d_carr_sign s) = 32000"
    by blast+
  define s1 where "s1 = s\<lparr>d_current_prn_length_samples := d_next_prn_length_samples s\<rparr>"
  define fr1 where "fr1 = fr\<lparr>current_synchro_data := acq\<rparr>"
  have "\<exists>s2. update_local_code example_env s1 = Inr s2"
    using el vel
    by (intro update_local_code_returns) (simp_all add: s1_def E sv sn sl)
  then obtain s2 where s2: "update_local_code example_env s1 = Inr s2" ..
  from update_local_code_shape [OF s2] obtain ve ec pc lc vlc where
    s2eq: "s2 = s1\<lparr>d_very_early_code := ve, d_early_code := ec, d_prompt_code := pc,
                     d_late_code := lc, d_very_late_code := vlc\<rparr>"
    by blast
  note len2 = update_local_code_lengths [OF s2]
  have "\<exists>s3. update_local_carrier example_env s2 = Inr s3"
    by (intro update_local_carrier_returns) (simp_all add: s2eq s1_def E sn sl)
  then obtain s3 where s3: "update_local_carrier example_env s2 = Inr s3" ..
  from update_local_carrier_shape [OF s3] obtain cs where
    cs: "length cs = length (d_carr_sign s2)" and
    s3eq: "s3 = s2\<lparr>d_carr_sign := cs,
             d_rem_carr_phase_rad :=
               c_fmod (d_rem_carr_phase_rad s2 + real (nat (d_current_prn_length_samples s2))
                         * (GPS_TWO_PI example_env * d_carrier_doppler_hz s2 / real_of_int (d_fs_in s2)))
                      (GPS_TWO_PI example_env),
             d_acc_carrier_phase_rad :=
               d_acc_carrier_phase_rad s2
               + c_fmod (d_rem_carr_phase_rad s2 + real (nat (d_current_prn_length_samples s2))
                         * (GPS_TWO_PI example_env * d_carrier_doppler_hz s2 / real_of_int (d_fs_in s2)))
                      (GPS_TWO_PI example_env)\<rparr>"
    by blast
  define s4 where "s4 = correlate example_env inp s3"
  have c4: "same_control s3 s4" "d_current_prn_length_samples s4 = d_current_prn_length_samples s3"
    using correlate_control [of s3 example_env inp] by (simp_all add: s4_def)
  have s4f: "d_code_loop_filter s4 = d_code_loop_filter s3"
    "d_next_rem_code_phase_samples s4 = d_next_rem_code_phase_samples s3"
    "d_very_early_late_spc_chips s4 = d_very_early_late_spc_chips s3"
    "d_early_late_spc_chips s4 = d_early_late_spc_chips s3"
    "d_very_early_code s4 = d_very_early_code s3" "d_early_code s4 = d_early_code s3"
    "d_prompt_code s4 = d_prompt_code s3" "d_late_code s4 = d_late_code s3"
    "d_very_late_code s4 = d_very_late_code s3" "d_carr_sign s4 = d_carr_sign s3"
    by (simp_all add: s4_def correlate_def split: prod.split)
  have nco: "get_code_nco 0 (d_code_loop_filter s4)
               = (0, (d_code_loop_filter s4)\<lparr>lf_acc := 0\<rparr>)"
    by (simp add: get_code_nco_def get_nco_def s4f s3eq s2eq s1_def sn)
  have nco': "get_code_nco 0 (d_code_loop_filter s)
               = (0, (d_code_loop_filter s)\<lparr>lf_acc := 0\<rparr>)"
    by (simp add: get_code_nco_def get_nco_def sn)
  have fs4: "d_fs_in s4 = 4000000"
    using c4(1) by (simp add: same_control_def s3eq s2eq s1_def sn)
  obtain fr2 s5 where s5: "update_loops example_env fr1 s4 = Inr (fr2, s5)"
    and s5f: "lf_acc (d_code_loop_filter s5) = 0" "d_code_freq_hz s5 = 1023000"
      "d_next_prn_length_samples s5 = 16000" "d_next_rem_code_phase_samples s5 = 0"
      "d_rem_code_phase_samples s5 = 0"
      "d_very_early_late_spc_chips s5 = d_very_early_late_spc_chips s4"
      "d_early_late_spc_chips s5 = d_early_late_spc_chips s4"
      "d_very_early_code s5 = d_very_early_code s4" "d_early_code s5 = d_early_code s4"
      "d_prompt_code s5 = d_prompt_code s4" "d_late_code s5 = d_late_code s4"
      "d_very_late_code s5 = d_very_late_code s4" "d_carr_sign s5 = d_carr_sign s4"
  proof -
    have "\<exists>fr2 s5. update_loops example_env fr1 s4 = Inr (fr2, s5)
            \<and> lf_acc (d_code_loop_filter s5) = 0 \<and> d_code_freq_hz s5 = 1023000
            \<and> d_next_prn_length_samples s5 = 16000 \<and> d_next_rem_code_phase_samples s5 = 0
            \<and> d_rem_code_phase_samples s5 = 0
            \<and> d_very_early_late_spc_chips s5 = d_very_early_late_spc_chips s4
            \<and> d_early_late_spc_chips s5 = d_early_late_spc_chips s4
            \<and> d_very_early_code s5 = d_very_early_code s4 \<and> d_early_code s5 = d_early_code s4
            \<and> d_prompt_code s5 = d_prompt_code s4 \<and> d_late_code s5 = d_late_code s4
            \<and> d_very_late_code s5 = d_very_late_code s4 \<and> d_carr_sign s5 = d_carr_sign s4"
      unfolding update_loops_def Let_def
      using blk
      by (simp add: E nco nco' fs4 s4f s3eq s2eq s1_def sn sv split: prod.split)
    then show ?thesis using that by blast
  qed
  note c5 = update_loops_control [OF s5]
  have ctl: "same_control s s5"
    using c5 c4(1) by (simp add: same_control_def s3eq s2eq s1_def)
  have len5: "d_current_prn_length_samples s5 = 16000"
    using c5 c4 by (simp add: s3eq s2eq s1_def sn)
  have te: "tracking_epoch example_env inp fr s
              = bind_err (cn0_and_lock example_env s5)
                  (\<lambda>s6. bind_err (second_counter s6) (\<lambda>s7. Inr (fill_synchro fr2 s6, s7)))"
    unfolding tracking_epoch_def acq
    using s2 s3 s5
    by (simp add: Let_def bind_err_def s1_def fr1_def s4_def)
  have arrays: "length (d_very_early_code s5) = 32000" "length (d_early_code s5) = 32000"
    "length (d_prompt_code s5) = 32000" "length (d_late_code s5) = 32000"
    "length (d_very_late_code s5) = 32000" "length (d_carr_sign s5) = 32000"
    using len2 cs by (simp_all add: s5f s4f s3eq s2eq s1_def sl)
  have spc: "d_very_early_late_spc_chips s5 = 3 / 5" "d_early_late_spc_chips s5 = 3 / 20"
    by (simp_all add: s5f s4f s3eq s2eq s1_def sv)
  from te ctl len5 s5f(1-5) spc arrays show ?thesis by blast
qed
lemma second_counter_steady:
  assumes "d_fs_in s = 4000000"
  shows "\<exists>seg. second_counter s = Inr (s\<lparr>d_last_seg := seg\<rparr>)"
proof -
  have nz: "(word_of_int 4000000 :: 64 word) \<noteq> 0" by simp
  show ?thesis
  proof (cases "uint (d_sample_counter s div word_of_int (d_fs_in s)) = d_last_seg s")
    case True
    then have "second_counter s = Inr (s\<lparr>d_last_seg := d_last_seg s\<rparr>)"
      using nz by (simp add: second_counter_def Let_def assms)
    then show ?thesis ..
  next
    case False
    then have "second_counter s
                 = Inr (s\<lparr>d_last_seg := uint (d_sample_counter s div word_of_int (d_fs_in s))\<rparr>)"
      using nz by (simp add: second_counter_def Let_def assms)
    then show ?thesis ..
  qed
qed

lemma steady_fill_epoch:
  assumes st: "steady_tracker k s" and k: "0 \<le> k" "k < 10"
  shows "\<exists>r. general_work example_env inp fr s = Inr r
           \<and> steady_tracker (k + 1) (wr_state r)
           \<and> monitor (wr_state r) = monitor s"
proof -
  note sf = st [unfolded steady_tracker_def]
  from k have "k \<le> 10" by simp
  from steady_epoch_body [OF st k(1) this, of inp fr] obtain fr2 s5 where
    te: "tracking_epoch example_env inp fr s
           = bind_err (cn0_and_lock example_env s5)
               (\<lambda>s6. bind_err (second_counter s6) (\<lambda>s7. Inr (fill_synchro fr2 s6, s7)))"
    and ctl: "same_control s s5"
    and f5: "d_current_prn_length_samples s5 = 16000"
      "d_code_freq_hz s5 = 1023000"
      "d_next_prn_length_samples s5 = 16000"
      "d_next_rem_code_phase_samples s5 = 0"
      "d_rem_code_phase_samples s5 = 0"
      "d_very_early_late_spc_chips s5 = 3 / 5"
      "d_early_late_spc_chips s5 = 3 / 20"
      "length (d_very_early_code s5) = 32000"
      "length (d_early_code s5) = 32000"
      "length (d_prompt_code s5) = 32000"
      "length (d_late_code s5) = 32000"
      "length (d_very_late_code s5) = 32000"
      "length (d_carr_sign s5) = 32000"
      "lf_acc (d_code_loop_filter s5) = 0"
    by blast
  note c5 = ctl [unfolded same_control_def]
  from sf have s0: "d_enable_tracking s" "\<not> d_pull_in s" "d_fs_in s = 4000000"
    "length (d_ca_code s) = 8188" "d_cn0_estimation_counter s = k"
    "length (d_Prompt_buffer s) = 10" "d_acquisition_gnss_synchro s \<noteq> None"
    by blast+
  define s6 where
    "s6 = s5\<lparr>d_Prompt_buffer := (d_Prompt_buffer s5)[nat k := d_Prompt s5],
             d_cn0_estimation_counter := k + 1\<rparr>"
  have cn: "cn0_and_lock example_env s5 = Inr s6"
    using k c5 s0 by (simp add: cn0_and_lock_def CN0_ESTIMATION_SAMPLES_def Let_def s6_def)
  have "d_fs_in s6 = 4000000" using c5 s0 by (simp add: s6_def)
  from second_counter_steady [OF this] obtain seg where
    sc: "second_counter s6 = Inr (s6\<lparr>d_last_seg := seg\<rparr>)" ..
  define r where "r = finish_epoch (fill_synchro fr2 s6) (s6\<lparr>d_last_seg := seg\<rparr>)"
  have gw: "general_work example_env inp fr s = Inr r"
    using s0(1,2) by (simp add: general_work_def te cn sc bind_err_def r_def)
  have steady: "steady_tracker (k + 1) (wr_state r)"
    using c5 s0 f5
    by (simp add: steady_tracker_def r_def finish_epoch_def write_dump_def Let_def s6_def
          split: option.split ofstream.split)
  have mon: "monitor (wr_state r) = monitor s"
    using c5
    by (simp add: monitor_def r_def finish_epoch_def write_dump_def Let_def s6_def
          split: option.split ofstream.split)
  from gw steady mon show ?thesis by blast
qed

lemma steady_window_epoch:
  assumes st: "steady_tracker 10 s"
  shows "\<exists>r. general_work example_env inp fr s = Inr r
           \<and> monitor (wr_state r) = monitor (lock_window 0 0 s)
           \<and> d_CN0_SNV_dB_Hz (wr_state r) = 0
           \<and> d_carrier_lock_test (wr_state r) = 0
           \<and> \<not> d_pull_in (wr_state r)
           \<and> (d_enable_tracking (wr_state r) \<longrightarrow> steady_tracker 0 (wr_state r))"
proof -
  note sf = st [unfolded steady_tracker_def]
  from steady_epoch_body [OF st, of inp fr] obtain fr2 s5 where
    te: "tracking_epoch example_env inp fr s
           = bind_err (cn0_and_lock example_env s5)
               (\<lambda>s6. bind_err (second_counter s6) (\<lambda>s7. Inr (fill_synchro fr2 s6, s7)))"
    and ctl: "same_control s s5"
    and f5: "d_current_prn_length_samples s5 = 16000"
      "d_code_freq_hz s5 = 1023000"
      "d_next_prn_length_samples s5 = 16000"
      "d_next_rem_code_phase_samples s5 = 0"
      "d_rem_code_phase_samples s5 = 0"
      "d_very_early_late_spc_chips s5 = 3 / 5"
      "d_early_late_spc_chips s5 = 3 / 20"
      "length (d_very_early_code s5) = 32000"
      "length (d_early_code s5) = 32000"
      "length (d_prompt_code s5) = 32000"
      "length (d_late_code s5) = 32000"
      "length (d_very_late_code s5) = 32000"
      "length (d_carr_sign s5) = 32000"
      "lf_acc (d_code_loop_filter s5) = 0"
    by auto
  note c5 = ctl [unfolded same_control_def]
  from sf have s0: "d_enable_tracking s" "\<not> d_pull_in s" "d_fs_in s = 4000000"
    "d_cn0_estimation_counter s = 10" "length (d_ca_code s) = 8188"
    "length (d_Prompt_buffer s) = 10" "d_acquisition_gnss_synchro s \<noteq> None"
    by blast+
  have E: "galileo_e1_CN0_SNV example_env = (\<lambda>b n fs. 0)"
    "carrier_lock_detector example_env = (\<lambda>b n. 0)"
    by (simp_all add: example_env_def)
  define s6 where "s6 = lock_window 0 0 s5"
  have cn: "cn0_and_lock example_env s5 = Inr s6"
    using c5 s0 by (simp add: cn0_and_lock_def CN0_ESTIMATION_SAMPLES_def E s6_def)
  have m5: "monitor s5 = monitor s" using c5 by (simp add: monitor_def)
  have m6: "monitor s6 = monitor (lock_window 0 0 s)"
    unfolding s6_def by (rule monitor_lock_window [OF m5])
  have f6: "d_fs_in s6 = 4000000" "d_cn0_estimation_counter s6 = 0" "\<not> d_pull_in s6"
    using c5 s0
    by (simp_all add: s6_def lock_window_def loss_of_lock_def fail_counter_update_def Let_def
          split: option.split)
  from second_counter_steady [OF f6(1)] obtain seg where
    sc: "second_counter s6 = Inr (s6\<lparr>d_last_seg := seg\<rparr>)" ..
  define r where "r = finish_epoch (fill_synchro fr2 s6) (s6\<lparr>d_last_seg := seg\<rparr>)"
  have gw: "general_work example_env inp fr s = Inr r"
    using s0(1,2) by (simp add: general_work_def te cn sc bind_err_def r_def)
  have mon: "monitor (wr_state r) = monitor s6"
    by (simp add: monitor_def r_def finish_epoch_def write_dump_def Let_def split: option.split ofstream.split)
  have est: "d_CN0_SNV_dB_Hz s6 = 0" "d_carrier_lock_test s6 = 0"
    by (simp_all add: s6_def lock_window_def loss_of_lock_def fail_counter_update_def Let_def
          split: option.split)
  have rest: "d_cn0_estimation_counter (wr_state r) = 0" "\<not> d_pull_in (wr_state r)"
    "d_CN0_SNV_dB_Hz (wr_state r) = 0" "d_carrier_lock_test (wr_state r) = 0"
    using f6 est
    by (simp_all add: r_def finish_epoch_def write_dump_def Let_def split: option.split ofstream.split)
  have same6: "d_current_prn_length_samples s6 = d_current_prn_length_samples s5"
    "d_code_freq_hz s6 = d_code_freq_hz s5"
    "d_next_prn_length_samples s6 = d_next_prn_length_samples s5"
    "d_next_rem_code_phase_samples s6 = d_next_rem_code_phase_samples s5"
    "d_rem_code_phase_samples s6 = d_rem_code_phase_samples s5"
    "d_very_early_late_spc_chips s6 = d_very_early_late_spc_chips s5"
    "d_early_late_spc_chips s6 = d_early_late_spc_chips s5"
    "d_very_early_code s6 = d_very_early_code s5" "d_early_code s6 = d_early_code s5"
    "d_prompt_code s6 = d_prompt_code s5" "d_late_code s6 = d_late_code s5"
    "d_very_late_code s6 = d_very_late_code s5" "d_carr_sign s6 = d_carr_sign s5"
    "d_code_loop_filter s6 = d_code_loop_filter s5" "d_ca_code s6 = d_ca_code s5"
    "d_Prompt_buffer s6 = d_Prompt_buffer s5"
    "d_acquisition_gnss_synchro s6 = d_acquisition_gnss_synchro s5"
    by (simp_all add: s6_def lock_window_def loss_of_lock_def fail_counter_update_def Let_def
          split: option.split)
  have en: "d_enable_tracking (wr_state r) = d_enable_tracking s6"
    by (simp add: r_def finish_epoch_def write_dump_def Let_def split: option.split ofstream.split)
  have steady: "d_enable_tracking (wr_state r) \<longrightarrow> steady_tracker 0 (wr_state r)"
  proof
    assume "d_enable_tracking (wr_state r)"
    then have "d_enable_tracking s6" by (simp add: en)
    then show "steady_tracker 0 (wr_state r)"
      using c5 s0 f5 f6
      by (simp add: steady_tracker_def r_def finish_epoch_def write_dump_def Let_def same6
            split: option.split ofstream.split)
  qed
  from gw mon m6 rest steady show ?thesis by simp
qed

lemma steady_fill_epochs:
  assumes "steady_tracker k s" and "0 \<le> k" and "k + int n \<le> 10"
  shows "\<exists>s'. run_epochs example_env (replicate n c) s = Inr s'
            \<and> steady_tracker (k + int n) s' \<and> monitor s' = monitor s"
  using assms
proof (induction n arbitrary: k s)
  case 0
  then show ?case by simp
next
  case (Suc n)
  from Suc.prems have "k < 10" by simp
  from steady_fill_epoch [OF Suc.prems(1,2) this, of "fst c" "snd c"] obtain r where
    r: "general_work example_env (fst c) (snd c) s = Inr r"
    and st: "steady_tracker (k + 1) (wr_state r)"
    and m: "monitor (wr_state r) = monitor s"
    by blast
  from Suc.prems have "0 \<le> k + 1" "k + 1 + int n \<le> 10" by simp_all
  from Suc.IH [OF st this] obtain s' where
    run: "run_epochs example_env (replicate n c) (wr_state r) = Inr s'"
    and st': "steady_tracker (k + 1 + int n) s'" and m': "monitor s' = monitor (wr_state r)"
    by blast
  have eq: "k + 1 + int n = k + int (Suc n)" by simp
  have "run_epochs example_env (replicate (Suc n) c) s = Inr s'"
    using r run by (simp add: bind_err_def)
  moreover have "steady_tracker (k + int (Suc n)) s'" using st' unfolding eq .
  moreover have "monitor s' = monitor s" using m m' by simp
  ultimately show ?case by blast
qed

lemma reachable_run_epochs:
  "reachable E s \<Longrightarrow> run_epochs E calls s = Inr s' \<Longrightarrow> reachable E s'"
proof (induction calls arbitrary: s)
  case Nil
  then show ?case by simp
next
  case (Cons c calls)
  from Cons.prems(2) obtain r where
    r: "general_work E (fst c) (snd c) s = Inr r" and rest: "run_epochs E calls (wr_state r) = Inr s'"
    by (auto dest!: bind_err_Inr)
  from Cons.IH [OF reach_general_work [OF Cons.prems(1) r] rest] show ?case .
qed
lemma run_epochs_append:
  "run_epochs E (xs @ ys) s = bind_err (run_epochs E xs s) (run_epochs E ys)"
proof (induction xs arbitrary: s)
  case Nil
  show ?case by (simp add: bind_err_def)
next
  case (Cons c xs)
  show ?case
    by (cases "general_work E (fst c) (snd c) s") (simp_all add: bind_err_def Cons.IH)
qed

lemma idle_epochs:
  assumes "\<not> d_enable_tracking s"
  shows "\<exists>s'. run_epochs E calls s = Inr s' \<and> monitor s' = monitor s"
  using assms
proof (induction calls arbitrary: s)
  case Nil
  then show ?case by simp
next
  case (Cons c calls)
  let ?r = "finish_epoch (snd c) (idle_epoch s)"
  have gw: "general_work E (fst c) (snd c) s = Inr ?r"
    using Cons.prems by (rule general_work_idle)
  have m: "monitor (wr_state ?r) = monitor s"
    by (simp add: monitor_def finish_epoch_control idle_epoch_def)
  then have "\<not> d_enable_tracking (wr_state ?r)"
    using Cons.prems by (simp add: monitor_def)
  from Cons.IH [OF this] obtain s' where
    "run_epochs E calls (wr_state ?r) = Inr s'" "monitor s' = monitor (wr_state ?r)"
    by blast
  with gw m have "run_epochs E (c # calls) s = Inr s' \<and> monitor s' = monitor s"
    by (simp add: bind_err_def)
  then show ?case ..
qed

lemma steady_cycle:
  assumes "steady_tracker 0 s"
  shows "\<exists>s'. run_epochs example_env (replicate 11 c) s = Inr s'
            \<and> monitor s' = monitor (lock_window 0 0 s)
            \<and> (d_enable_tracking s' \<longrightarrow> steady_tracker 0 s')"
proof -
  from steady_fill_epochs [OF assms, of 10 c] obtain s10 where
    run10: "run_epochs example_env (replicate 10 c) s = Inr s10"
    and st10: "steady_tracker 10 s10" and m10: "monitor s10 = monitor s"
    by auto
  from steady_window_epoch [OF st10, of "fst c" "snd c"] obtain r where
    gw: "general_work example_env (fst c) (snd c) s10 = Inr r"
    and m: "monitor (wr_state r) = monitor (lock_window 0 0 s10)"
    and st: "d_enable_tracking (wr_state r) \<longrightarrow> steady_tracker 0 (wr_state r)"
    by blast
  have split11: "replicate 11 c = replicate 10 c @ [c]"
    using replicate_add [of 10 1 c] by simp
  have "run_epochs example_env (replicate 11 c) s = Inr (wr_state r)"
    unfolding split11 run_epochs_append by (simp add: run10 gw bind_err_def)
  moreover have "monitor (wr_state r) = monitor (lock_window 0 0 s)"
    using m monitor_lock_window [OF m10, of 0 0] by simp
  ultimately show ?thesis using st by blast
qed

lemma steady_cycles:
  assumes "steady_tracker 0 s"
  shows "\<exists>s'. run_epochs example_env (replicate (11 * n) c) s = Inr s'
            \<and> monitor s' = monitor (run_windows (replicate n (0, 0)) s)"
  using assms
proof (induction n arbitrary: s)
  case 0
  then show ?case by simp
next
  case (Suc n)
  from Suc.prems have en: "d_enable_tracking s" by (simp add: steady_tracker_def)
  from steady_cycle [OF Suc.prems, of c] obtain s1 where
    run1: "run_epochs example_env (replicate 11 c) s = Inr s1"
    and m1: "monitor s1 = monitor (lock_window 0 0 s)"
    and st1: "d_enable_tracking s1 \<longrightarrow> steady_tracker 0 s1"
    by blast
  have split: "replicate (11 * Suc n) c = replicate 11 c @ replicate (11 * n) c"
    using replicate_add [of 11 "11 * n" c] by simp
  have "\<exists>s'. run_epochs example_env (replicate (11 * n) c) s1 = Inr s'
          \<and> monitor s' = monitor (run_windows (replicate n (0, 0)) s1)"
  proof (cases "d_enable_tracking s1")
    case True
    with st1 have "steady_tracker 0 s1" by simp
    from Suc.IH [OF this] show ?thesis .
  next
    case False
    from idle_epochs [OF False, of example_env "replicate (11 * n) c"] False
    show ?thesis by (simp add: run_windows_disabled)
  qed
  then obtain s' where
    run: "run_epochs example_env (replicate (11 * n) c) s1 = Inr s'"
    and m: "monitor s' = monitor (run_windows (replicate n (0, 0)) s1)"
    by blast
  have "run_epochs example_env (replicate (11 * Suc n) c) s = Inr s'"
    unfolding split run_epochs_append by (simp add: run1 run bind_err_def)
  moreover have "monitor s' = monitor (run_windows (replicate (Suc n) (0, 0)) s)"
    using m monitor_run_windows [OF m1, of "replicate n (0, 0)"] en by simp
  ultimately show ?case by blast
qed

lemma window_tracker_eq:
  "run_epochs example_env (replicate 10 (replicate 32000 0, example_frame))
     (aligned_tracker q dump (3 / 5) d) = Inr (window_tracker q dump d)"
  using steady_fill_epochs [OF steady_tracker_aligned, of 10 "(replicate 32000 0, example_frame)" q dump d]
  by (auto simp: window_tracker_def)

lemma window_tracker_steady:
  "steady_tracker 10 (window_tracker q dump d)"
  "monitor (window_tracker q dump d) = monitor (aligned_tracker q dump (3 / 5) d)"
  using steady_fill_epochs [OF steady_tracker_aligned, of 10 "(replicate 32000 0, example_frame)" q dump d]
  by (auto simp: window_tracker_def)

lemma reachable_window_tracker: "reachable example_env (window_tracker q dump d)"
  using reachable_run_epochs [OF reachable_aligned_tracker window_tracker_eq] .

lemma window_tracker_fields:
  "d_enable_tracking (window_tracker q dump d)"
  "\<not> d_pull_in (window_tracker q dump d)"
  "d_cn0_estimation_counter (window_tracker q dump d) = 10"
  "d_carrier_lock_fail_counter (window_tracker q dump d) = 0"
  "d_queue (window_tracker q dump d) = q"
  "d_channel (window_tracker q dump d) = 3"
  "d_carrier_lock_threshold (window_tracker q dump d) = 20"
proof -
  have m: "monitor (aligned_tracker q dump (3 / 5) d) = (0, True, q, 20, 3)"
    by (simp add: monitor_def aligned_tracker_unfold started_tracker_fields)
  from window_tracker_steady [of q dump d] m
  show "d_enable_tracking (window_tracker q dump d)"
    "\<not> d_pull_in (window_tracker q dump d)"
    "d_cn0_estimation_counter (window_tracker q dump d) = 10"
    "d_carrier_lock_fail_counter (window_tracker q dump d) = 0"
    "d_queue (window_tracker q dump d) = q"
    "d_channel (window_tracker q dump d) = 3"
    "d_carrier_lock_threshold (window_tracker q dump d) = 20"
    by (simp_all add: steady_tracker_def monitor_def)
qed

lemma first_window_epoch:
  "\<exists>r. general_work example_env inp fr (window_tracker q dump d) = Inr r
     \<and> d_carrier_lock_fail_counter (wr_state r) = 1
     \<and> d_enable_tracking (wr_state r)
     \<and> d_queue (wr_state r) = q
     \<and> d_CN0_SNV_dB_Hz (wr_state r) = 0
     \<and> d_carrier_lock_test (wr_state r) = 0"
proof -
  from steady_window_epoch [OF window_tracker_steady(1), of inp fr q dump d] obtain r where
    gw: "general_work example_env inp fr (window_tracker q dump d) = Inr r"
    and m: "monitor (wr_state r) = monitor (lock_window 0 0 (window_tracker q dump d))"
    and e: "d_CN0_SNV_dB_Hz (wr_state r) = 0" "d_carrier_lock_test (wr_state r) = 0"
    by blast
  from m have "d_carrier_lock_fail_counter (wr_state r) = 1 \<and> d_enable_tracking (wr_state r)
      \<and> d_queue (wr_state r) = q"
    by (simp add: monitor_def lock_window_fields window_tracker_fields)
  with gw e show ?thesis by blast
qed

subsection \<open>The dump stream and the name of its file\<close>

lemma set_channel_stream:
  "d_dump_file (set_channel E ch s)
     = (if d_dump s \<and> d_dump_file s = Closed
        then (if file_open E (d_dump_filename s @ string_of_nat (unat ch) @ ''.dat'')
              then Opened \<lparr>file_name = d_dump_filename s @ string_of_nat (unat ch) @ ''.dat'',
                           file_data = []\<rparr>
              else Failed)
        else d_dump_file s)"
  by (cases "d_dump_file s") (simp_all add: set_channel_def Let_def del: string_of_nat.simps)

lemma set_channel_filename:
  "d_dump_filename (set_channel E ch s)
     = (if d_dump s \<and> \<not> is_open (d_dump_file s)
        then d_dump_filename s @ string_of_nat (unat ch) @ ''.dat''
        else d_dump_filename s)"
  by (cases "d_dump_file s") (simp_all add: set_channel_def Let_def del: string_of_nat.simps)

lemma start_tracking_dump_filename:
  assumes "start_tracking E s = Inr s'"
  shows "d_dump_filename s' = d_dump_filename s"
  using assms unfolding start_tracking_def Let_def
  by (auto split: option.splits sum.splits if_splits)

lemma finish_epoch_stream:
  "d_dump_filename (wr_state (finish_epoch fr s)) = d_dump_filename s"
  "d_dump_file (wr_state (finish_epoch fr s)) = Closed \<Longrightarrow> d_dump_file s = Closed"
  by (auto simp: finish_epoch_def Let_def write_dump_def split: ofstream.splits if_splits)

lemma epoch_body_dump_filename:
  assumes "epoch_body E inp fr s = Inr (fr1, s1)"
  shows "d_dump_filename s1 = d_dump_filename s"
proof (cases "d_enable_tracking s")
  case False
  with assms show ?thesis by (auto simp: epoch_body_def idle_epoch_def)
next
  case True
  with assms have te: "tracking_epoch E inp fr s = Inr (fr1, s1)"
    by (simp add: epoch_body_def)
  from tracking_epoch_decomp [OF te] obtain s4 s5 where
    a: "same_control s s4" and b: "cn0_and_lock E s4 = Inr s5" and c: "second_counter s5 = Inr s1"
    by blast
  from second_counter_shape [OF c] obtain seg where s1: "s1 = s5\<lparr>d_last_seg := seg\<rparr>" ..
  from cn0_and_lock_cases [OF b] have "d_dump_filename s5 = d_dump_filename s4"
    by (auto simp: lock_window_def loss_of_lock_def fail_counter_update_def Let_def
          split: option.split)
  with a show ?thesis by (simp add: s1 same_control_def)
qed

lemma general_work_stream:
  assumes "general_work E inp fr s = Inr r"
  shows "d_dump_filename (wr_state r) = d_dump_filename s"
    and "d_dump_file (wr_state r) = Closed \<Longrightarrow> d_dump_file s = Closed"
proof -
  have "d_dump_filename (wr_state r) = d_dump_filename s
        \<and> (d_dump_file (wr_state r) = Closed \<longrightarrow> d_dump_file s = Closed)"
  proof (cases "d_enable_tracking s \<and> d_pull_in s")
    case True
    with assms have "pull_in_alignment s = Inr r" by (simp add: general_work_def)
    from pull_in_alignment_control [OF this] show ?thesis by (simp add: same_control_def)
  next
    case False
    have "\<exists>fr1 s1. epoch_body E inp fr s = Inr (fr1, s1) \<and> r = finish_epoch fr1 s1"
    proof (cases "d_enable_tracking s")
      case True
      with False have "\<not> d_pull_in s" by simp
      from general_work_tracking [OF assms True this] True show ?thesis
        by (simp add: epoch_body_def)
    next
      case False
      with assms have "r = finish_epoch fr (idle_epoch s)" by (simp add: general_work_idle)
      with False show ?thesis by (simp add: epoch_body_def)
    qed
    then obtain fr1 s1 where eb: "epoch_body E inp fr s = Inr (fr1, s1)"
      and r: "r = finish_epoch fr1 s1"
      by blast
    from epoch_body_dump [OF eb] epoch_body_dump_filename [OF eb] show ?thesis
      unfolding r by (auto simp: finish_epoch_stream(1) dest: finish_epoch_stream(2))
  qed
  then show "d_dump_filename (wr_state r) = d_dump_filename s"
    and "d_dump_file (wr_state r) = Closed \<Longrightarrow> d_dump_file s = Closed"
    by simp_all
qed

lemma configured_closed_name:
  "configured E name s \<Longrightarrow> d_dump_file s = Closed \<Longrightarrow> d_dump_filename s = name"
proof (induction rule: configured.induct)
  case conf_new
  show ?case by (simp add: new_object_fields)
next
  case (conf_set_channel s channel)
  from conf_set_channel.prems have "d_dump_file s = Closed \<and> \<not> d_dump s"
    by (cases "d_dump s \<and> d_dump_file s = Closed")
      (simp_all add: set_channel_stream del: string_of_nat.simps split: if_splits)
  with conf_set_channel.IH show ?case
    by (simp add: set_channel_filename del: string_of_nat.simps)
next
  case (conf_set_channel_queue s q)
  then show ?case by (simp add: set_channel_queue_def)
next
  case (conf_set_gnss_synchro s g)
  then show ?case by (simp add: set_gnss_synchro_def)
next
  case (conf_start_tracking s s')
  from conf_start_tracking.prems conf_start_tracking.IH
  show ?case
    by (simp add: start_tracking_fields [OF conf_start_tracking.hyps(2)]
          start_tracking_dump_filename [OF conf_start_tracking.hyps(2)])
next
  case (conf_general_work s inp fr r)
  from general_work_stream [OF conf_general_work.hyps(2)] conf_general_work.prems
    conf_general_work.IH
  show ?case by simp
qed

lemma configured_reachable: "configured E name s \<Longrightarrow> reachable E s"
  by (induction rule: configured.induct) (auto intro: reachable.intros)

subsection \<open>The loop update after the start of tracking\<close>





section \<open>The claims of the specification\<close>

subsection \<open>The carrier-lock failure test\<close>

text \<open>
  Claim C1, as the specification states it, fails: the constructor sets
  \<^verbatim>\<open>d_carrier_lock_threshold\<close> to 20, not to 0.85. A window with lock test 1 and a C/N0
  estimate of 30 dB-Hz is a failing window for the specification (\<open>1 > 0.85\<close>) and the
  source does not increment the fail counter on it: in the concrete receiver after pull-in
  the counter is 0 and stays 0.
\<close>

theorem lock_threshold_085_counterexample:
  "spec_window_fails (30, 1)
   \<and> d_carrier_lock_threshold (aligned_tracker None False (3 / 5) 500)
        \<noteq> spec_carrier_lock_threshold
   \<and> d_carrier_lock_fail_counter (aligned_tracker None False (3 / 5) 500) = 0
   \<and> d_carrier_lock_fail_counter (lock_window 30 1 (aligned_tracker None False (3 / 5) 500)) = 0
   \<and> d_carrier_lock_fail_counter (lock_window 30 1 (aligned_tracker None False (3 / 5) 500))
        \<noteq> d_carrier_lock_fail_counter (aligned_tracker None False (3 / 5) 500) + 1"
  by (simp add: spec_window_fails_def spec_carrier_lock_threshold_def lock_window_fields
        aligned_tracker_unfold started_tracker_fields)

text \<open>
  Claim C1, amended. In every state reachable from the constructor the carrier-lock
  threshold is the constant 20, and on a C/N0 evaluation window (the state after the
  counter of the window is reset and the two estimates are stored) the fail counter is
  incremented exactly when \<open>|carrier_lock_test| > 20\<close> or the C/N0 estimate is below 25,
  and decremented towards 0 otherwise. For a call of \<^verbatim>\<open>general_work\<close> in the tracking
  state this reads: a call that fills the Prompt buffer leaves the fail counter unchanged,
  and a call that evaluates a window leaves it at the value so updated, or at 0 when that
  value exceeds 200.
\<close>

theorem fail_counter_test_uses_threshold_20:
  assumes "reachable E s"
  shows "d_carrier_lock_threshold s = 20
         \<and> d_carrier_lock_fail_counter
              (fail_counter_update
                 (s\<lparr>d_cn0_estimation_counter := 0, d_CN0_SNV_dB_Hz := snv,
                    d_carrier_lock_test := lock_test\<rparr>))
             = (if \<bar>lock_test\<bar> > 20 \<or> snv < 25 then d_carrier_lock_fail_counter s + 1
                else if d_carrier_lock_fail_counter s > 0 then d_carrier_lock_fail_counter s - 1
                else 0)
         \<and> (d_enable_tracking s \<and> \<not> d_pull_in s \<and> general_work E inp fr s = Inr r \<longrightarrow>
              d_carrier_lock_threshold (wr_state r) = 20
              \<and> d_carrier_lock_fail_counter (wr_state r)
                  = (if d_cn0_estimation_counter s < CN0_ESTIMATION_SAMPLES
                     then d_carrier_lock_fail_counter s
                     else let c1 = (if \<bar>d_carrier_lock_test (wr_state r)\<bar> > 20
                                         \<or> d_CN0_SNV_dB_Hz (wr_state r) < 25
                                    then d_carrier_lock_fail_counter s + 1
                                    else if d_carrier_lock_fail_counter s > 0
                                         then d_carrier_lock_fail_counter s - 1
                                         else 0)
                          in if c1 > MAXIMUM_LOCK_FAIL_COUNTER then 0 else c1))"
proof -
  note inv = reachable_object_inv [OF assms, unfolded object_inv_def]
  have first: "d_carrier_lock_threshold s = 20" using inv by simp
  have second: "d_carrier_lock_fail_counter
              (fail_counter_update
                 (s\<lparr>d_cn0_estimation_counter := 0, d_CN0_SNV_dB_Hz := snv,
                    d_carrier_lock_test := lock_test\<rparr>))
             = (if \<bar>lock_test\<bar> > 20 \<or> snv < 25 then d_carrier_lock_fail_counter s + 1
                else if d_carrier_lock_fail_counter s > 0 then d_carrier_lock_fail_counter s - 1
                else 0)"
    using inv by (auto simp: fail_counter_update_def MINIMUM_VALID_CN0_def)
  have third: "d_enable_tracking s \<and> \<not> d_pull_in s \<and> general_work E inp fr s = Inr r \<longrightarrow>
              d_carrier_lock_threshold (wr_state r) = 20
              \<and> d_carrier_lock_fail_counter (wr_state r)
                  = (if d_cn0_estimation_counter s < CN0_ESTIMATION_SAMPLES
                     then d_carrier_lock_fail_counter s
                     else let c1 = (if \<bar>d_carrier_lock_test (wr_state r)\<bar> > 20
                                         \<or> d_CN0_SNV_dB_Hz (wr_state r) < 25
                                    then d_carrier_lock_fail_counter s + 1
                                    else if d_carrier_lock_fail_counter s > 0
                                         then d_carrier_lock_fail_counter s - 1
                                         else 0)
                          in if c1 > MAXIMUM_LOCK_FAIL_COUNTER then 0 else c1)"
  proof
    assume h: "d_enable_tracking s \<and> \<not> d_pull_in s \<and> general_work E inp fr s = Inr r"
    then have gw: "general_work E inp fr s = Inr r" and en: "d_enable_tracking s"
      and pi: "\<not> d_pull_in s"
      by simp_all
    have thr: "d_carrier_lock_threshold (wr_state r) = 20"
      using reachable_object_inv [OF reach_general_work [OF assms gw]]
      by (simp add: object_inv_def)
    show "d_carrier_lock_threshold (wr_state r) = 20
          \<and> d_carrier_lock_fail_counter (wr_state r)
              = (if d_cn0_estimation_counter s < CN0_ESTIMATION_SAMPLES
                 then d_carrier_lock_fail_counter s
                 else let c1 = (if \<bar>d_carrier_lock_test (wr_state r)\<bar> > 20
                                     \<or> d_CN0_SNV_dB_Hz (wr_state r) < 25
                                then d_carrier_lock_fail_counter s + 1
                                else if d_carrier_lock_fail_counter s > 0
                                     then d_carrier_lock_fail_counter s - 1
                                     else 0)
                      in if c1 > MAXIMUM_LOCK_FAIL_COUNTER then 0 else c1)"
    proof (cases "d_cn0_estimation_counter s < CN0_ESTIMATION_SAMPLES")
      case True
      from general_work_fill_epoch [OF gw en pi True] thr True show ?thesis by simp
    next
      case False
      from general_work_window_epoch [OF gw en pi False] thr False inv show ?thesis
        by (auto simp: lock_window_fields Let_def MAXIMUM_LOCK_FAIL_COUNTER_def)
    qed
  qed
  show ?thesis by (rule conjI [OF first conjI [OF second third]])
qed

theorem fail_counter_test_uses_threshold_20_witness:
  "reachable example_env (aligned_tracker None False (3 / 5) 500)
   \<and> d_carrier_lock_threshold (aligned_tracker None False (3 / 5) 500) = 20
   \<and> d_carrier_lock_fail_counter
        (fail_counter_update
           ((aligned_tracker None False (3 / 5) 500)
              \<lparr>d_cn0_estimation_counter := 0, d_CN0_SNV_dB_Hz := 30, d_carrier_lock_test := 21\<rparr>))
       = 1
   \<and> d_carrier_lock_fail_counter
        (fail_counter_update
           ((aligned_tracker None False (3 / 5) 500)
              \<lparr>d_cn0_estimation_counter := 0, d_CN0_SNV_dB_Hz := 30, d_carrier_lock_test := 1\<rparr>))
       = 0
   \<and> d_enable_tracking (aligned_tracker None False (3 / 5) 500)
   \<and> \<not> d_pull_in (aligned_tracker None False (3 / 5) 500)
   \<and> \<not> isl (general_work example_env (replicate 32000 0) example_frame
               (aligned_tracker None False (3 / 5) 500))
   \<and> d_carrier_lock_fail_counter
        (wr_state (projr (general_work example_env (replicate 32000 0) example_frame
                            (aligned_tracker None False (3 / 5) 500)))) = 0
   \<and> reachable example_env (window_tracker None False 500)
   \<and> d_enable_tracking (window_tracker None False 500)
   \<and> \<not> d_pull_in (window_tracker None False 500)
   \<and> \<not> d_cn0_estimation_counter (window_tracker None False 500) < CN0_ESTIMATION_SAMPLES
   \<and> \<not> isl (general_work example_env (replicate 32000 0) example_frame
               (window_tracker None False 500))
   \<and> d_carrier_lock_fail_counter
        (wr_state (projr (general_work example_env (replicate 32000 0) example_frame
                            (window_tracker None False 500)))) = 1"
proof -
  let ?t = "aligned_tracker None False (3 / 5) 500"
  let ?w = "window_tracker None False 500"
  have reach: "reachable example_env ?t" by (rule reachable_aligned_tracker)
  have t: "d_enable_tracking ?t" "\<not> d_pull_in ?t" "d_carrier_lock_fail_counter ?t = 0"
    "d_cn0_estimation_counter ?t = 0"
    by (simp_all add: aligned_tracker_unfold started_tracker_fields started_tracker_more_fields)
  from first_tracking_epoch [of "replicate 32000 0" None False 500]
  obtain r where r: "general_work example_env (replicate 32000 0) example_frame ?t = Inr r"
    by blast
  have early: "reachable example_env ?t
     \<and> d_carrier_lock_threshold ?t = 20
     \<and> d_carrier_lock_fail_counter
          (fail_counter_update
             (?t\<lparr>d_cn0_estimation_counter := 0, d_CN0_SNV_dB_Hz := 30, d_carrier_lock_test := 21\<rparr>))
         = 1
     \<and> d_carrier_lock_fail_counter
          (fail_counter_update
             (?t\<lparr>d_cn0_estimation_counter := 0, d_CN0_SNV_dB_Hz := 30, d_carrier_lock_test := 1\<rparr>))
         = 0
     \<and> d_enable_tracking ?t
     \<and> \<not> d_pull_in ?t
     \<and> \<not> isl (general_work example_env (replicate 32000 0) example_frame ?t)
     \<and> d_carrier_lock_fail_counter
          (wr_state (projr (general_work example_env (replicate 32000 0) example_frame ?t))) = 0"
    unfolding r
    using reach t
      fail_counter_test_uses_threshold_20 [where snv = 30 and lock_test = 21, OF reach,
        of "replicate 32000 0" example_frame r]
      fail_counter_test_uses_threshold_20 [where snv = 30 and lock_test = 1, OF reach,
        of "replicate 32000 0" example_frame r]
      r
    by (simp add: CN0_ESTIMATION_SAMPLES_def)
  have reachw: "reachable example_env ?w" by (rule reachable_window_tracker)
  note w = window_tracker_fields [of None False 500]
  from first_window_epoch [of "replicate 32000 0" example_frame None False 500]
  obtain u where u: "general_work example_env (replicate 32000 0) example_frame ?w = Inr u"
    and est: "d_CN0_SNV_dB_Hz (wr_state u) = 0" "d_carrier_lock_test (wr_state u) = 0"
    by blast
  have late: "reachable example_env ?w
     \<and> d_enable_tracking ?w
     \<and> \<not> d_pull_in ?w
     \<and> \<not> d_cn0_estimation_counter ?w < CN0_ESTIMATION_SAMPLES
     \<and> \<not> isl (general_work example_env (replicate 32000 0) example_frame ?w)
     \<and> d_carrier_lock_fail_counter
          (wr_state (projr (general_work example_env (replicate 32000 0) example_frame ?w))) = 1"
    unfolding u
    using reachw w est u
      fail_counter_test_uses_threshold_20 [where snv = 0 and lock_test = 0, OF reachw,
        of "replicate 32000 0" example_frame u]
    by (simp add: CN0_ESTIMATION_SAMPLES_def MAXIMUM_LOCK_FAIL_COUNTER_def)
  from early late show ?thesis by simp
qed

subsection \<open>Loss of lock\<close>

text \<open>
  Claim C2, as the specification states it, fails. The fail counter is not a count of
  consecutive failures: a passing window decrements it by one and does not reset it. After
  200 failing windows, one passing window and one failing window tracking is still enabled;
  the next failing window, the second consecutive one, declares the loss of lock. And with
  a null queue pointer the loss of lock after 201 failing windows posts no message.
\<close>

theorem loss_of_lock_consecutive_counterexample:
  "\<not> window_fails (aligned_tracker (Some []) False (3 / 5) 500) (30, 1)
   \<and> d_enable_tracking
        (run_windows (replicate 200 (0, 0) @ [(30, 1), (0, 0)])
           (aligned_tracker (Some []) False (3 / 5) 500))
   \<and> \<not> d_enable_tracking
        (run_windows (replicate 200 (0, 0) @ [(30, 1), (0, 0), (0, 0)])
           (aligned_tracker (Some []) False (3 / 5) 500))
   \<and> d_queue
        (run_windows (replicate 200 (0, 0) @ [(30, 1), (0, 0), (0, 0)])
           (aligned_tracker (Some []) False (3 / 5) 500)) = Some [(3, 2)]
   \<and> \<not> d_enable_tracking
        (run_windows (replicate 201 (0, 0)) (aligned_tracker None False (3 / 5) 500))
   \<and> d_queue
        (run_windows (replicate 201 (0, 0)) (aligned_tracker None False (3 / 5) 500)) = None"
proof -
  have run200: "d_enable_tracking (run_windows (replicate 200 (0, 0)) (aligned_tracker q False (3 / 5) 500))
      \<and> d_queue (run_windows (replicate 200 (0, 0)) (aligned_tracker q False (3 / 5) 500)) = q
      \<and> d_channel (run_windows (replicate 200 (0, 0)) (aligned_tracker q False (3 / 5) 500)) = 3
      \<and> d_carrier_lock_threshold (run_windows (replicate 200 (0, 0)) (aligned_tracker q False (3 / 5) 500)) = 20
      \<and> d_carrier_lock_fail_counter (run_windows (replicate 200 (0, 0)) (aligned_tracker q False (3 / 5) 500)) = 200"
    for q
    using run_windows_bounded [of "aligned_tracker q False (3 / 5) 500" "replicate 200 (0, 0)"]
      run_windows_failing [of "aligned_tracker q False (3 / 5) 500" "replicate 200 (0, 0)"]
    by (simp add: aligned_tracker_unfold started_tracker_fields list_all_length window_fails_def
          MINIMUM_VALID_CN0_def)
  have split201: "replicate 201 (0 :: real, 0 :: real) = replicate 200 (0, 0) @ [(0, 0)]"
    using replicate_add [of 200 1 "(0 :: real, 0 :: real)"] by simp
  show ?thesis
    unfolding split201 run_windows_append
    using run200 [of "Some []"] run200 [of None]
    by (simp add: lock_window_fields window_fails_def aligned_tracker_unfold started_tracker_fields
          MINIMUM_VALID_CN0_def)
qed

text \<open>
  Claim C2, amended. A C/N0 window ends tracking exactly when the fail counter, incremented
  on a failing window and decremented towards 0 on any other, exceeds
  \<^verbatim>\<open>MAXIMUM_LOCK_FAIL_COUNTER = 200\<close> after its update; then the counter is reset,
  \<^verbatim>\<open>d_enable_tracking\<close> becomes false, and the message \<open>(d_channel, 2)\<close> is handed to
  the queue if the queue pointer is not null. Starting from tracking with a fail counter of
  0, this happens in none of the first 200 windows, whatever they are, and so in none of
  the first 200 calls of \<^verbatim>\<open>general_work\<close>; and it happens at the 201st window when all
  201 windows fail.
\<close>

theorem loss_of_lock_when_counter_exceeds_200:
  assumes "d_enable_tracking s" and "d_carrier_lock_fail_counter s = 0"
  shows "(length ws \<le> 200 \<longrightarrow>
            d_enable_tracking (run_windows ws s) \<and> d_queue (run_windows ws s) = d_queue s)
         \<and> (length ws = 200 \<and> list_all (window_fails s) (ws @ [w]) \<longrightarrow>
              \<not> d_enable_tracking (run_windows (ws @ [w]) s)
              \<and> d_carrier_lock_fail_counter (run_windows (ws @ [w]) s) = 0
              \<and> d_queue (run_windows (ws @ [w]) s)
                   = map_option (\<lambda>ms. ms @ [(d_channel s, 2)]) (d_queue s))
         \<and> (let c1 = d_carrier_lock_fail_counter
                        (fail_counter_update
                           (t\<lparr>d_cn0_estimation_counter := 0, d_CN0_SNV_dB_Hz := snv,
                              d_carrier_lock_test := lock_test\<rparr>))
             in if c1 > MAXIMUM_LOCK_FAIL_COUNTER
                then \<not> d_enable_tracking (lock_window snv lock_test t)
                     \<and> d_carrier_lock_fail_counter (lock_window snv lock_test t) = 0
                     \<and> d_queue (lock_window snv lock_test t)
                          = map_option (\<lambda>ms. ms @ [(d_channel t, 2)]) (d_queue t)
                else d_enable_tracking (lock_window snv lock_test t) = d_enable_tracking t
                     \<and> d_carrier_lock_fail_counter (lock_window snv lock_test t) = c1
                     \<and> d_queue (lock_window snv lock_test t) = d_queue t)
         \<and> (\<not> d_pull_in s \<and> length calls \<le> 200 \<and> run_epochs E calls s = Inr s' \<longrightarrow>
              d_enable_tracking s' \<and> d_queue s' = d_queue s)"
proof -
  have first: "length ws \<le> 200 \<longrightarrow>
      d_enable_tracking (run_windows ws s) \<and> d_queue (run_windows ws s) = d_queue s" for ws
    using run_windows_bounded [of s ws] assms by simp
  have second: "length ws = 200 \<and> list_all (window_fails s) (ws @ [w]) \<longrightarrow>
      \<not> d_enable_tracking (run_windows (ws @ [w]) s)
      \<and> d_carrier_lock_fail_counter (run_windows (ws @ [w]) s) = 0
      \<and> d_queue (run_windows (ws @ [w]) s)
           = map_option (\<lambda>ms. ms @ [(d_channel s, 2)]) (d_queue s)"
  proof
    assume a: "length ws = 200 \<and> list_all (window_fails s) (ws @ [w])"
    let ?u = "run_windows ws s"
    from a have ws: "list_all (window_fails s) ws" and w: "window_fails s w" by simp_all
    from run_windows_bounded [of s ws] run_windows_failing [of s ws] assms a ws
    have u: "d_enable_tracking ?u" "d_queue ?u = d_queue s" "d_channel ?u = d_channel s"
      "d_carrier_lock_threshold ?u = d_carrier_lock_threshold s"
      "d_carrier_lock_fail_counter ?u = 200"
      by simp_all
    show "\<not> d_enable_tracking (run_windows (ws @ [w]) s)
          \<and> d_carrier_lock_fail_counter (run_windows (ws @ [w]) s) = 0
          \<and> d_queue (run_windows (ws @ [w]) s)
               = map_option (\<lambda>ms. ms @ [(d_channel s, 2)]) (d_queue s)"
      using u w
      by (simp add: run_windows_append lock_window_fields window_fails_def MINIMUM_VALID_CN0_def)
  qed
  have third: "let c1 = d_carrier_lock_fail_counter
                   (fail_counter_update
                      (t\<lparr>d_cn0_estimation_counter := 0, d_CN0_SNV_dB_Hz := snv,
                         d_carrier_lock_test := lock_test\<rparr>))
        in if c1 > MAXIMUM_LOCK_FAIL_COUNTER
           then \<not> d_enable_tracking (lock_window snv lock_test t)
                \<and> d_carrier_lock_fail_counter (lock_window snv lock_test t) = 0
                \<and> d_queue (lock_window snv lock_test t)
                     = map_option (\<lambda>ms. ms @ [(d_channel t, 2)]) (d_queue t)
           else d_enable_tracking (lock_window snv lock_test t) = d_enable_tracking t
                \<and> d_carrier_lock_fail_counter (lock_window snv lock_test t) = c1
                \<and> d_queue (lock_window snv lock_test t) = d_queue t"
    by (auto simp: Let_def lock_window_fields fail_counter_update_def MINIMUM_VALID_CN0_def
          MAXIMUM_LOCK_FAIL_COUNTER_def)
  have fourth: "\<not> d_pull_in s \<and> length calls \<le> 200 \<and> run_epochs E calls s = Inr s' \<longrightarrow>
      d_enable_tracking s' \<and> d_queue s' = d_queue s"
  proof
    assume a: "\<not> d_pull_in s \<and> length calls \<le> 200 \<and> run_epochs E calls s = Inr s'"
    then obtain vs where len: "length vs \<le> length calls"
      and m: "monitor s' = monitor (run_windows vs s)"
      using run_epochs_windows [of E calls s s'] by blast
    from len a have "length vs \<le> 200" by simp
    with first [of vs] m show "d_enable_tracking s' \<and> d_queue s' = d_queue s"
      by (simp add: monitor_def)
  qed
  show ?thesis by (rule conjI [OF first conjI [OF second conjI [OF third fourth]]])
qed

theorem loss_of_lock_when_counter_exceeds_200_witness:
  "d_enable_tracking (aligned_tracker (Some []) False (3 / 5) 500)
   \<and> d_carrier_lock_fail_counter (aligned_tracker (Some []) False (3 / 5) 500) = 0
   \<and> length (replicate 200 (0 :: real, 0 :: real)) = 200
   \<and> list_all (window_fails (aligned_tracker (Some []) False (3 / 5) 500))
        (replicate 200 (0, 0) @ [(0, 0)])
   \<and> d_enable_tracking
        (run_windows (replicate 200 (0, 0)) (aligned_tracker (Some []) False (3 / 5) 500))
   \<and> \<not> d_enable_tracking
        (run_windows (replicate 200 (0, 0) @ [(0, 0)])
           (aligned_tracker (Some []) False (3 / 5) 500))
   \<and> d_queue
        (run_windows (replicate 200 (0, 0) @ [(0, 0)])
           (aligned_tracker (Some []) False (3 / 5) 500)) = Some [(3, 2)]
   \<and> \<not> d_pull_in (aligned_tracker (Some []) False (3 / 5) 500)
   \<and> run_epochs example_env [(replicate 32000 0, example_frame)]
        (aligned_tracker (Some []) False (3 / 5) 500)
       = Inr (wr_state (projr (general_work example_env (replicate 32000 0) example_frame
                                 (aligned_tracker (Some []) False (3 / 5) 500))))
   \<and> d_enable_tracking
        (wr_state (projr (general_work example_env (replicate 32000 0) example_frame
                            (aligned_tracker (Some []) False (3 / 5) 500))))
   \<and> d_queue
        (wr_state (projr (general_work example_env (replicate 32000 0) example_frame
                            (aligned_tracker (Some []) False (3 / 5) 500)))) = Some []
   \<and> \<not> isl (run_epochs example_env (replicate 2211 (replicate 32000 0, example_frame))
               (aligned_tracker (Some []) False (3 / 5) 500))
   \<and> \<not> d_enable_tracking
        (projr (run_epochs example_env (replicate 2211 (replicate 32000 0, example_frame))
                  (aligned_tracker (Some []) False (3 / 5) 500)))
   \<and> d_queue
        (projr (run_epochs example_env (replicate 2211 (replicate 32000 0, example_frame))
                  (aligned_tracker (Some []) False (3 / 5) 500))) = Some [(3, 2)]
   \<and> \<not> isl (run_epochs example_env (replicate 2200 (replicate 32000 0, example_frame))
               (aligned_tracker (Some []) False (3 / 5) 500))
   \<and> d_enable_tracking
        (projr (run_epochs example_env (replicate 2200 (replicate 32000 0, example_frame))
                  (aligned_tracker (Some []) False (3 / 5) 500)))"
proof -
  let ?s = "aligned_tracker (Some []) False (3 / 5) 500"
  let ?c = "(replicate 32000 (0 :: complex), example_frame)"
  let ?calls = "[(replicate 32000 (0 :: complex), example_frame)]"
  have a: "d_enable_tracking ?s" and b: "d_carrier_lock_fail_counter ?s = 0"
    and p: "\<not> d_pull_in ?s" and q: "d_queue ?s = Some []" and ch: "d_channel ?s = 3"
    and thr: "d_carrier_lock_threshold ?s = 20"
    by (simp_all add: aligned_tracker_unfold started_tracker_fields)
  have c: "list_all (window_fails ?s) (replicate 200 (0, 0) @ [(0, 0)])"
    by (simp add: list_all_length window_fails_def MINIMUM_VALID_CN0_def nth_append)
  from first_tracking_epoch [of "replicate 32000 0" "Some []" False 500]
  obtain r where r: "general_work example_env (replicate 32000 0) example_frame ?s = Inr r"
    by blast
  have run: "run_epochs example_env ?calls ?s = Inr (wr_state r)"
    by (simp add: bind_err_def r)
  note inst = loss_of_lock_when_counter_exceeds_200 [OF a b, of "replicate 200 (0, 0)" "(0, 0)"
        _ _ _ ?calls example_env "wr_state r"]
  have split201: "replicate 201 (0 :: real, 0 :: real) = replicate 200 (0, 0) @ [(0, 0)]"
    using replicate_add [of 200 1 "(0 :: real, 0 :: real)"] by simp
  from steady_cycles [OF steady_tracker_aligned, of 201 ?c "Some []" False 500]
  obtain s1 where run1: "run_epochs example_env (replicate 2211 ?c) ?s = Inr s1"
    and m1: "monitor s1 = monitor (run_windows (replicate 200 (0, 0) @ [(0, 0)]) ?s)"
    unfolding split201 by auto
  from steady_cycles [OF steady_tracker_aligned, of 200 ?c "Some []" False 500]
  obtain s2 where run2: "run_epochs example_env (replicate 2200 ?c) ?s = Inr s2"
    and m2: "monitor s2 = monitor (run_windows (replicate 200 (0, 0)) ?s)"
    by auto
  have first: "d_enable_tracking ?s
     \<and> d_carrier_lock_fail_counter ?s = 0
     \<and> length (replicate 200 (0 :: real, 0 :: real)) = 200
     \<and> list_all (window_fails ?s) (replicate 200 (0, 0) @ [(0, 0)])
     \<and> d_enable_tracking (run_windows (replicate 200 (0, 0)) ?s)
     \<and> \<not> d_enable_tracking (run_windows (replicate 200 (0, 0) @ [(0, 0)]) ?s)
     \<and> d_queue (run_windows (replicate 200 (0, 0) @ [(0, 0)]) ?s) = Some [(3, 2)]
     \<and> \<not> d_pull_in ?s
     \<and> run_epochs example_env [(replicate 32000 0, example_frame)] ?s
         = Inr (wr_state (projr (general_work example_env (replicate 32000 0) example_frame ?s)))
     \<and> d_enable_tracking
          (wr_state (projr (general_work example_env (replicate 32000 0) example_frame ?s)))
     \<and> d_queue
          (wr_state (projr (general_work example_env (replicate 32000 0) example_frame ?s)))
         = Some []"
    unfolding r
    using a b c p q ch run inst
    by simp
  then have w: "d_enable_tracking (run_windows (replicate 200 (0, 0)) ?s)"
    "\<not> d_enable_tracking (run_windows (replicate 200 (0, 0) @ [(0, 0)]) ?s)"
    "d_queue (run_windows (replicate 200 (0, 0) @ [(0, 0)]) ?s) = Some [(3, 2)]"
    by blast+
  have second: "\<not> isl (run_epochs example_env (replicate 2211 ?c) ?s)
     \<and> \<not> d_enable_tracking (projr (run_epochs example_env (replicate 2211 ?c) ?s))
     \<and> d_queue (projr (run_epochs example_env (replicate 2211 ?c) ?s)) = Some [(3, 2)]
     \<and> \<not> isl (run_epochs example_env (replicate 2200 ?c) ?s)
     \<and> d_enable_tracking (projr (run_epochs example_env (replicate 2200 ?c) ?s))"
    unfolding run1 run2
    using m1 m2 w by (simp add: monitor_def)
  from first second show ?thesis by simp
qed

subsection \<open>The carrier phase residual\<close>

text \<open>
  Claim C3, as the specification states it, fails: \<^verbatim>\<open>fmod\<close> gives a result with the
  sign of its first argument and the source does not correct it. With an acquisition
  Doppler of -100 Hz the first carrier replica update after pull-in ends at the phase
  \<open>-0.4 \<sqdot> 2\<pi>\<close> and stores this negative value as the residual; the first tracking
  epoch returns with it.
\<close>

theorem rem_carr_phase_negative_counterexample:
  "d_carrier_doppler_hz (aligned_tracker None False (3 / 5) (- 100)) = - 100
   \<and> \<not> isl (update_local_carrier example_env (aligned_tracker None False (3 / 5) (- 100)))
   \<and> d_rem_carr_phase_rad
        (projr (update_local_carrier example_env (aligned_tracker None False (3 / 5) (- 100))))
       = - (2 / 5) * GPS_TWO_PI example_env
   \<and> d_rem_carr_phase_rad
        (projr (update_local_carrier example_env (aligned_tracker None False (3 / 5) (- 100))))
       < 0
   \<and> \<not> isl (general_work example_env (replicate 32000 0) example_frame
               (aligned_tracker None False (3 / 5) (- 100)))
   \<and> d_rem_carr_phase_rad
        (wr_state (projr (general_work example_env (replicate 32000 0) example_frame
                            (aligned_tracker None False (3 / 5) (- 100)))))
       < 0"
proof -
  let ?t = "aligned_tracker None False (3 / 5) (- 100)"
  have t: "d_fs_in ?t = 4000000" "d_carrier_doppler_hz ?t = - 100"
    "d_current_prn_length_samples ?t = 16000" "d_rem_carr_phase_rad ?t = 0"
    "length (d_carr_sign ?t) = 32000"
    by (simp_all add: aligned_tracker_unfold started_tracker_fields)
  have pi: "GPS_TWO_PI example_env = 6283185307179586 / 1000000000000000"
    by (simp add: example_env_def)
  from update_local_carrier_returns [of ?t example_env] t pi
  obtain s' where s': "update_local_carrier example_env ?t = Inr s'" by auto
  have "d_rem_carr_phase_rad s'
          = c_fmod (- (2 / 5) * GPS_TWO_PI example_env) (GPS_TWO_PI example_env)"
    using update_local_carrier_rem [OF s'] t by simp
  also have "\<dots> = - (2 / 5) * GPS_TWO_PI example_env"
    by (rule c_fmod_small) (simp_all add: pi)
  finally have carrier: "d_rem_carr_phase_rad s' = - (2 / 5) * GPS_TWO_PI example_env" .
  from first_tracking_epoch [of "replicate 32000 0" None False "- 100"]
  obtain r where r: "general_work example_env (replicate 32000 0) example_frame ?t = Inr r"
    and "d_rem_carr_phase_rad (wr_state r)
           = c_fmod (16000 * (GPS_TWO_PI example_env * (- 100) / 4000000))
                    (GPS_TWO_PI example_env)"
    by blast
  moreover have "c_fmod (16000 * (GPS_TWO_PI example_env * (- 100) / 4000000))
                    (GPS_TWO_PI example_env) = - (2 / 5) * GPS_TWO_PI example_env"
    using c_fmod_small [of "GPS_TWO_PI example_env" "- (2 / 5) * GPS_TWO_PI example_env"]
    by (simp add: pi)
  ultimately have epoch: "d_rem_carr_phase_rad (wr_state r) = - (2 / 5) * GPS_TWO_PI example_env"
    by simp
  show ?thesis unfolding s' r using t(2) carrier epoch by (simp add: pi)
qed

text \<open>
  Claim C3, amended. After the carrier replica update the residual is the \<^verbatim>\<open>fmod\<close> of the
  final accumulated phase and has its sign: it lies strictly between \<open>-2\<pi>\<close> and \<open>2\<pi>\<close>; it
  satisfies \<open>0 \<le> rem < 2\<pi>\<close> when the final phase is not negative, and \<open>-2\<pi> < rem \<le> 0\<close>
  when it is negative.
\<close>

theorem rem_carr_phase_has_sign_of_phase:
  assumes "update_local_carrier E s = Inr s'" and "0 < GPS_TWO_PI E"
  defines "phase \<equiv> d_rem_carr_phase_rad s + real (nat (d_current_prn_length_samples s))
                       * (GPS_TWO_PI E * d_carrier_doppler_hz s / real_of_int (d_fs_in s))"
  shows "d_rem_carr_phase_rad s' = c_fmod phase (GPS_TWO_PI E)
         \<and> - GPS_TWO_PI E < d_rem_carr_phase_rad s'
         \<and> d_rem_carr_phase_rad s' < GPS_TWO_PI E
         \<and> (0 \<le> phase \<longrightarrow> 0 \<le> d_rem_carr_phase_rad s')
         \<and> (phase < 0 \<longrightarrow> d_rem_carr_phase_rad s' \<le> 0)"
proof -
  have eq: "d_rem_carr_phase_rad s' = c_fmod phase (GPS_TWO_PI E)"
    unfolding phase_def by (rule update_local_carrier_rem [OF assms(1)])
  show ?thesis
  proof (cases "0 \<le> phase")
    case True
    from c_fmod_nonneg [OF assms(2) True] assms(2) True show ?thesis by (simp add: eq)
  next
    case False
    then have "phase < 0" by simp
    from c_fmod_neg [OF assms(2) this] assms(2) this show ?thesis by (simp add: eq)
  qed
qed

theorem rem_carr_phase_has_sign_of_phase_witness:
  "\<not> isl (update_local_carrier example_env (aligned_tracker None False (3 / 5) 500))
   \<and> 0 < GPS_TWO_PI example_env
   \<and> 0 \<le> d_rem_carr_phase_rad
        (projr (update_local_carrier example_env (aligned_tracker None False (3 / 5) 500)))
   \<and> d_rem_carr_phase_rad
        (projr (update_local_carrier example_env (aligned_tracker None False (3 / 5) 500)))
       < GPS_TWO_PI example_env"
proof -
  let ?t = "aligned_tracker None False (3 / 5) 500"
  have t: "d_fs_in ?t = 4000000" "d_carrier_doppler_hz ?t = 500"
    "d_current_prn_length_samples ?t = 16000" "d_rem_carr_phase_rad ?t = 0"
    "length (d_carr_sign ?t) = 32000"
    by (simp_all add: aligned_tracker_unfold started_tracker_fields)
  have pi: "0 < GPS_TWO_PI example_env"
    by (simp add: example_env_def)
  from update_local_carrier_returns [of ?t example_env] t pi
  obtain s' where s': "update_local_carrier example_env ?t = Inr s'" by auto
  from rem_carr_phase_has_sign_of_phase [OF s' pi] t pi show ?thesis
    unfolding s' by simp
qed

subsection \<open>The pull-in call\<close>

text \<open>
  Claim C4 describes the intended behaviour; the source misses one part of it. In the
  cold pull-in scenario of the specification (\<^verbatim>\<open>acq_sample_stamp = 0\<close>, a code phase of
  123 samples, \<^verbatim>\<open>vector_length = 16000\<close>, sample counter 0) the call returns, consumes
  16123 samples, advances the sample counter to 16123, leaves pull-in and reports one
  output item, but it returns before any assignment to \<^verbatim>\<open>*out[0]\<close>: the output record
  is not written, so it does not carry the acquisition data.
\<close>

theorem pull_in_call_writes_no_output_record:
  "\<not> isl (general_work example_env (replicate 32000 0) example_frame
             (started_tracker None False (3 / 5) 500))
   \<and> wr_consumed (projr (general_work example_env (replicate 32000 0) example_frame
                            (started_tracker None False (3 / 5) 500))) = 16123
   \<and> wr_return (projr (general_work example_env (replicate 32000 0) example_frame
                          (started_tracker None False (3 / 5) 500))) = 1
   \<and> d_sample_counter (aligned_tracker None False (3 / 5) 500) = 16123
   \<and> \<not> d_pull_in (aligned_tracker None False (3 / 5) 500)
   \<and> d_enable_tracking (aligned_tracker None False (3 / 5) 500)
   \<and> wr_out (projr (general_work example_env (replicate 32000 0) example_frame
                       (started_tracker None False (3 / 5) 500))) = None
   \<and> wr_out (projr (general_work example_env (replicate 32000 0) example_frame
                       (started_tracker None False (3 / 5) 500)))
        \<noteq> Some (example_synchro 500)"
proof -
  let ?t = "started_tracker None False (3 / 5) 500"
  have off: "c_round (123 + real_of_int (16000 - 0 mod 16000)) = 16123"
    using c_round_of_int [of 16123] by simp
  have r: "general_work example_env (replicate 32000 0) example_frame ?t
          = Inr \<lparr>wr_state = ?t\<lparr>d_sample_counter := 16123, d_pull_in := False,
                               d_debug_counter := d_debug_counter ?t + 1\<rparr>,
                 wr_consumed = 16123, wr_out = None, wr_return = 1\<rparr>"
    using pull_in_call [of ?t example_env "replicate 32000 0" example_frame] off
    by (simp add: started_tracker_fields)
  show ?thesis
    unfolding aligned_tracker_def r by (simp add: started_tracker_fields)
qed

subsection \<open>The index into the local code\<close>

text \<open>
  Claim C5, as the specification states it, fails: the source applies \<^verbatim>\<open>fmod\<close> and adds
  nothing to a negative result. With \<open>L = 4092\<close> and a very-early-late spacing of 0.6
  chips the first operand of an epoch is \<open>-1.2\<close> half chips and \<^verbatim>\<open>fmod\<close> returns
  \<open>-1.2\<close>. With a spacing of 1.5 chips the first operand is \<open>-3\<close>, \<^verbatim>\<open>fmod\<close> returns
  \<open>-3\<close>, the index is \<open>-1\<close>, and the first iteration of the loop reads before the start
  of \<^verbatim>\<open>d_ca_code\<close>.
\<close>

theorem chip_index_negative_counterexample:
  "c_fmod (0 - 2 * (3 / 5)) (real_of_int 8184) = - (6 / 5)
   \<and> c_fmod (0 - 2 * (3 / 2)) (real_of_int 8184) = - 3
   \<and> associated_chip_index 0 (3 / 2) 8184 = - 1
   \<and> d_very_early_late_spc_chips (aligned_tracker None False (3 / 2) 500) = 3 / 2
   \<and> update_local_code example_env (aligned_tracker None False (3 / 2) 500)
       = Inl (OutOfBounds (- 1))"
proof -
  let ?t = "aligned_tracker None False (3 / 2) 500"
  have fm': "c_fmod (0 - 2 * (3 / 5)) (real_of_int 8184) = - (6 / 5)"
    using c_fmod_small [of 8184 "- (6 / 5)"] by simp
  have fm: "c_fmod (0 - 2 * (3 / 2)) (real_of_int 8184) = - 3"
    using c_fmod_small [of 8184 "- 3"] by simp
  then have idx: "associated_chip_index 0 (3 / 2) 8184 = - 1"
    using c_round_of_int [of "- 3"] by (simp add: associated_chip_index_def)
  have t: "d_fs_in ?t = 4000000" "d_code_freq_hz ?t = 1023000"
    "d_current_prn_length_samples ?t = 16000" "d_rem_code_phase_samples ?t = 0"
    "d_very_early_late_spc_chips ?t = 3 / 2" "d_early_late_spc_chips ?t = 15 / 100"
    by (simp_all add: aligned_tracker_unfold started_tracker_fields)
  have L: "Galileo_E1_B_CODE_LENGTH_CHIPS example_env = 4092"
    by (simp add: example_env_def)
  have vel: "c_round ((3 / 2) / (1023000 / 4000000)) = 6"
    by (simp add: c_round_def)
  have loop: "fill_very_early (d_ca_code ?t) (3 / 2) 8184 (2 * 1023000 / 4000000)
                (nat (16000 + 6 * 2)) 0 0 (d_very_early_code ?t)
              = Inl (OutOfBounds (- 1))"
    using fill_very_early_first_out_of_bounds [of "nat (16000 + 6 * 2)" 0 "3 / 2" 8184
        "d_ca_code ?t" "2 * 1023000 / 4000000" 0 "d_very_early_code ?t"] idx
    by simp
  have "update_local_code example_env ?t = Inl (OutOfBounds (- 1))"
    unfolding update_local_code_def Let_def t L using vel loop
    by (simp add: bind_err_def)
  with fm fm' idx t(5) show ?thesis by simp
qed

text \<open>
  Claim C5, amended. The modular reduction is the sign-matched \<^verbatim>\<open>fmod\<close> without a
  correction: for a negative operand its result is not positive. The index
  \<open>2 + round(fmod(t - 2 \<sqdot> spacing, 2L))\<close> lies between \<open>2 - 2L\<close> and \<open>2L + 2\<close>. It lies in
  \<open>[0, 2L + 2]\<close>, inside the guard-padded array, whenever the operand is greater than
  \<open>-2.5\<close> half chips; then, with a non-negative phase step and an array of at least
  \<open>2L + 3\<close> cells, no iteration of the loop reads \<^verbatim>\<open>d_ca_code\<close> out of bounds. So
  \<^verbatim>\<open>update_local_code\<close> reads \<^verbatim>\<open>d_ca_code\<close> within bounds when the sampling and code
  frequencies are positive and the code phase residual in half chips plus twice the
  very-early-late spacing is below 2.5.
\<close>

theorem chip_index_within_guard_cells:
  assumes "0 < len"
  shows "(tcode - 2 * spc < 0 \<longrightarrow> c_fmod (tcode - 2 * spc) (real_of_int len) \<le> 0)
         \<and> 2 - len \<le> associated_chip_index tcode spc len
         \<and> associated_chip_index tcode spc len \<le> len + 2
         \<and> (- 5 / 2 < tcode - 2 * spc \<longrightarrow> 0 \<le> associated_chip_index tcode spc len)
         \<and> (- 5 / 2 < tcode - 2 * spc \<and> 0 \<le> step \<and> len + 3 \<le> int (length ca) \<longrightarrow>
              fill_very_early ca spc len step k i tcode ve \<noteq> Inl (OutOfBounds j))
         \<and> (len = int (2 * Galileo_E1_B_CODE_LENGTH_CHIPS E)
              \<and> 0 < d_fs_in s \<and> 0 < d_code_freq_hz s
              \<and> 2 * Galileo_E1_B_CODE_LENGTH_CHIPS E + 3 \<le> length (d_ca_code s)
              \<and> d_rem_code_phase_samples s * (2 * d_code_freq_hz s / real_of_int (d_fs_in s))
                    + 2 * d_very_early_late_spc_chips s < 5 / 2 \<longrightarrow>
              update_local_code E s \<noteq> Inl (OutOfBounds j))"
proof -
  have a: "tcode - 2 * spc < 0 \<longrightarrow> c_fmod (tcode - 2 * spc) (real_of_int len) \<le> 0"
    using c_fmod_neg [of "real_of_int len" "tcode - 2 * spc"] assms by simp
  have b: "- 5 / 2 < tcode - 2 * spc \<longrightarrow> 0 \<le> associated_chip_index tcode spc len"
    using chip_index_nonneg [OF assms] by simp
  have c: "- 5 / 2 < tcode - 2 * spc \<and> 0 \<le> step \<and> len + 3 \<le> int (length ca) \<longrightarrow>
             fill_very_early ca spc len step k i tcode ve \<noteq> Inl (OutOfBounds j)"
    using fill_very_early_in_bounds [OF assms] by simp
  have d: "len = int (2 * Galileo_E1_B_CODE_LENGTH_CHIPS E)
              \<and> 0 < d_fs_in s \<and> 0 < d_code_freq_hz s
              \<and> 2 * Galileo_E1_B_CODE_LENGTH_CHIPS E + 3 \<le> length (d_ca_code s)
              \<and> d_rem_code_phase_samples s * (2 * d_code_freq_hz s / real_of_int (d_fs_in s))
                    + 2 * d_very_early_late_spc_chips s < 5 / 2 \<longrightarrow>
              update_local_code E s \<noteq> Inl (OutOfBounds j)"
    using update_local_code_in_bounds [of s E j] assms by auto
  from a b c d chip_index_bounds [OF assms, of tcode spc] show ?thesis by simp
qed

theorem chip_index_within_guard_cells_witness:
  "(0 :: int) < 8184
   \<and> (0 :: real) - 2 * (3 / 5) < 0
   \<and> c_fmod (0 - 2 * (3 / 5)) (real_of_int 8184) \<le> 0
   \<and> - 5 / 2 < (0 :: real) - 2 * (3 / 5)
   \<and> 0 \<le> associated_chip_index 0 (3 / 5) 8184
   \<and> associated_chip_index 0 (3 / 5) 8184 \<le> 8184 + 2
   \<and> (0 :: real) \<le> 2 * 1023000 / 4000000
   \<and> 8184 + 3 \<le> int (length (d_ca_code (aligned_tracker None False (3 / 5) 500)))
   \<and> fill_very_early (d_ca_code (aligned_tracker None False (3 / 5) 500)) (3 / 5) 8184
        (2 * 1023000 / 4000000) 16004 0 0
        (d_very_early_code (aligned_tracker None False (3 / 5) 500)) \<noteq> Inl (OutOfBounds (- 1))
   \<and> (8184 :: int) = int (2 * Galileo_E1_B_CODE_LENGTH_CHIPS example_env)
   \<and> 0 < d_fs_in (aligned_tracker None False (3 / 5) 500)
   \<and> 0 < d_code_freq_hz (aligned_tracker None False (3 / 5) 500)
   \<and> d_rem_code_phase_samples (aligned_tracker None False (3 / 5) 500)
        * (2 * d_code_freq_hz (aligned_tracker None False (3 / 5) 500)
             / real_of_int (d_fs_in (aligned_tracker None False (3 / 5) 500)))
      + 2 * d_very_early_late_spc_chips (aligned_tracker None False (3 / 5) 500) < 5 / 2
   \<and> update_local_code example_env (aligned_tracker None False (3 / 5) 500)
        \<noteq> Inl (OutOfBounds (- 1))"
proof -
  let ?t = "aligned_tracker None False (3 / 5) 500"
  have t: "d_fs_in ?t = 4000000" "d_code_freq_hz ?t = 1023000" "d_rem_code_phase_samples ?t = 0"
    "d_very_early_late_spc_chips ?t = 3 / 5" "length (d_ca_code ?t) = 8188"
    by (simp_all add: aligned_tracker_unfold started_tracker_fields)
  have L: "Galileo_E1_B_CODE_LENGTH_CHIPS example_env = 4092"
    by (simp add: example_env_def)
  show ?thesis
    using chip_index_within_guard_cells [of 8184 0 "3 / 5" "2 * 1023000 / 4000000"
        "d_ca_code ?t" 16004 0 "d_very_early_code ?t" "- 1" example_env ?t]
    by (simp add: t L)
qed

subsection \<open>The cyclic extension of the local code\<close>

text \<open>
  Claim C6. After a call of \<^verbatim>\<open>start_tracking\<close> that returns, on an object reachable
  from the constructor, the local code satisfies the cyclic-extension invariant; no later
  call of \<^verbatim>\<open>general_work\<close> modifies \<^verbatim>\<open>d_ca_code\<close>, so the invariant holds after
  every later epoch.
\<close>

theorem ca_code_cyclic_extension_kept:
  assumes "reachable E s" and "start_tracking E s = Inr s1" and "run_epochs E calls s1 = Inr s2"
  shows "cyclic_extension (Galileo_E1_B_CODE_LENGTH_CHIPS E) (d_ca_code s1)
         \<and> d_ca_code s2 = d_ca_code s1
         \<and> cyclic_extension (Galileo_E1_B_CODE_LENGTH_CHIPS E) (d_ca_code s2)"
proof -
  from reachable_object_inv [OF assms(1)]
  have "length (d_ca_code s) = 2 * Galileo_E1_B_CODE_LENGTH_CHIPS E + 4"
    by (simp add: object_inv_def)
  from start_tracking_cyclic_extension [OF assms(2) this] run_epochs_ca_code [OF assms(3)]
  show ?thesis by simp
qed

theorem ca_code_cyclic_extension_kept_witness:
  "reachable example_env
     (set_gnss_synchro (example_synchro 500)
        (set_channel example_env 3 (new_tracker None False (3 / 5))))
   \<and> start_tracking example_env
        (set_gnss_synchro (example_synchro 500)
           (set_channel example_env 3 (new_tracker None False (3 / 5))))
       = Inr (started_tracker None False (3 / 5) 500)
   \<and> run_epochs example_env
        [(replicate 32000 0, example_frame), (replicate 32000 0, example_frame)]
        (started_tracker None False (3 / 5) 500)
       = Inr (wr_state (projr (general_work example_env (replicate 32000 0) example_frame
                                 (aligned_tracker None False (3 / 5) 500))))
   \<and> cyclic_extension 4092 (d_ca_code (started_tracker None False (3 / 5) 500))
   \<and> cyclic_extension 4092
        (d_ca_code (wr_state (projr (general_work example_env (replicate 32000 0) example_frame
                                       (aligned_tracker None False (3 / 5) 500)))))"
proof -
  let ?s = "set_gnss_synchro (example_synchro 500)
              (set_channel example_env 3 (new_tracker None False (3 / 5)))"
  let ?calls = "[(replicate 32000 (0 :: complex), example_frame),
                 (replicate 32000 (0 :: complex), example_frame)]"
  have a: "reachable example_env ?s"
    by (intro reach_set_gnss_synchro reach_set_channel, unfold new_tracker_def, rule reach_new)
  have b: "start_tracking example_env ?s = Inr (started_tracker None False (3 / 5) 500)"
    by (rule started_tracker_eq)
  from first_tracking_epoch [of "replicate 32000 0" None False 500]
  obtain r where r: "general_work example_env (replicate 32000 0) example_frame
                       (aligned_tracker None False (3 / 5) 500) = Inr r"
    by blast
  have c: "run_epochs example_env ?calls (started_tracker None False (3 / 5) 500)
             = Inr (wr_state r)"
    by (simp add: bind_err_def aligned_tracker_eq r)
  have "Galileo_E1_B_CODE_LENGTH_CHIPS example_env = 4092"
    by (simp add: example_env_def)
  with a b c ca_code_cyclic_extension_kept [OF a b c] show ?thesis
    unfolding r by simp
qed

subsection \<open>The loop filters on tracking start\<close>




subsection \<open>The dump record\<close>

text \<open>
  Claim C8, as the specification states it, fails: the pull-in call returns before the
  dump section. With dump enabled and the dump file open, the pull-in call of the concrete
  receiver returns and the file is as empty as before.
\<close>

theorem dump_on_pull_in_counterexample:
  "d_dump (started_tracker None True (3 / 5) 500)
   \<and> d_dump_file (started_tracker None True (3 / 5) 500)
       = Opened \<lparr>file_name = ''trk3.dat'', file_data = []\<rparr>
   \<and> \<not> isl (general_work example_env (replicate 32000 0) example_frame
               (started_tracker None True (3 / 5) 500))
   \<and> d_dump_file (wr_state (projr (general_work example_env (replicate 32000 0) example_frame
                                      (started_tracker None True (3 / 5) 500))))
       = Opened \<lparr>file_name = ''trk3.dat'', file_data = []\<rparr>"
  unfolding aligned_tracker_eq
  by (simp add: aligned_tracker_unfold started_tracker_fields)

text \<open>
  Claim C8, amended. When dump is enabled and the dump file is open, each call of
  \<^verbatim>\<open>general_work\<close> that is not the pull-in alignment call and reaches the dump section
  appends exactly one record of 19 fields and 84 bytes: seven \<^verbatim>\<open>float\<close>s (the moduli of
  the five correlator outputs, the imaginary and the real part of Prompt), the 64-bit
  sample counter, ten \<^verbatim>\<open>float\<close>s (accumulated carrier phase, carrier Doppler, code
  frequency, the four loop variables, C/N0, lock test, code phase residual) and a
  \<^verbatim>\<open>double\<close> with the sample counter plus the current block length. The pull-in call
  appends nothing.
\<close>

theorem dump_record_appended:
  assumes "d_dump s" and "d_dump_file s = Opened f"
    and "\<not> (d_enable_tracking s \<and> d_pull_in s)"
    and "epoch_body E inp fr s = Inr (fr1, s1)"
  shows "general_work E inp fr s = Inr (finish_epoch fr1 s1)
         \<and> d_dump_file (wr_state (finish_epoch fr1 s1))
             = Opened (f\<lparr>file_data := file_data f @ dump_record fr1 s1\<rparr>)
         \<and> length (dump_record fr1 s1) = 19
         \<and> sum_list (map field_bytes (dump_record fr1 s1)) = 84
         \<and> dump_record fr1 s1 =
             [Float32 (cmod (d_Very_Early s1)), Float32 (cmod (d_Early s1)),
              Float32 (cmod (d_Prompt s1)), Float32 (cmod (d_Late s1)),
              Float32 (cmod (d_Very_Late s1)), Float32 (Im (d_Prompt s1)),
              Float32 (Re (d_Prompt s1)), UInt64 (d_sample_counter s1),
              Float32 (d_acc_carrier_phase_rad s1), Float32 (d_carrier_doppler_hz s1),
              Float32 (d_code_freq_hz s1), Float32 (carr_error fr1), Float32 (carr_nco fr1),
              Float32 (code_error fr1), Float32 (code_nco fr1), Float32 (d_CN0_SNV_dB_Hz s1),
              Float32 (d_carrier_lock_test s1), Float32 (d_rem_code_phase_samples s1),
              Float64 (real (unat (d_sample_counter s1
                                     + word_of_int (d_current_prn_length_samples s1))))]"
proof -
  from epoch_body_dump [OF assms(4)] assms(1,2)
  have "d_dump s1" "d_dump_file s1 = Opened f" by simp_all
  then have "d_dump_file (wr_state (finish_epoch fr1 s1))
               = Opened (f\<lparr>file_data := file_data f @ dump_record fr1 s1\<rparr>)"
    by (simp add: finish_epoch_def Let_def write_dump_def)
  with general_work_epoch_body [OF assms(3,4)] show ?thesis
    by (simp add: dump_record_def)
qed

theorem dump_record_appended_witness:
  "d_dump (aligned_tracker None True (3 / 5) 500)
   \<and> d_dump_file (aligned_tracker None True (3 / 5) 500)
       = Opened \<lparr>file_name = ''trk3.dat'', file_data = []\<rparr>
   \<and> \<not> (d_enable_tracking (aligned_tracker None True (3 / 5) 500)
         \<and> d_pull_in (aligned_tracker None True (3 / 5) 500))
   \<and> \<not> isl (epoch_body example_env (replicate 32000 0) example_frame
               (aligned_tracker None True (3 / 5) 500))
   \<and> \<not> isl (general_work example_env (replicate 32000 0) example_frame
               (aligned_tracker None True (3 / 5) 500))
   \<and> map_option file_name
        (stream_file
           (d_dump_file (wr_state (projr (general_work example_env (replicate 32000 0) example_frame
                                            (aligned_tracker None True (3 / 5) 500))))))
       = Some ''trk3.dat''
   \<and> map_option (\<lambda>f. length (file_data f))
        (stream_file
           (d_dump_file (wr_state (projr (general_work example_env (replicate 32000 0) example_frame
                                            (aligned_tracker None True (3 / 5) 500))))))
       = Some 19
   \<and> map_option (\<lambda>f. sum_list (map field_bytes (file_data f)))
        (stream_file
           (d_dump_file (wr_state (projr (general_work example_env (replicate 32000 0) example_frame
                                            (aligned_tracker None True (3 / 5) 500))))))
       = Some 84
   \<and> map_option (\<lambda>f. file_data f ! 7)
        (stream_file
           (d_dump_file (wr_state (projr (general_work example_env (replicate 32000 0) example_frame
                                            (aligned_tracker None True (3 / 5) 500))))))
       = Some (UInt64 16123)"
proof -
  let ?t = "aligned_tracker None True (3 / 5) 500"
  let ?f = "\<lparr>file_name = ''trk3.dat'', file_data = []\<rparr>"
  have a: "d_dump ?t" and b: "d_dump_file ?t = Opened ?f"
    and c: "\<not> (d_enable_tracking ?t \<and> d_pull_in ?t)" and en: "d_enable_tracking ?t"
    by (simp_all add: aligned_tracker_unfold started_tracker_fields)
  from first_tracking_epoch [of "replicate 32000 0" None True 500]
  obtain fr1 s1 where te: "tracking_epoch example_env (replicate 32000 0) example_frame ?t
                             = Inr (fr1, s1)"
    by blast
  have d: "epoch_body example_env (replicate 32000 0) example_frame ?t = Inr (fr1, s1)"
    using te en by (simp add: epoch_body_def)
  from tracking_epoch_decomp [OF te] obtain s4 s5 where
    s4: "same_control ?t s4" and s5: "cn0_and_lock example_env s4 = Inr s5"
    and s1: "second_counter s5 = Inr s1"
    by blast
  from second_counter_shape [OF s1] obtain seg where "s1 = s5\<lparr>d_last_seg := seg\<rparr>" ..
  moreover from cn0_and_lock_cases [OF s5] have "d_sample_counter s5 = d_sample_counter s4"
    by (auto simp: lock_window_fields)
  ultimately have sc: "d_sample_counter s1 = 16123"
    using s4 by (simp add: same_control_def aligned_tracker_unfold)
  from a b c dump_record_appended [OF a b c d] sc show ?thesis
    unfolding d by simp
qed

subsection \<open>The dump file name\<close>

text \<open>
  Claim C9, as the specification states it, fails: the source appends the channel number
  and \<^verbatim>\<open>.dat\<close> to the configured name and inserts no underscore. With the name
  \<^verbatim>\<open>trk\<close> and channel 3 the file opened is \<^verbatim>\<open>trk3.dat\<close>, not \<^verbatim>\<open>trk_3.dat\<close>.
\<close>

theorem dump_filename_underscore_counterexample:
  "d_dump (new_tracker None True (3 / 5))
   \<and> spec_dump_filename ''trk'' 3 = ''trk_3.dat''
   \<and> d_dump_file (set_channel example_env 3 (new_tracker None True (3 / 5)))
        = Opened \<lparr>file_name = ''trk3.dat'', file_data = []\<rparr>
   \<and> d_dump_file (set_channel example_env 3 (new_tracker None True (3 / 5)))
        \<noteq> Opened \<lparr>file_name = spec_dump_filename ''trk'' 3, file_data = []\<rparr>"
  by (simp add: new_tracker_def new_object_fields set_channel_def Let_def example_env_def
        spec_dump_filename_def)

text \<open>
  Claim C9, amended. Let the object be constructed with the dump file name
  \<open>dump_filename\<close> and be in any state that calls of its member functions lead to. For every
  channel index, when dump is enabled, the dump stream is closed with no error bit set and
  the file can be opened, \<^verbatim>\<open>set_channel\<close> opens the file whose name is the configured
  name followed directly by the decimal channel number and \<^verbatim>\<open>.dat\<close>, and the file is
  empty; whenever \<^verbatim>\<open>set_channel\<close> opens a file, it is that one. A stream with an error
  bit, left by an open that failed or by a record written to the closed stream, is not
  opened by \<^verbatim>\<open>set_channel\<close>.
\<close>

theorem set_channel_opens_file_without_underscore:
  assumes "configured E dump_filename s"
  shows "(d_dump s \<and> d_dump_file s = Closed
            \<and> file_open E (dump_filename @ string_of_nat (unat channel) @ ''.dat'') \<longrightarrow>
            d_dump_file (set_channel E channel s)
              = Opened \<lparr>file_name = dump_filename @ string_of_nat (unat channel) @ ''.dat'',
                         file_data = []\<rparr>)
         \<and> d_channel (set_channel E channel s) = channel
         \<and> (\<not> is_open (d_dump_file s) \<and> d_dump_file (set_channel E channel s) = Opened f \<longrightarrow>
              f = \<lparr>file_name = dump_filename @ string_of_nat (unat channel) @ ''.dat'',
                    file_data = []\<rparr>)
         \<and> (d_dump_file s = Failed \<longrightarrow> d_dump_file (set_channel E channel s) = Failed)"
proof -
  note name = configured_closed_name [OF assms]
  have first: "d_dump s \<and> d_dump_file s = Closed
            \<and> file_open E (dump_filename @ string_of_nat (unat channel) @ ''.dat'') \<longrightarrow>
            d_dump_file (set_channel E channel s)
              = Opened \<lparr>file_name = dump_filename @ string_of_nat (unat channel) @ ''.dat'',
                         file_data = []\<rparr>"
    using name by (simp add: set_channel_stream del: string_of_nat.simps)
  have second: "d_channel (set_channel E channel s) = channel"
    by (simp add: set_channel_fields)
  have third: "\<not> is_open (d_dump_file s) \<and> d_dump_file (set_channel E channel s) = Opened f \<longrightarrow>
              f = \<lparr>file_name = dump_filename @ string_of_nat (unat channel) @ ''.dat'',
                    file_data = []\<rparr>"
  proof
    assume a: "\<not> is_open (d_dump_file s) \<and> d_dump_file (set_channel E channel s) = Opened f"
    show "f = \<lparr>file_name = dump_filename @ string_of_nat (unat channel) @ ''.dat'',
               file_data = []\<rparr>"
    proof (cases "d_dump s \<and> d_dump_file s = Closed")
      case True
      with name have n: "d_dump_filename s = dump_filename" by simp
      show ?thesis
      proof (cases "file_open E (dump_filename @ string_of_nat (unat channel) @ ''.dat'')")
        case True
        with \<open>d_dump s \<and> d_dump_file s = Closed\<close> n a show ?thesis
          by (simp add: set_channel_stream del: string_of_nat.simps)
      next
        case False
        with \<open>d_dump s \<and> d_dump_file s = Closed\<close> n a show ?thesis
          by (simp add: set_channel_stream del: string_of_nat.simps)
      qed
    next
      case False
      then have "d_dump_file (set_channel E channel s) = d_dump_file s"
        by (simp add: set_channel_stream del: string_of_nat.simps)
      with a show ?thesis by (cases "d_dump_file s") simp_all
    qed
  qed
  have fourth: "d_dump_file s = Failed \<longrightarrow> d_dump_file (set_channel E channel s) = Failed"
    by (simp add: set_channel_stream del: string_of_nat.simps)
  show ?thesis by (rule conjI [OF first conjI [OF second conjI [OF third fourth]]])
qed

theorem set_channel_opens_file_without_underscore_witness:
  "configured example_env ''trk'' (new_tracker None True (3 / 5))
   \<and> d_dump (new_tracker None True (3 / 5))
   \<and> d_dump_file (new_tracker None True (3 / 5)) = Closed
   \<and> file_open example_env (''trk'' @ string_of_nat (unat (3 :: 32 word)) @ ''.dat'')
   \<and> d_dump_file (set_channel example_env 3 (new_tracker None True (3 / 5)))
        = Opened \<lparr>file_name = ''trk3.dat'', file_data = []\<rparr>
   \<and> d_channel (set_channel example_env 3 (new_tracker None True (3 / 5))) = 3
   \<and> configured locked_env ''trk'' (set_channel locked_env 3 locked_tracker)
   \<and> d_dump_file (set_channel locked_env 3 locked_tracker) = Failed
   \<and> d_dump_filename (set_channel locked_env 3 locked_tracker) = ''trk3.dat''
   \<and> file_open locked_env ''trk3.dat3.dat''
   \<and> d_dump_file (set_channel locked_env 3 (set_channel locked_env 3 locked_tracker)) = Failed"
proof -
  let ?s = "new_tracker None True (3 / 5)"
  let ?f = "\<lparr>file_name = ''trk3.dat'', file_data = []\<rparr>"
  have conf: "configured example_env ''trk'' ?s"
    unfolding new_tracker_def by (rule conf_new)
  have a: "d_dump ?s" and b: "d_dump_file ?s = Closed"
    and c: "file_open example_env (''trk'' @ string_of_nat (unat (3 :: 32 word)) @ ''.dat'')"
    by (simp_all add: new_tracker_def new_object_fields example_env_def)
  have n: "''trk'' @ string_of_nat (unat (3 :: 32 word)) @ ''.dat'' = ''trk3.dat''" by simp
  note inst = set_channel_opens_file_without_underscore [OF conf, of 3 ?f]
  from inst a b c have opened: "d_dump_file (set_channel example_env 3 ?s) = Opened ?f"
    unfolding n by blast
  from inst have ch: "d_channel (set_channel example_env 3 ?s) = 3" by blast
  let ?u = "set_channel locked_env 3 locked_tracker"
  have confl: "configured locked_env ''trk'' ?u"
    unfolding locked_tracker_def by (rule conf_set_channel [OF conf_new])
  have l: "d_dump locked_tracker" "d_dump_file locked_tracker = Closed"
    "d_dump_filename locked_tracker = ''trk''"
    by (simp_all add: locked_tracker_def new_object_fields)
  have u: "d_dump_file ?u = Failed" "d_dump_filename ?u = ''trk3.dat''"
    "file_open locked_env ''trk3.dat3.dat''"
    using l by (simp_all add: set_channel_stream set_channel_filename locked_env_def)
  from set_channel_opens_file_without_underscore [OF confl, of 3 ?f] u(1)
  have failed: "d_dump_file (set_channel locked_env 3 ?u) = Failed" by blast
  from conf a b c opened ch confl u failed show ?thesis by blast
qed

subsection \<open>The idle state\<close>

text \<open>
  Claim C10. A call of \<^verbatim>\<open>general_work\<close> while \<^verbatim>\<open>d_enable_tracking\<close> is false returns:
  it reports one output item, the item is the default-constructed synchro record, the Early,
  Prompt and Late correlator outputs are set to zero, \<^verbatim>\<open>d_current_prn_length_samples\<close>
  input samples are consumed and the sample counter advances by the same amount.
\<close>

theorem idle_call_outputs_default_record:
  assumes "\<not> d_enable_tracking s"
  shows "\<exists>r. general_work E inp fr s = Inr r
           \<and> wr_return r = 1
           \<and> wr_out r = Some (current_synchro_data fr)
           \<and> d_Early (wr_state r) = 0 \<and> d_Prompt (wr_state r) = 0 \<and> d_Late (wr_state r) = 0
           \<and> wr_consumed r = d_current_prn_length_samples s
           \<and> d_sample_counter (wr_state r)
               = d_sample_counter s + word_of_int (d_current_prn_length_samples s)
           \<and> \<not> d_enable_tracking (wr_state r)"
  using assms
  by (simp add: general_work_idle finish_epoch_def Let_def write_dump_fields idle_epoch_def)

theorem idle_call_outputs_default_record_witness:
  "\<not> d_enable_tracking (new_tracker None False (3 / 5))
   \<and> (\<exists>r. general_work example_env (replicate 32000 0) example_frame
             (new_tracker None False (3 / 5)) = Inr r
           \<and> wr_return r = 1
           \<and> wr_out r = Some (example_synchro 0)
           \<and> d_Early (wr_state r) = 0 \<and> d_Prompt (wr_state r) = 0 \<and> d_Late (wr_state r) = 0
           \<and> wr_consumed r = 16000
           \<and> d_sample_counter (wr_state r) = 16000
           \<and> \<not> d_enable_tracking (wr_state r))"
proof -
  have h: "\<not> d_enable_tracking (new_tracker None False (3 / 5))"
    by (simp add: new_tracker_def new_object_fields)
  show ?thesis
    using h idle_call_outputs_default_record [OF h, of example_env "replicate 32000 0" example_frame]
    by (simp add: new_tracker_def new_object_fields example_frame_def)
qed

end
